theory Spec2Isabelle
  imports Complex_Main "HOL-Library.Log_Nat"
begin

section \<open>JavaScript values used by the admin controller\<close>

text \<open>
  The admin controller (the Express handlers \<open>getDashboardOverview\<close>, \<open>getAllStudents\<close>,
  \<open>getStudentDetails\<close>, \<open>getAllGameSessions\<close> and \<open>exportStudentPerformance\<close>) reads its
  parameters from \<open>req.query\<close> and turns them into numbers with \<open>parseInt\<close>. Here
  \<open>req.query\<close> is a dictionary of strings (a parameter that is given twice arrives as an
  array; such requests are left out). A string is the list of its code units, each below
  256. A JavaScript number is a double: the numbers of the pagination are integers or
  one of the special values the handlers can produce, \<open>-0\<close>, \<open>NaN\<close> and the two
  infinities, and \<open>Num n\<close> is the double of the integer value \<open>n\<close>.
\<close>

datatype jsnum = Num int | NegZero | NaN | PosInf | NegInf

subsection \<open>Doubles\<close>

text \<open>
  The nearest integer to a rational, a tie going to the even one.
\<close>

definition roundHalfEven :: "rat \<Rightarrow> int" where
  "roundHalfEven y =
     (let f = \<lfloor>y\<rfloor>; d = y - of_int f
      in if d < 1 / 2 then f else if 1 / 2 < d then f + 1 else if even f then f else f + 1)"

text \<open>
  The binary exponent of a positive rational \<open>x\<close>: the \<open>e\<close> with
  \<open>2^e \<le> x < 2^(e+1)\<close>, from the bit length (\<open>floorlog 2\<close>) of the integer part of
  \<open>x\<close>, or of \<open>1 / x\<close> when \<open>x < 1\<close>.
\<close>

definition exponentOf :: "rat \<Rightarrow> int" where
  "exponentOf x =
     (if 1 \<le> x then int (floorlog 2 (nat \<lfloor>x\<rfloor>)) - 1
      else - int (floorlog 2 (nat (\<lceil>1 / x\<rceil> - 1))))"

text \<open>
  \<open>fl x\<close> is the double nearest to the exact value \<open>x\<close> (IEEE 754 binary64, round to
  nearest, ties to even): \<open>x\<close> is rounded to 53 significant bits. Every arithmetic
  operation of the runtime returns \<open>fl\<close> of its exact result. The exponent is not limited
  in \<open>fl\<close>, so this is the result of the runtime when that is zero or normal (of
  magnitude from \<open>2^-1022\<close> up to the overflow threshold); \<open>js_int\<close> below adds the
  overflow to an infinity for integers.
\<close>

definition fl :: "rat \<Rightarrow> rat" where
  "fl x =
     (if x = 0 then 0
      else let e = exponentOf \<bar>x\<bar>;
               ulp = power_int 2 (e - 52);
               m = roundHalfEven (\<bar>x\<bar> / ulp)
           in sgn x * (of_int m * ulp))"

text \<open>
  The double of an exact integer result: \<open>fl\<close> of it, or an infinity from
  \<open>2^1024 - 2^970\<close> on (half way from the largest double to \<open>2^1024\<close>).
\<close>

definition js_int :: "int \<Rightarrow> jsnum" where
  "js_int n =
     (if 2 ^ 1024 - 2 ^ 970 \<le> \<bar>n\<bar> then (if n < 0 then NegInf else PosInf)
      else Num \<lfloor>fl (of_int n)\<rfloor>)"

type_synonym req_query = "string \<Rightarrow> string option"

text \<open>\<open>const { k = d } = req.query\<close>: the default applies only when the key is absent.\<close>

definition param :: "req_query \<Rightarrow> string \<Rightarrow> string \<Rightarrow> string" where
  "param query k d = (case query k of None \<Rightarrow> d | Some v \<Rightarrow> v)"

text \<open>\<open>if (v)\<close> on an optional string: absent and the empty string are falsy.\<close>

definition truthy :: "string option \<Rightarrow> bool" where
  "truthy v = (case v of None \<Rightarrow> False | Some s \<Rightarrow> s \<noteq> [])"

text \<open>The string of a parameter that is given (read only where \<open>truthy\<close> holds).\<close>

definition given :: "string option \<Rightarrow> string" where
  "given v = (case v of None \<Rightarrow> [] | Some s \<Rightarrow> s)"

subsection \<open>parseInt\<close>

text \<open>
  White space and line terminators among the code units below 256: tab, line feed,
  vertical tab, form feed, carriage return, space and the no-break space U+00A0.
\<close>

definition isWhiteSpace :: "char \<Rightarrow> bool" where
  "isWhiteSpace c = (of_char c \<in> {9, 10, 11, 12, 13, 32, 160 :: nat})"

definition digitValue :: "char \<Rightarrow> nat option" where
  "digitValue c =
     (let n = of_char c :: nat in
      if 48 \<le> n \<and> n \<le> 57 then Some (n - 48)
      else if 97 \<le> n \<and> n \<le> 122 then Some (n - 87)
      else if 65 \<le> n \<and> n \<le> 90 then Some (n - 55)
      else None)"

definition isRadixDigit :: "nat \<Rightarrow> char \<Rightarrow> bool" where
  "isRadixDigit R c = (case digitValue c of None \<Rightarrow> False | Some d \<Rightarrow> d < R)"

definition digitsValue :: "nat \<Rightarrow> string \<Rightarrow> nat" where
  "digitsValue R ds = foldl (\<lambda>a c. a * R + (case digitValue c of None \<Rightarrow> 0 | Some d \<Rightarrow> d)) 0 ds"

text \<open>
  \<open>parseInt(string)\<close> with no radix: leading white space is dropped, a sign is read, a
  \<open>0x\<close> prefix switches to radix 16, and the longest prefix of digits is the value, as
  the double nearest to it (\<open>parseInt('9007199254740993')\<close> is \<open>9007199254740992\<close>, and
  310 nines give \<open>Infinity\<close>); no digit at all gives \<open>NaN\<close>, and \<open>parseInt('-0')\<close> is
  \<open>-0\<close>.
\<close>

definition parseInt :: "string \<Rightarrow> jsnum" where
  "parseInt inputString =
     (let S = dropWhile isWhiteSpace inputString;
          neg = (take 1 S = ''-'');
          S1 = (if take 1 S = ''+'' \<or> take 1 S = ''-'' then drop 1 S else S);
          hex = (take 2 S1 = ''0x'' \<or> take 2 S1 = ''0X'');
          R = (if hex then 16 else 10);
          S2 = (if hex then drop 2 S1 else S1);
          Z = takeWhile (isRadixDigit R) S2
      in if Z = [] then NaN
         else if neg then (if digitsValue R Z = 0 then NegZero else js_int (- int (digitsValue R Z)))
         else js_int (int (digitsValue R Z)))"

subsection \<open>Arithmetic of the pagination\<close>

text \<open>\<open>a - 1\<close>: the double of the exact difference.\<close>

fun js_minus_one :: "jsnum \<Rightarrow> jsnum" where
  "js_minus_one (Num n) = js_int (n - 1)"
| "js_minus_one NegZero = Num (- 1)"
| "js_minus_one NaN = NaN"
| "js_minus_one PosInf = PosInf"
| "js_minus_one NegInf = NegInf"

fun js_negative :: "jsnum \<Rightarrow> bool" where
  "js_negative (Num n) = (n < 0)"
| "js_negative NegZero = True"
| "js_negative NegInf = True"
| "js_negative x = False"

fun js_magnitude :: "jsnum \<Rightarrow> nat option" where
  "js_magnitude (Num n) = Some (nat \<bar>n\<bar>)"
| "js_magnitude NegZero = Some 0"
| "js_magnitude x = None"

text \<open>The double of an exact product, from its sign and its magnitude.\<close>

definition js_signed :: "bool \<Rightarrow> nat \<Rightarrow> jsnum" where
  "js_signed neg m = (if m = 0 then (if neg then NegZero else Num 0)
                      else js_int (if neg then - int m else int m))"

definition js_infinity :: "bool \<Rightarrow> jsnum" where
  "js_infinity neg = (if neg then NegInf else PosInf)"

text \<open>
  The product \<open>a * b\<close> of two numbers: the double of the exact product, with the signed
  zero and \<open>0 * Infinity = NaN\<close>.
\<close>

definition js_times :: "jsnum \<Rightarrow> jsnum \<Rightarrow> jsnum" where
  "js_times a b =
     (if a = NaN \<or> b = NaN then NaN
      else let neg = (js_negative a \<noteq> js_negative b) in
        case (js_magnitude a, js_magnitude b) of
          (Some m, Some n) \<Rightarrow> js_signed neg (m * n)
        | (None, Some n) \<Rightarrow> if n = 0 then NaN else js_infinity neg
        | (Some m, None) \<Rightarrow> if m = 0 then NaN else js_infinity neg
        | (None, None) \<Rightarrow> js_infinity neg)"

text \<open>
  \<open>Math.ceil(total / d)\<close> for a count \<open>total\<close>, a non-negative integer written
  \<open>cnt\<close>: division by zero gives an infinity, or \<open>NaN\<close> for \<open>0 / 0\<close>; a quotient in
  \<open>(-1, 0]\<close> from a negative divisor rounds up to \<open>-0\<close>. The ceiling is taken of the
  exact quotient: for a count below \<open>2^53\<close> the double of the quotient has the same
  ceiling.
\<close>

fun js_ceil_div :: "nat \<Rightarrow> jsnum \<Rightarrow> jsnum" where
  "js_ceil_div cnt NaN = NaN"
| "js_ceil_div cnt PosInf = Num 0"
| "js_ceil_div cnt NegInf = NegZero"
| "js_ceil_div cnt NegZero = (if cnt = 0 then NaN else NegInf)"
| "js_ceil_div cnt (Num n) =
     (if n = 0 then (if cnt = 0 then NaN else PosInf)
      else if 0 < n then Num \<lceil>rat_of_nat cnt / rat_of_int n\<rceil>
      else if \<lceil>rat_of_nat cnt / rat_of_int n\<rceil> = 0 then NegZero
      else Num \<lceil>rat_of_nat cnt / rat_of_int n\<rceil>)"

section \<open>Data model\<close>

text \<open>
  Modelled from the spec: the schema of \<open>models/User.js\<close>, which the controller imports
  and which is not among the sources. The fields are the ones the controller reads, under
  the names it reads them by; a field that a document may lack is an option, and a
  timestamp is a number of milliseconds. \<open>user_oid\<close> is the document's \<open>_id\<close> (an ObjectId,
  as its 24 character hex string) and \<open>userCreatedAt\<close> its \<open>createdAt\<close>.
\<close>

record user =
  user_oid :: string
  role :: string
  isActive :: bool
  studentName :: "string option"
  studentId :: "string option"
  mobileNumber :: "string option"
  azureAdEmail :: "string option"
  azureAdDisplayName :: "string option"
  userCreatedAt :: int
  lastLoginAt :: "int option"

text \<open>
  Modelled from the spec: the schema of \<open>models/GameSession.js\<close>, not among the sources
  either. \<open>studentId_ref\<close> is the session's \<open>studentId\<close>, the reference to the owning user
  (kept apart from the user's own \<open>studentId\<close>); \<open>performance\<close> is the sub-record with
  \<open>accuracy\<close> and \<open>averageTimePerQuestion\<close>.
\<close>

record session_performance =
  accuracy :: rat
  averageTimePerQuestion :: rat

record session =
  studentId_ref :: string
  studentIdentifier :: "string option"
  level :: int
  score :: int
  totalQuestions :: int
  percentage :: rat
  timeTakenSeconds :: int
  status :: string
  createdAt :: int
  startTime :: "int option"
  endTime :: "int option"
  performance :: "session_performance option"
  feedbackText :: "string option"

text \<open>
  The record store: the two collections, the \<open>isActive\<close> flags of the questions, and
  \<open>fault\<close>, the error every operation throws while the store is unreachable.
\<close>

record store =
  users :: "user list"
  sessions :: "session list"
  itemsActive :: "bool list"
  fault :: "string option"

text \<open>
  What the runtime supplies: the regular expression engine behind \<open>$regex\<close> with option
  \<open>i\<close> (\<open>None\<close> for a pattern that does not compile), the parser of \<open>new Date(string)\<close>
  (\<open>None\<close> for an Invalid Date) and \<open>Date.prototype.toLocaleString\<close>.
\<close>

record env =
  regex_i :: "string \<Rightarrow> (string \<Rightarrow> bool) option"
  newDate :: "string \<Rightarrow> int option"
  toLocaleString :: "int \<Rightarrow> string"

section \<open>The query interface of the store\<close>

subsection \<open>Sorting\<close>

datatype bson = BNull | BNum rat | BStr string | BDate int

fun str_le :: "string \<Rightarrow> string \<Rightarrow> bool" where
  "str_le [] ys = True"
| "str_le (x # xs) [] = False"
| "str_le (x # xs) (y # ys) =
     ((of_char x :: nat) < of_char y \<or> (x = y \<and> str_le xs ys))"

fun bson_rank :: "bson \<Rightarrow> nat" where
  "bson_rank BNull = 0"
| "bson_rank (BNum x) = 1"
| "bson_rank (BStr s) = 2"
| "bson_rank (BDate d) = 3"

text \<open>The comparison order of values in a sort: null, numbers, strings, dates.\<close>

fun bson_le :: "bson \<Rightarrow> bson \<Rightarrow> bool" where
  "bson_le (BNum x) (BNum y) = (x \<le> y)"
| "bson_le (BStr s) (BStr t) = str_le s t"
| "bson_le (BDate d) (BDate e) = (d \<le> e)"
| "bson_le a b = (bson_rank a \<le> bson_rank b)"

fun insort_by :: "('a \<Rightarrow> 'a \<Rightarrow> bool) \<Rightarrow> 'a \<Rightarrow> 'a list \<Rightarrow> 'a list" where
  "insort_by le x [] = [x]"
| "insort_by le x (y # ys) = (if le x y then x # y # ys else y # insort_by le x ys)"

definition sort_by :: "('a \<Rightarrow> 'a \<Rightarrow> bool) \<Rightarrow> 'a list \<Rightarrow> 'a list" where
  "sort_by le xs = foldr (insort_by le) xs []"

text \<open>
  \<open>.sort({ [field]: direction })\<close>: ascending for \<open>1\<close>, descending for \<open>-1\<close>. Documents with
  equal keys keep their stored order (the store leaves that order open; the model fixes it).
\<close>

definition mongo_sort :: "('a \<Rightarrow> bson) \<Rightarrow> int \<Rightarrow> 'a list \<Rightarrow> 'a list" where
  "mongo_sort key direction xs =
     sort_by (\<lambda>a b. if 0 < direction then bson_le (key a) (key b)
                     else bson_le (key b) (key a)) xs"

subsection \<open>Skip and limit\<close>

text \<open>
  \<open>.skip(n)\<close> rejects a negative or non-numeric \<open>n\<close>. \<open>.limit(n)\<close> rejects a non-numeric
  \<open>n\<close>; a limit of \<open>0\<close> is no limit, and a negative limit is the limit of its absolute
  value.
\<close>

fun cursor_skip :: "jsnum \<Rightarrow> 'a list \<Rightarrow> string + 'a list" where
  "cursor_skip (Num n) xs =
     (if n < 0 then Inl ''skip value must be non-negative'' else Inr (drop (nat n) xs))"
| "cursor_skip NegZero xs = Inr xs"
| "cursor_skip x xs = Inl ''skip value must be an integer''"

fun cursor_limit :: "jsnum \<Rightarrow> 'a list \<Rightarrow> string + 'a list" where
  "cursor_limit (Num n) xs = (if n = 0 then Inr xs else Inr (take (nat \<bar>n\<bar>) xs))"
| "cursor_limit NegZero xs = Inr xs"
| "cursor_limit x xs = Inl ''limit value must be an integer''"

record find_options =
  fo_sortField :: string
  fo_sortDirection :: int
  fo_skip :: jsnum
  fo_limit :: jsnum

definition cursor_window :: "find_options \<Rightarrow> 'a list \<Rightarrow> string + 'a list" where
  "cursor_window opts xs =
     (case cursor_skip (fo_skip opts) xs of
        Inl e \<Rightarrow> Inl e
      | Inr ys \<Rightarrow> cursor_limit (fo_limit opts) ys)"

subsection \<open>Filters on users\<close>

text \<open>The filter objects the controller builds, field by field.\<close>

record user_query =
  uq_role :: string
  uq_isActive :: bool
  uq_or :: "string option"

text \<open>\<open>{ field: { $regex: pattern, $options: 'i' } }\<close>: a missing field matches nothing.\<close>

definition regex_on :: "(string \<Rightarrow> bool) \<Rightarrow> string option \<Rightarrow> bool" where
  "regex_on m v = (case v of None \<Rightarrow> False | Some s \<Rightarrow> m s)"

definition user_or_matches :: "(string \<Rightarrow> bool) \<Rightarrow> user \<Rightarrow> bool" where
  "user_or_matches m u =
     (regex_on m (studentName u) \<or> regex_on m (studentId u) \<or>
      regex_on m (mobileNumber u) \<or> regex_on m (azureAdEmail u))"

definition user_base_matches :: "user_query \<Rightarrow> user \<Rightarrow> bool" where
  "user_base_matches q u = (role u = uq_role q \<and> isActive u = uq_isActive q)"

definition user_filter :: "env \<Rightarrow> user_query \<Rightarrow> string + (user \<Rightarrow> bool)" where
  "user_filter env q =
     (case uq_or q of
        None \<Rightarrow> Inr (user_base_matches q)
      | Some pat \<Rightarrow>
          (case regex_i env pat of
             None \<Rightarrow> Inl ''Regular expression is invalid''
           | Some m \<Rightarrow> Inr (\<lambda>u. user_base_matches q u \<and> user_or_matches m u)))"

definition opt_str :: "string option \<Rightarrow> bson" where
  "opt_str v = (case v of None \<Rightarrow> BNull | Some s \<Rightarrow> BStr s)"

definition opt_date :: "int option \<Rightarrow> bson" where
  "opt_date v = (case v of None \<Rightarrow> BNull | Some d \<Rightarrow> BDate d)"

definition user_field :: "string \<Rightarrow> user \<Rightarrow> bson" where
  "user_field f u =
     (if f = ''createdAt'' then BDate (userCreatedAt u)
      else if f = ''studentName'' then opt_str (studentName u)
      else if f = ''studentId'' then opt_str (studentId u)
      else if f = ''mobileNumber'' then opt_str (mobileNumber u)
      else if f = ''lastLoginAt'' then opt_date (lastLoginAt u)
      else BNull)"

definition User_find :: "env \<Rightarrow> store \<Rightarrow> user_query \<Rightarrow> find_options \<Rightarrow> string + user list" where
  "User_find env st q opts =
     (case fault st of
        Some e \<Rightarrow> Inl e
      | None \<Rightarrow>
          (case user_filter env q of
             Inl e \<Rightarrow> Inl e
           | Inr P \<Rightarrow>
               cursor_window opts
                 (mongo_sort (user_field (fo_sortField opts)) (fo_sortDirection opts)
                    (filter P (users st)))))"

definition User_countDocuments :: "env \<Rightarrow> store \<Rightarrow> user_query \<Rightarrow> string + nat" where
  "User_countDocuments env st q =
     (case fault st of
        Some e \<Rightarrow> Inl e
      | None \<Rightarrow>
          (case user_filter env q of
             Inl e \<Rightarrow> Inl e
           | Inr P \<Rightarrow> Inr (length (filter P (users st)))))"

subsection \<open>Filters on sessions\<close>

record num_range =
  nr_gte :: "jsnum option"
  nr_lte :: "jsnum option"

text \<open>A bound made by \<open>new Date(string)\<close>: \<open>None\<close> inside is an Invalid Date.\<close>

record date_range =
  dr_gte :: "int option option"
  dr_lte :: "int option option"

record session_query =
  sq_status :: string
  sq_level :: "jsnum option"
  sq_studentId :: "string option"
  sq_score :: "num_range option"
  sq_createdAt :: "date_range option"
  sq_or :: "string option"

fun num_eq :: "jsnum \<Rightarrow> int \<Rightarrow> bool" where
  "num_eq (Num n) x = (x = n)"
| "num_eq NegZero x = (x = 0)"
| "num_eq b x = False"

text \<open>\<open>$gte\<close>: the bound is at most the value. A comparison with \<open>NaN\<close> is false.\<close>

fun num_gte :: "jsnum \<Rightarrow> int \<Rightarrow> bool" where
  "num_gte (Num n) x = (n \<le> x)"
| "num_gte NegZero x = (0 \<le> x)"
| "num_gte NegInf x = True"
| "num_gte b x = False"

text \<open>\<open>$lte\<close>: the value is at most the bound.\<close>

fun num_lte :: "jsnum \<Rightarrow> int \<Rightarrow> bool" where
  "num_lte (Num n) x = (x \<le> n)"
| "num_lte NegZero x = (x \<le> 0)"
| "num_lte PosInf x = True"
| "num_lte b x = False"

definition score_in_range :: "num_range option \<Rightarrow> int \<Rightarrow> bool" where
  "score_in_range r x =
     (case r of
        None \<Rightarrow> True
      | Some b \<Rightarrow>
          (case nr_gte b of None \<Rightarrow> True | Some lo \<Rightarrow> num_gte lo x) \<and>
          (case nr_lte b of None \<Rightarrow> True | Some hi \<Rightarrow> num_lte hi x))"

definition date_in_range :: "date_range option \<Rightarrow> int \<Rightarrow> bool" where
  "date_in_range r x =
     (case r of
        None \<Rightarrow> True
      | Some b \<Rightarrow>
          (case dr_gte b of None \<Rightarrow> True | Some None \<Rightarrow> False | Some (Some lo) \<Rightarrow> lo \<le> x) \<and>
          (case dr_lte b of None \<Rightarrow> True | Some None \<Rightarrow> False | Some (Some hi) \<Rightarrow> x \<le> hi))"

text \<open>Everything of a session filter but its \<open>$or\<close>.\<close>

definition session_base_matches :: "session_query \<Rightarrow> session \<Rightarrow> bool" where
  "session_base_matches q s =
     (status s = sq_status q \<and>
      (case sq_level q of None \<Rightarrow> True | Some l \<Rightarrow> num_eq l (level s)) \<and>
      (case sq_studentId q of None \<Rightarrow> True | Some i \<Rightarrow> studentId_ref s = i) \<and>
      score_in_range (sq_score q) (score s) \<and>
      date_in_range (sq_createdAt q) (createdAt s))"

text \<open>
  The string at a path of the stored session. In the stored document \<open>studentId\<close> holds the
  ObjectId of the user (\<open>populate\<close> replaces it by the user only after the query has run),
  so a path below it, such as \<open>studentId.studentName\<close>, addresses nothing.
\<close>

definition session_text :: "string \<Rightarrow> session \<Rightarrow> string option" where
  "session_text path s = (if path = ''studentIdentifier'' then studentIdentifier s else None)"

definition session_or_matches :: "(string \<Rightarrow> bool) \<Rightarrow> session \<Rightarrow> bool" where
  "session_or_matches m s =
     (regex_on m (session_text ''studentIdentifier'' s) \<or>
      regex_on m (session_text ''studentId.studentName'' s) \<or>
      regex_on m (session_text ''studentId.studentId'' s) \<or>
      regex_on m (session_text ''studentId.mobileNumber'' s))"

text \<open>
  Modelled from the spec: the types of the paths of the \<open>GameSession\<close> schema (\<open>level\<close>
  and \<open>score\<close> Numbers, \<open>createdAt\<close> a Date, \<open>studentId\<close> a reference). Mongoose casts a
  filter to these types before it is sent: a \<open>NaN\<close> for a Number path, an Invalid Date for
  a Date path and a string that is not 24 hex digits for an ObjectId path are cast errors,
  thrown by the query before the store is asked.
\<close>

definition is_objectid :: "string \<Rightarrow> bool" where
  "is_objectid s = (length s = 24 \<and> list_all (isRadixDigit 16) s)"

definition nan_bound :: "jsnum option \<Rightarrow> bool" where
  "nan_bound b = (b = Some NaN)"

definition session_cast_error :: "session_query \<Rightarrow> string option" where
  "session_cast_error q =
     (if nan_bound (sq_level q) then Some ''Cast to Number failed at path level''
      else if (case sq_studentId q of None \<Rightarrow> False | Some i \<Rightarrow> \<not> is_objectid i)
        then Some ''Cast to ObjectId failed at path studentId''
      else if (case sq_score q of None \<Rightarrow> False
               | Some b \<Rightarrow> nan_bound (nr_gte b) \<or> nan_bound (nr_lte b))
        then Some ''Cast to Number failed at path score''
      else if (case sq_createdAt q of None \<Rightarrow> False
               | Some b \<Rightarrow> dr_gte b = Some None \<or> dr_lte b = Some None)
        then Some ''Cast to date failed at path createdAt''
      else None)"

definition session_filter :: "env \<Rightarrow> session_query \<Rightarrow> string + (session \<Rightarrow> bool)" where
  "session_filter env q =
     (case session_cast_error q of
        Some e \<Rightarrow> Inl e
      | None \<Rightarrow>
          (case sq_or q of
             None \<Rightarrow> Inr (session_base_matches q)
           | Some pat \<Rightarrow>
               (case regex_i env pat of
                  None \<Rightarrow> Inl ''Regular expression is invalid''
                | Some m \<Rightarrow> Inr (\<lambda>s. session_base_matches q s \<and> session_or_matches m s))))"

definition session_field :: "string \<Rightarrow> session \<Rightarrow> bson" where
  "session_field f s =
     (if f = ''createdAt'' then BDate (createdAt s)
      else if f = ''score'' then BNum (of_int (score s))
      else if f = ''percentage'' then BNum (percentage s)
      else if f = ''timeTakenSeconds'' then BNum (of_int (timeTakenSeconds s))
      else if f = ''level'' then BNum (of_int (level s))
      else BNull)"

text \<open>\<open>.populate('studentId', ...)\<close>: the referenced user, or null when there is none.\<close>

definition populate :: "store \<Rightarrow> session \<Rightarrow> session \<times> user option" where
  "populate st s = (s, List.find (\<lambda>u. user_oid u = studentId_ref s) (users st))"

text \<open>
  A query of sessions, sorted: the cast of the filter fails first, then the store when it
  is unreachable, then the store's own check of the filter (the regular expression).
\<close>

definition GameSession_sorted ::
  "env \<Rightarrow> store \<Rightarrow> session_query \<Rightarrow> string \<Rightarrow> int \<Rightarrow> string + session list" where
  "GameSession_sorted env st q sortField direction =
     (case session_cast_error q of
        Some e \<Rightarrow> Inl e
      | None \<Rightarrow>
          (case fault st of
             Some e \<Rightarrow> Inl e
           | None \<Rightarrow>
               (case session_filter env q of
                  Inl e \<Rightarrow> Inl e
                | Inr P \<Rightarrow>
                    Inr (mongo_sort (session_field sortField) direction (filter P (sessions st))))))"

definition GameSession_find ::
  "env \<Rightarrow> store \<Rightarrow> session_query \<Rightarrow> find_options \<Rightarrow> string + (session \<times> user option) list" where
  "GameSession_find env st q opts =
     (case GameSession_sorted env st q (fo_sortField opts) (fo_sortDirection opts) of
        Inl e \<Rightarrow> Inl e
      | Inr found \<Rightarrow>
          (case cursor_window opts found of
             Inl e \<Rightarrow> Inl e
           | Inr page \<Rightarrow> Inr (map (populate st) page)))"

definition GameSession_countDocuments :: "env \<Rightarrow> store \<Rightarrow> session_query \<Rightarrow> string + nat" where
  "GameSession_countDocuments env st q =
     (case session_cast_error q of
        Some e \<Rightarrow> Inl e
      | None \<Rightarrow>
          (case fault st of
             Some e \<Rightarrow> Inl e
           | None \<Rightarrow>
               (case session_filter env q of
                  Inl e \<Rightarrow> Inl e
                | Inr P \<Rightarrow> Inr (length (filter P (sessions st))))))"

section \<open>The listing handlers\<close>

text \<open>
  What a handler sends: \<open>res.json({ success: true, data })\<close>, or
  \<open>res.status(code).json({ success: false, message, error })\<close> with the HTTP status, the
  message and, from a \<open>catch\<close>, the message of the error caught.
\<close>

datatype 'a response = Success 'a | Failure nat string "string option"

record pagination =
  pg_page :: jsnum
  pg_limit :: jsnum
  pg_total :: nat
  pg_pages :: jsnum

definition sortDirectionOf :: "string \<Rightarrow> int" where
  "sortDirectionOf sortOrder = (if sortOrder = ''asc'' then 1 else - 1)"

definition skipOf :: "string \<Rightarrow> string \<Rightarrow> jsnum" where
  "skipOf page limit = js_times (js_minus_one (parseInt page)) (parseInt limit)"

definition paginationOf :: "string \<Rightarrow> string \<Rightarrow> nat \<Rightarrow> pagination" where
  "paginationOf page limit cnt =
     \<lparr> pg_page = parseInt page, pg_limit = parseInt limit, pg_total = cnt,
       pg_pages = js_ceil_div cnt (parseInt limit) \<rparr>"

subsection \<open>getAllStudents\<close>

definition allowedStudentSortFields :: "string list" where
  "allowedStudentSortFields =
     [''createdAt'', ''studentName'', ''studentId'', ''mobileNumber'', ''lastLoginAt'']"

definition studentSortField :: "string \<Rightarrow> string" where
  "studentSortField sortBy =
     (if sortBy \<in> set allowedStudentSortFields then sortBy else ''createdAt'')"

definition studentsQuery :: "req_query \<Rightarrow> user_query" where
  "studentsQuery query =
     (let search = param query ''search'' [];
          q = \<lparr> uq_role = ''student'', uq_isActive = True, uq_or = None \<rparr>
      in if search \<noteq> [] then q\<lparr> uq_or := Some search \<rparr> else q)"

definition studentsFindOptions :: "req_query \<Rightarrow> find_options" where
  "studentsFindOptions query =
     (let page = param query ''page'' ''1'';
          limit = param query ''limit'' ''20'';
          sortBy = param query ''sortBy'' ''createdAt'';
          sortOrder = param query ''sortOrder'' ''desc''
      in \<lparr> fo_sortField = studentSortField sortBy,
           fo_sortDirection = sortDirectionOf sortOrder,
           fo_skip = skipOf page limit,
           fo_limit = parseInt limit \<rparr>)"

record students_data =
  sd_students :: "user list"
  sd_pagination :: pagination

definition getAllStudents :: "env \<Rightarrow> store \<Rightarrow> req_query \<Rightarrow> students_data response" where
  "getAllStudents env st query =
     (case User_find env st (studentsQuery query) (studentsFindOptions query) of
        Inl e \<Rightarrow> Failure 500 ''Failed to get students'' (Some e)
      | Inr students \<Rightarrow>
          (case User_countDocuments env st (studentsQuery query) of
             Inl e \<Rightarrow> Failure 500 ''Failed to get students'' (Some e)
           | Inr cnt \<Rightarrow>
               Success \<lparr> sd_students = students,
                         sd_pagination =
                           paginationOf (param query ''page'' ''1'') (param query ''limit'' ''20'') cnt \<rparr>))"

subsection \<open>getAllGameSessions\<close>

definition allowedSessionSortFields :: "string list" where
  "allowedSessionSortFields =
     [''createdAt'', ''score'', ''percentage'', ''timeTakenSeconds'', ''level'']"

definition sessionSortField :: "string \<Rightarrow> string" where
  "sessionSortField sortBy =
     (if sortBy \<in> set allowedSessionSortFields then sortBy else ''createdAt'')"

text \<open>
  The two statements \<open>if (minScore) query.score = { $gte: ... }\<close> and
  \<open>if (maxScore) query.score = { ...query.score, $lte: ... }\<close>.
\<close>

definition scoreFilter :: "string option \<Rightarrow> string option \<Rightarrow> num_range option" where
  "scoreFilter minScore maxScore =
     (let s1 = (if truthy minScore
                then Some \<lparr> nr_gte = Some (parseInt (given minScore)), nr_lte = None \<rparr>
                else None)
      in if truthy maxScore
         then Some ((case s1 of None \<Rightarrow> \<lparr> nr_gte = None, nr_lte = None \<rparr> | Some r \<Rightarrow> r)
                      \<lparr> nr_lte := Some (parseInt (given maxScore)) \<rparr>)
         else s1)"

definition createdAtFilter :: "env \<Rightarrow> string option \<Rightarrow> string option \<Rightarrow> date_range option" where
  "createdAtFilter env startDate endDate =
     (if truthy startDate \<or> truthy endDate
      then Some \<lparr> dr_gte = (if truthy startDate then Some (newDate env (given startDate)) else None),
                  dr_lte = (if truthy endDate then Some (newDate env (given endDate)) else None) \<rparr>
      else None)"

definition sessionsQuery :: "env \<Rightarrow> req_query \<Rightarrow> session_query" where
  "sessionsQuery env query =
     \<lparr> sq_status = ''completed'',
       sq_level = (if truthy (query ''level'') then Some (parseInt (given (query ''level''))) else None),
       sq_studentId = (if truthy (query ''studentId'') then query ''studentId'' else None),
       sq_score = scoreFilter (query ''minScore'') (query ''maxScore''),
       sq_createdAt = createdAtFilter env (query ''startDate'') (query ''endDate''),
       sq_or = None \<rparr>"

text \<open>The filter of the query that is awaited: with the \<open>$or\<close> when \<open>search\<close> is given.\<close>

definition sessionsFindQuery :: "env \<Rightarrow> req_query \<Rightarrow> session_query" where
  "sessionsFindQuery env query =
     (let search = param query ''search'' []
      in if search \<noteq> [] then (sessionsQuery env query)\<lparr> sq_or := Some search \<rparr>
         else sessionsQuery env query)"

definition sessionsFindOptions :: "req_query \<Rightarrow> find_options" where
  "sessionsFindOptions query =
     (let page = param query ''page'' ''1'';
          limit = param query ''limit'' ''20'';
          sortBy = param query ''sortBy'' ''createdAt'';
          sortOrder = param query ''sortOrder'' ''desc''
      in \<lparr> fo_sortField = sessionSortField sortBy,
           fo_sortDirection = sortDirectionOf sortOrder,
           fo_skip = skipOf page limit,
           fo_limit = parseInt limit \<rparr>)"

text \<open>
  An item of the answer is \<open>{ ...session.getSummary(), student: session.studentId }\<close>.
  \<open>getSummary\<close> is a method of the \<open>GameSession\<close> model, which is not among the sources;
  the session itself stands for its summary, paired with the populated student.
\<close>

record sessions_data =
  gd_sessions :: "(session \<times> user option) list"
  gd_pagination :: pagination

definition getAllGameSessions :: "env \<Rightarrow> store \<Rightarrow> req_query \<Rightarrow> sessions_data response" where
  "getAllGameSessions env st query =
     (case GameSession_find env st (sessionsFindQuery env query) (sessionsFindOptions query) of
        Inl e \<Rightarrow> Failure 500 ''Failed to get game sessions'' (Some e)
      | Inr found \<Rightarrow>
          (case GameSession_countDocuments env st (sessionsQuery env query) of
             Inl e \<Rightarrow> Failure 500 ''Failed to get game sessions'' (Some e)
           | Inr cnt \<Rightarrow>
               Success \<lparr> gd_sessions = found,
                         gd_pagination =
                           paginationOf (param query ''page'' ''1'') (param query ''limit'' ''20'') cnt \<rparr>))"

section \<open>The aggregations\<close>

text \<open>
  A \<open>$group\<close> stage keeps one set of accumulators per key: \<open>$sum: 1\<close>, the \<open>$sum\<close> of a
  field, the \<open>$max\<close> of a field; an \<open>$avg\<close> is the sum divided by the count. The averages
  are exact rationals here (the store computes them in floating point). The groups come
  out in the order their keys were first met.
\<close>

record group_acc =
  ga_count :: nat
  ga_sumScore :: int
  ga_sumPercentage :: rat
  ga_sumQuestions :: int
  ga_sumTime :: int
  ga_maxScore :: int
  ga_maxPercentage :: rat

definition acc_first :: "session \<Rightarrow> group_acc" where
  "acc_first s =
     \<lparr> ga_count = 1, ga_sumScore = score s, ga_sumPercentage = percentage s,
       ga_sumQuestions = totalQuestions s, ga_sumTime = timeTakenSeconds s,
       ga_maxScore = score s, ga_maxPercentage = percentage s \<rparr>"

definition acc_next :: "group_acc \<Rightarrow> session \<Rightarrow> group_acc" where
  "acc_next a s =
     \<lparr> ga_count = ga_count a + 1, ga_sumScore = ga_sumScore a + score s,
       ga_sumPercentage = ga_sumPercentage a + percentage s,
       ga_sumQuestions = ga_sumQuestions a + totalQuestions s,
       ga_sumTime = ga_sumTime a + timeTakenSeconds s,
       ga_maxScore = max (ga_maxScore a) (score s),
       ga_maxPercentage = max (ga_maxPercentage a) (percentage s) \<rparr>"

fun group_insert :: "'k \<Rightarrow> session \<Rightarrow> ('k \<times> group_acc) list \<Rightarrow> ('k \<times> group_acc) list" where
  "group_insert k s [] = [(k, acc_first s)]"
| "group_insert k s ((k', a) # g) =
     (if k' = k then (k', acc_next a s) # g else (k', a) # group_insert k s g)"

definition group_stage :: "(session \<Rightarrow> 'k) \<Rightarrow> session list \<Rightarrow> ('k \<times> group_acc) list" where
  "group_stage key docs = foldl (\<lambda>g s. group_insert (key s) s g) [] docs"

subsection \<open>getDashboardOverview\<close>

record level_stat =
  ls_id :: int
  ls_totalSessions :: nat
  ls_averageScore :: rat
  ls_averagePercentage :: rat
  ls_totalQuestions :: int
  ls_totalCorrectAnswers :: int

definition level_stat_of :: "int \<times> group_acc \<Rightarrow> level_stat" where
  "level_stat_of g =
     \<lparr> ls_id = fst g,
       ls_totalSessions = ga_count (snd g),
       ls_averageScore = of_int (ga_sumScore (snd g)) / of_nat (ga_count (snd g)),
       ls_averagePercentage = ga_sumPercentage (snd g) / of_nat (ga_count (snd g)),
       ls_totalQuestions = ga_sumQuestions (snd g),
       ls_totalCorrectAnswers = ga_sumScore (snd g) \<rparr>"

text \<open>
  The pipeline \<open>[{ $match: { status: 'completed' } }, { $group: { _id: '$level', ... } },
  { $sort: { _id: 1 } }]\<close>.
\<close>

definition levelStats :: "session list \<Rightarrow> level_stat list" where
  "levelStats docs =
     map level_stat_of
       (sort_by (\<lambda>a b. fst a \<le> fst b)
          (group_stage level (filter (\<lambda>s. status s = ''completed'') docs)))"

record overview =
  ov_totalStudents :: nat
  ov_totalAdmins :: nat
  ov_totalSessions :: nat
  ov_totalQuestions :: nat
  ov_recentSessions :: nat
  ov_newStudents :: nat

record dashboard =
  db_overview :: overview
  db_levelStats :: "level_stat list"

text \<open>\<open>sevenDaysAgo\<close> is the time the handler computes from the clock.\<close>

definition getDashboardOverview :: "int \<Rightarrow> store \<Rightarrow> dashboard response" where
  "getDashboardOverview sevenDaysAgo st =
     (case fault st of
        Some e \<Rightarrow> Failure 500 ''Failed to get dashboard overview'' (Some e)
      | None \<Rightarrow>
          Success
            \<lparr> db_overview =
                \<lparr> ov_totalStudents =
                    length (filter (\<lambda>u. role u = ''student'' \<and> isActive u) (users st)),
                  ov_totalAdmins =
                    length (filter (\<lambda>u. role u = ''admin'' \<and> isActive u) (users st)),
                  ov_totalSessions =
                    length (filter (\<lambda>s. status s = ''completed'') (sessions st)),
                  ov_totalQuestions = length (filter (\<lambda>a. a) (itemsActive st)),
                  ov_recentSessions =
                    length (filter (\<lambda>s. status s = ''completed'' \<and> sevenDaysAgo \<le> createdAt s)
                              (sessions st)),
                  ov_newStudents =
                    length (filter (\<lambda>u. role u = ''student'' \<and> sevenDaysAgo \<le> userCreatedAt u)
                              (users st)) \<rparr>,
              db_levelStats = levelStats (sessions st) \<rparr>)"

subsection \<open>getStudentDetails\<close>

record performance_stats =
  pf_totalSessions :: nat
  pf_totalQuestions :: int
  pf_totalCorrectAnswers :: int
  pf_averageScore :: rat
  pf_averagePercentage :: rat
  pf_averageTime :: rat
  pf_bestScore :: int
  pf_bestPercentage :: rat

definition performance_of :: "unit \<times> group_acc \<Rightarrow> performance_stats" where
  "performance_of g =
     \<lparr> pf_totalSessions = ga_count (snd g),
       pf_totalQuestions = ga_sumQuestions (snd g),
       pf_totalCorrectAnswers = ga_sumScore (snd g),
       pf_averageScore = of_int (ga_sumScore (snd g)) / of_nat (ga_count (snd g)),
       pf_averagePercentage = ga_sumPercentage (snd g) / of_nat (ga_count (snd g)),
       pf_averageTime = of_int (ga_sumTime (snd g)) / of_nat (ga_count (snd g)),
       pf_bestScore = ga_maxScore (snd g),
       pf_bestPercentage = ga_maxPercentage (snd g) \<rparr>"

text \<open>
  The pipeline \<open>[{ $match: { studentId: student._id, status: 'completed' } },
  { $group: { _id: null, ... } }]\<close>: no document at all gives no group.
\<close>

definition studentPerformance :: "string \<Rightarrow> session list \<Rightarrow> performance_stats list" where
  "studentPerformance oid docs =
     map performance_of
       (group_stage (\<lambda>s. ())
          (filter (\<lambda>s. studentId_ref s = oid \<and> status s = ''completed'') docs))"

record student_details =
  sdt_student :: user
  sdt_sessions :: "session list"
  sdt_performance :: "performance_stats option"

text \<open>
  \<open>findById\<close> casts the id to an ObjectId first, before the store is asked. The sessions
  of the answer are the ten
  latest of the student (each passes through the model's \<open>getSummary\<close>, which is kept as
  the session itself); \<open>performance[0] || null\<close> is the first group or null.
\<close>

definition getStudentDetails :: "store \<Rightarrow> string \<Rightarrow> student_details response" where
  "getStudentDetails st studentId_param =
     (if \<not> is_objectid studentId_param
      then Failure 500 ''Failed to get student details'' (Some ''Cast to ObjectId failed at path _id'')
      else
        case fault st of
          Some e \<Rightarrow> Failure 500 ''Failed to get student details'' (Some e)
        | None \<Rightarrow>
            (case List.find (\<lambda>u. user_oid u = studentId_param) (users st) of
               None \<Rightarrow> Failure 404 ''Student not found'' None
             | Some student \<Rightarrow>
                 if role student \<noteq> ''student'' then Failure 404 ''Student not found'' None
                 else
                   Success
                     \<lparr> sdt_student = student,
                       sdt_sessions =
                         take 10 (mongo_sort (session_field ''createdAt'') (- 1)
                           (filter (\<lambda>s. studentId_ref s = user_oid student) (sessions st))),
                       sdt_performance =
                         (case studentPerformance (user_oid student) (sessions st) of
                            [] \<Rightarrow> None
                          | p # ps \<Rightarrow> Some p) \<rparr>))"

section \<open>The export\<close>

subsection \<open>Rows\<close>

text \<open>
  A cell holds a string or a number. A row is the list of its cells in column order; a
  row added from an object is laid out by the keys of the thirteen columns.
\<close>

datatype cell = Text string | Number rat

text \<open>\<open>a || b\<close> on strings that may be undefined, and \<open>student?.field\<close>.\<close>

definition js_or :: "string option \<Rightarrow> string option \<Rightarrow> string option" where
  "js_or a b = (if truthy a then a else b)"

definition opt_chain :: "'a option \<Rightarrow> ('a \<Rightarrow> string option) \<Rightarrow> string option" where
  "opt_chain obj field = (case obj of None \<Rightarrow> None | Some x \<Rightarrow> field x)"

definition contactOf :: "user option \<Rightarrow> string" where
  "contactOf student =
     given (js_or (js_or (opt_chain student azureAdEmail) (opt_chain student mobileNumber))
                  (Some ''N/A''))"

definition studentNameOf :: "user option \<Rightarrow> string" where
  "studentNameOf student =
     given (js_or (js_or (opt_chain student azureAdDisplayName) (opt_chain student studentName))
                  (Some ''N/A''))"

definition studentIdOf :: "user option \<Rightarrow> string" where
  "studentIdOf student = given (js_or (opt_chain student studentId) (Some ''N/A''))"

definition timeCell :: "env \<Rightarrow> int option \<Rightarrow> cell" where
  "timeCell env t = (case t of None \<Rightarrow> Text ''N/A'' | Some d \<Rightarrow> Text (toLocaleString env d))"

definition dataRow :: "env \<Rightarrow> session \<times> user option \<Rightarrow> cell list" where
  "dataRow env p =
     (let session = fst p; student = snd p
      in [Text (studentNameOf student),
          Text (studentIdOf student),
          Text (contactOf student),
          Number (of_int (level session)),
          Number (of_int (score session)),
          Number (of_int (totalQuestions session)),
          Number (percentage session),
          Number (of_int (timeTakenSeconds session)),
          Number (case performance session of None \<Rightarrow> 0 | Some pf \<Rightarrow> accuracy pf),
          Number (case performance session of None \<Rightarrow> 0 | Some pf \<Rightarrow> averageTimePerQuestion pf),
          timeCell env (startTime session),
          timeCell env (endTime session),
          Text (if truthy (feedbackText session) then ''Yes'' else ''No'')])"

definition headerRow :: "cell list" where
  "headerRow =
     [Text ''Student Name'', Text ''Student ID'', Text ''Mobile/Email'', Text ''Level'',
      Text ''Score'', Text ''Total Questions'', Text ''Percentage'',
      Text ''Time Taken (seconds)'', Text ''Accuracy (%)'', Text ''Avg Time per Question (s)'',
      Text ''Start Time'', Text ''End Time'', Text ''Feedback Provided'']"

subsection \<open>toFixed\<close>

definition digitChar :: "nat \<Rightarrow> char" where
  "digitChar d = (if d < 10 then ''0123456789'' ! d else CHR ''?'')"

function decimal :: "nat \<Rightarrow> string" where
  "decimal n = (if n < 10 then [digitChar n] else decimal (n div 10) @ [digitChar (n mod 10)])"
  by pat_completeness auto
termination
  by (relation "measure id") auto

declare decimal.simps [simp del]

text \<open>
  The integer \<open>n\<close> for which \<open>n / 100\<close> is nearest to \<open>|x|\<close>, the larger one of two.
\<close>

definition hundredths :: "rat \<Rightarrow> nat" where
  "hundredths x = nat \<lfloor>\<bar>x\<bar> * 100 + 1 / 2\<rfloor>"

text \<open>
  \<open>x.toFixed(2)\<close> for a double of exact value \<open>x\<close> with \<open>|x|\<close> below \<open>10^21\<close>: a
  minus sign for a negative \<open>x\<close>, then the digits of \<open>hundredths x\<close> with a point before
  the last two. The rounding to hundredths is exact on the value of the double:
  \<open>(0.075).toFixed(2)\<close> is \<open>0.07\<close> because the double nearest to \<open>0.075\<close> lies below it.
\<close>

definition toFixed2 :: "rat \<Rightarrow> string" where
  "toFixed2 x =
     (let n = hundredths x
      in (if x < 0 then ''-'' else []) @ decimal (n div 100) @ ''.'' @
         [digitChar (n mod 100 div 10), digitChar (n mod 10)])"

subsection \<open>The worksheet\<close>

text \<open>
  The worksheet is its rows and the rows given the bold font with a solid fill (row number
  from 1, colour). Setting \<open>worksheet.columns\<close> writes the headers into row 1.
\<close>

record worksheet =
  ws_rows :: "cell list list"
  ws_styled :: "(nat \<times> string) list"

definition setColumns :: "cell list \<Rightarrow> worksheet" where
  "setColumns hs = \<lparr> ws_rows = [hs], ws_styled = [] \<rparr>"

definition addRow :: "worksheet \<Rightarrow> cell list \<Rightarrow> worksheet" where
  "addRow ws r = ws\<lparr> ws_rows := ws_rows ws @ [r] \<rparr>"

definition styleRow :: "string \<Rightarrow> worksheet \<Rightarrow> nat \<Rightarrow> worksheet" where
  "styleRow colour ws i = ws\<lparr> ws_styled := ws_styled ws @ [(i, colour)] \<rparr>"

definition rowCount :: "worksheet \<Rightarrow> nat" where
  "rowCount ws = length (ws_rows ws)"

text \<open>A summary row: a label, a value and ten empty strings.\<close>

definition summaryRow :: "string \<Rightarrow> cell \<Rightarrow> cell list" where
  "summaryRow label v = Text label # v # replicate 10 (Text [])"

text \<open>
  The blank row and the summary rows, added when there is a session. The averages are
  \<open>sessions.reduce((sum, s) => sum + s.score, 0) / totalSessions\<close> and its two likes:
  every \<open>+\<close> and the \<open>/\<close> give the double of their exact result.
\<close>

definition addSummary :: "worksheet \<Rightarrow> (session \<times> user option) list \<Rightarrow> worksheet" where
  "addSummary ws found =
     (if 0 < length found then
        (let ws1 = addRow ws [];
             totalSessions = length found;
             avgScore = fl (foldl (\<lambda>sum s. fl (sum + of_int (score (fst s)))) 0 found
                              / of_nat totalSessions);
             avgPercentage = fl (foldl (\<lambda>sum s. fl (sum + percentage (fst s))) 0 found
                                   / of_nat totalSessions);
             avgTime = fl (foldl (\<lambda>sum s. fl (sum + of_int (timeTakenSeconds (fst s)))) 0 found
                             / of_nat totalSessions);
             ws2 = addRow ws1 (summaryRow ''SUMMARY STATISTICS'' (Text []));
             ws3 = addRow ws2 (summaryRow ''Total Sessions'' (Number (of_nat totalSessions)));
             ws4 = addRow ws3 (summaryRow ''Average Score'' (Text (toFixed2 avgScore)));
             ws5 = addRow ws4 (summaryRow ''Average Percentage'' (Text (toFixed2 avgPercentage @ ''%'')));
             ws6 = addRow ws5 (summaryRow ''Average Time (seconds)'' (Text (toFixed2 avgTime)))
         in foldl (styleRow ''FFF0F0F0'') ws6 [rowCount ws6 - 4 ..< rowCount ws6 + 1])
      else ws)"

definition exportWorksheet :: "env \<Rightarrow> (session \<times> user option) list \<Rightarrow> worksheet" where
  "exportWorksheet env found =
     (let ws0 = setColumns headerRow;
          ws1 = foldl (\<lambda>ws p. addRow ws (dataRow env p)) ws0 found;
          ws2 = styleRow ''FFE0E0E0'' ws1 1
      in addSummary ws2 found)"

subsection \<open>The response\<close>

text \<open>
  The HTTP response as the handler drives it: the status code and the headers staged so
  far, and what has gone out: the status line (sent with the headers, at the first byte of
  the body), the bytes of the document or a JSON body, and whether the response was ended.
\<close>

record error_json =
  ej_message :: string
  ej_error :: string

record res_state =
  res_statusCode :: nat
  res_headers :: "(string \<times> string) list"
  res_sentStatus :: "nat option"
  res_sentBytes :: string
  res_sentJson :: "error_json option"
  res_ended :: bool

definition res_new :: res_state where
  "res_new = \<lparr> res_statusCode = 200, res_headers = [], res_sentStatus = None,
               res_sentBytes = [], res_sentJson = None, res_ended = False \<rparr>"

definition res_setHeader :: "string \<Rightarrow> string \<Rightarrow> res_state \<Rightarrow> string + res_state" where
  "res_setHeader k v r =
     (if res_sentStatus r \<noteq> None then Inl ''Cannot set headers after they are sent to the client''
      else Inr (r\<lparr> res_headers := res_headers r @ [(k, v)] \<rparr>))"

definition res_flush :: "res_state \<Rightarrow> res_state" where
  "res_flush r =
     (if res_sentStatus r = None then r\<lparr> res_sentStatus := Some (res_statusCode r) \<rparr> else r)"

text \<open>Bytes written into the response stream: the first byte sends the headers.\<close>

definition res_write :: "string \<Rightarrow> res_state \<Rightarrow> res_state" where
  "res_write bytes r =
     (if bytes = [] then r else (res_flush r)\<lparr> res_sentBytes := res_sentBytes r @ bytes \<rparr>)"

definition res_end :: "res_state \<Rightarrow> res_state" where
  "res_end r = (res_flush r)\<lparr> res_ended := True \<rparr>"

definition res_status :: "nat \<Rightarrow> res_state \<Rightarrow> res_state" where
  "res_status code r = r\<lparr> res_statusCode := code \<rparr>"

text \<open>\<open>res.json(body)\<close> sets headers, so it throws once the headers are sent.\<close>

definition res_json :: "error_json \<Rightarrow> res_state \<Rightarrow> string + res_state" where
  "res_json j r =
     (if res_sentStatus r \<noteq> None then Inl ''Cannot set headers after they are sent to the client''
      else Inr ((res_flush r)\<lparr> res_sentJson := Some j, res_ended := True \<rparr>))"

text \<open>
  What \<open>workbook.xlsx.write(res)\<close> did: it wrote the whole document, or it threw, having
  written the bytes given (none, when it fails while it builds the document).
\<close>

datatype write_outcome = Written string | WriteFailed string string

subsection \<open>exportStudentPerformance\<close>

definition exportQuery :: "env \<Rightarrow> req_query \<Rightarrow> session_query" where
  "exportQuery env query =
     \<lparr> sq_status = ''completed'',
       sq_level = (if truthy (query ''level'') then Some (parseInt (given (query ''level''))) else None),
       sq_studentId = None,
       sq_score = scoreFilter (query ''minScore'') (query ''maxScore''),
       sq_createdAt = createdAtFilter env (query ''startDate'') (query ''endDate''),
       sq_or = None \<rparr>"

text \<open>
  The \<open>catch\<close> block: \<open>res.status(500).json({ success: false, message, error })\<close>. The
  result is the response and the error that escaped the handler, if one did.
\<close>

definition exportCatch :: "string \<Rightarrow> res_state \<Rightarrow> res_state \<times> string option" where
  "exportCatch e r =
     (case res_json \<lparr> ej_message = ''Failed to export student performance data'', ej_error = e \<rparr>
             (res_status 500 r) of
        Inl thrown \<Rightarrow> (res_status 500 r, Some thrown)
      | Inr r' \<Rightarrow> (r', None))"

text \<open>
  \<open>xlsx_write\<close> is the serializer of the spreadsheet library and \<open>today\<close> the date of the
  file name.
\<close>

definition exportStudentPerformance ::
  "env \<Rightarrow> (worksheet \<Rightarrow> write_outcome) \<Rightarrow> string \<Rightarrow> store \<Rightarrow> req_query \<Rightarrow> res_state \<times> string option" where
  "exportStudentPerformance env xlsx_write today st query =
     (case GameSession_sorted env st (exportQuery env query) ''createdAt'' (- 1) of
        Inl e \<Rightarrow> exportCatch e res_new
      | Inr found \<Rightarrow>
          (let worksheet = exportWorksheet env (map (populate st) found);
               filename = ''student_performance_'' @ today @ ''.xlsx''
           in case res_setHeader ''Content-Type''
                     ''application/vnd.openxmlformats-officedocument.spreadsheetml.sheet'' res_new of
                Inl e \<Rightarrow> exportCatch e res_new
              | Inr r1 \<Rightarrow>
                  (case res_setHeader ''Content-Disposition''
                          (''attachment; filename='' @ [CHR 0x22] @ filename @ [CHR 0x22]) r1 of
                     Inl e \<Rightarrow> exportCatch e r1
                   | Inr r2 \<Rightarrow>
                       (case xlsx_write worksheet of
                          Written bytes \<Rightarrow> (res_end (res_write bytes r2), None)
                        | WriteFailed bytes e \<Rightarrow> exportCatch e (res_write bytes r2)))))"

text \<open>The response once the two headers of the download are staged.\<close>

definition staged :: "string \<Rightarrow> res_state" where
  "staged today =
     res_new\<lparr> res_headers :=
       [(''Content-Type'', ''application/vnd.openxmlformats-officedocument.spreadsheetml.sheet''),
        (''Content-Disposition'',
         ''attachment; filename='' @ [CHR 0x22] @ (''student_performance_'' @ today @ ''.xlsx'')
           @ [CHR 0x22])] \<rparr>"

section \<open>The stated behaviour, for comparison\<close>

text \<open>
  The number that a string in the notation of \<open>toFixed(2)\<close> denotes: an optional minus
  sign, the digits before the point and the two digits after it.
\<close>

definition readFixed2 :: "string \<Rightarrow> rat" where
  "readFixed2 s =
     (let neg = (take 1 s = ''-'');
          body = (if neg then drop 1 s else s);
          whole = takeWhile (\<lambda>c. c \<noteq> CHR ''.'') body;
          cents = drop 1 (dropWhile (\<lambda>c. c \<noteq> CHR ''.'') body);
          v = of_nat (digitsValue 10 whole) + of_nat (digitsValue 10 cents) / 100
      in if neg then - v else v)"

text \<open>
  The values the export averages are doubles that are zero or lie between \<open>2^-64\<close> and
  \<open>2^53\<close>: a score, a percentage, a number of seconds. On fewer than \<open>2^32\<close> such
  values (the length of an array) no sum and no quotient of the summary leaves the normal
  range of the doubles.
\<close>

definition double_value :: "rat \<Rightarrow> bool" where
  "double_value v = (fl v = v \<and> (v = 0 \<or> (1 / 2 ^ 64 \<le> v \<and> v \<le> 2 ^ 53)))"

text \<open>The sum of a list as the runtime adds it: from the left, in doubles.\<close>

definition js_sum :: "rat list \<Rightarrow> rat" where
  "js_sum vs = foldl (\<lambda>sum v. fl (sum + v)) 0 vs"

text \<open>
  An average of the summary, as stated: the text \<open>t\<close> is the arithmetic mean of the
  values rendered to two decimal places. It is the double of the mean in the notation of
  \<open>toFixed(2)\<close>, it is in that notation (rendering the number it denotes gives the text
  back), and the number it denotes is within half a hundredth, and the rounding of the
  \<open>length vs + 1\<close> operations on doubles, of the exact mean.
\<close>

definition average_text :: "string \<Rightarrow> rat list \<Rightarrow> bool" where
  "average_text t vs =
     (t = toFixed2 (fl (js_sum vs / of_nat (length vs)))
      \<and> toFixed2 (readFixed2 t) = t
      \<and> \<bar>readFixed2 t - sum_list vs / of_nat (length vs)\<bar>
          \<le> 1 / 200 + ((1 + 1 / 2 ^ 53) ^ (length vs + 1) - 1) * (sum_list vs / of_nat (length vs)))"

text \<open>
  The fallback chain of the specification: the first value of the list that is present
  (defined and not the empty string), else the sentinel.
\<close>

fun first_present :: "string option list \<Rightarrow> string \<Rightarrow> string" where
  "first_present [] sentinel = sentinel"
| "first_present (None # vs) sentinel = first_present vs sentinel"
| "first_present (Some [] # vs) sentinel = first_present vs sentinel"
| "first_present (Some (c # cs) # vs) sentinel = c # cs"

definition identityCells :: "user option \<Rightarrow> cell list" where
  "identityCells student =
     (case student of
        None \<Rightarrow> [Text ''N/A'', Text ''N/A'', Text ''N/A'']
      | Some u \<Rightarrow>
          [Text (first_present [azureAdDisplayName u, studentName u] ''N/A''),
           Text (first_present [studentId u] ''N/A''),
           Text (first_present [azureAdEmail u, mobileNumber u] ''N/A'')])"

section \<open>Example data\<close>

text \<open>
  A small store for the concrete checks. For a pattern of letters and digits the regular
  expression engine finds the pattern anywhere in the subject, ignoring case;
  \<open>literal_regex\<close> is that search. The examples pass no date and only such patterns.
\<close>

definition lowerCase :: "char \<Rightarrow> char" where
  "lowerCase c =
     (let n = of_char c :: nat in if 65 \<le> n \<and> n \<le> 90 then char_of (n + 32) else c)"

fun startsWith :: "string \<Rightarrow> string \<Rightarrow> bool" where
  "startsWith s [] = True"
| "startsWith [] (p # ps) = False"
| "startsWith (c # cs) (p # ps) = (c = p \<and> startsWith cs ps)"

fun containsText :: "string \<Rightarrow> string \<Rightarrow> bool" where
  "containsText [] p = (p = [])"
| "containsText (c # cs) p = (startsWith (c # cs) p \<or> containsText cs p)"

definition literal_regex :: "string \<Rightarrow> (string \<Rightarrow> bool) option" where
  "literal_regex pat = Some (\<lambda>s. containsText (map lowerCase s) (map lowerCase pat))"

definition example_env :: env where
  "example_env =
     \<lparr> regex_i = literal_regex, newDate = (\<lambda>s. None), toLocaleString = (\<lambda>t. ''1/1/2024'') \<rparr>"

definition asha :: user where
  "asha =
     \<lparr> user_oid = ''64b7f0a1c2d3e4f5a6b7c8d1'', role = ''student'', isActive = True,
       studentName = Some ''Asha'', studentId = Some ''S001'',
       mobileNumber = Some ''9000000001'', azureAdEmail = None, azureAdDisplayName = None,
       userCreatedAt = 1000, lastLoginAt = None \<rparr>"

definition ravi :: user where
  "ravi =
     \<lparr> user_oid = ''64b7f0a1c2d3e4f5a6b7c8d2'', role = ''student'', isActive = True,
       studentName = Some ''Ravi'', studentId = None,
       mobileNumber = None, azureAdEmail = Some ''ravi@mica.ac.in'',
       azureAdDisplayName = Some ''Ravi K'',
       userCreatedAt = 2000, lastLoginAt = Some 5000 \<rparr>"

definition quiz :: "string \<Rightarrow> string \<Rightarrow> int \<Rightarrow> int \<Rightarrow> rat \<Rightarrow> int \<Rightarrow> session" where
  "quiz owner ident lv sc pc t =
     \<lparr> studentId_ref = owner, studentIdentifier = Some ident, level = lv, score = sc,
       totalQuestions = 10, percentage = pc, timeTakenSeconds = 60, status = ''completed'',
       createdAt = t, startTime = None, endTime = None, performance = None,
       feedbackText = None \<rparr>"

definition example_sessions :: "session list" where
  "example_sessions =
     [quiz ''64b7f0a1c2d3e4f5a6b7c8d1'' ''S001'' 1 5 50 3000,
      quiz ''64b7f0a1c2d3e4f5a6b7c8d2'' ''ravi'' 1 5 50 4000,
      quiz ''64b7f0a1c2d3e4f5a6b7c8d1'' ''S001'' 2 6 60 5000]"

definition example_store :: store where
  "example_store =
     \<lparr> users = [asha, ravi], sessions = example_sessions, itemsActive = [True], fault = None \<rparr>"

text \<open>Requests of the examples.\<close>

definition page_two :: req_query where
  "page_two = [''page'' \<mapsto> ''2'', ''limit'' \<mapsto> ''1'']"

definition score_five :: req_query where
  "score_five = [''minScore'' \<mapsto> ''5'', ''maxScore'' \<mapsto> ''5'']"

definition search_ravi :: req_query where
  "search_ravi = [''search'' \<mapsto> ''ravi'']"

definition limit_zero :: req_query where
  "limit_zero = [''limit'' \<mapsto> ''0'']"

definition search_ravi_one :: req_query where
  "search_ravi_one = [''search'' \<mapsto> ''ravi'', ''limit'' \<mapsto> ''1'']"

text \<open>The example store after the user \<open>asha\<close> was deleted: her sessions have no owner.\<close>

definition store_without_asha :: store where
  "store_without_asha = example_store\<lparr> users := [ravi] \<rparr>"

definition store_down :: store where
  "store_down = example_store\<lparr> fault := Some ''connection refused'' \<rparr>"

section \<open>Properties\<close>

subsection \<open>Doubles\<close>

lemma roundHalfEven_near: "\<bar>of_int (roundHalfEven y) - y\<bar> \<le> 1 / 2"
proof -
  define f where "f = (of_int \<lfloor>y\<rfloor> :: rat)"
  have "f \<le> y" "y < f + 1"
    unfolding f_def by linarith+
  then show ?thesis
    by (auto simp: roundHalfEven_def Let_def f_def[symmetric])
qed

lemma roundHalfEven_of_int: "roundHalfEven (of_int m) = m"
  by (simp add: roundHalfEven_def)

lemma exponentOf_bounds:
  assumes "0 < x"
  shows "power_int 2 (exponentOf x) \<le> x" and "x < power_int 2 (exponentOf x + 1)"
proof -
  show "power_int 2 (exponentOf x) \<le> x"
  proof (cases "1 \<le> x")
    case True
    define n where "n = nat \<lfloor>x\<rfloor>"
    define k where "k = floorlog 2 n"
    have n1: "0 < n" using True by (simp add: n_def)
    from floorlog_bounds[OF n1, of 2] have b: "2 ^ (k - 1) \<le> n" "n < 2 ^ k"
      by (simp_all add: k_def)
    have k1: "0 < k" using b(2) n1 by (cases k) auto
    have "exponentOf x = int (k - 1)"
      using True k1 by (simp add: exponentOf_def n_def k_def)
    then have "power_int 2 (exponentOf x) = (2 :: rat) ^ (k - 1)" by simp
    also have "\<dots> \<le> of_nat n"
      using b(1) by (metis of_nat_le_iff of_nat_numeral of_nat_power)
    also have "\<dots> \<le> x"
      using True by (simp add: n_def)
    finally show ?thesis .
  next
    case False
    define c where "c = \<lceil>1 / x\<rceil>"
    define n where "n = nat (c - 1)"
    define k where "k = floorlog 2 n"
    have y1: "1 < 1 / x" using False assms by simp
    then have c2: "2 \<le> c" unfolding c_def by linarith
    then have n1: "0 < n" by (simp add: n_def)
    from floorlog_bounds[OF n1, of 2] have b: "2 ^ (k - 1) \<le> n" "n < 2 ^ k"
      by (simp_all add: k_def)
    have e: "exponentOf x = - int k"
      using False by (simp add: exponentOf_def n_def k_def c_def)
    have "1 / x \<le> of_int c" unfolding c_def by linarith
    also have "of_int c = rat_of_nat n + 1" using c2 by (simp add: n_def)
    also have "\<dots> \<le> 2 ^ k"
    proof -
      have "n + 1 \<le> 2 ^ k" using b(2) by simp
      then have "rat_of_nat (n + 1) \<le> rat_of_nat (2 ^ k)" by (simp only: of_nat_le_iff)
      then show ?thesis by simp
    qed
    finally have "1 / x \<le> 2 ^ k" .
    then have "1 / 2 ^ k \<le> x"
      using assms by (simp add: field_simps)
    then show ?thesis
      by (simp add: e power_int_minus_divide)
  qed
  show "x < power_int 2 (exponentOf x + 1)"
  proof (cases "1 \<le> x")
    case True
    define n where "n = nat \<lfloor>x\<rfloor>"
    define k where "k = floorlog 2 n"
    have n1: "0 < n" using True by (simp add: n_def)
    from floorlog_bounds[OF n1, of 2] have b: "2 ^ (k - 1) \<le> n" "n < 2 ^ k"
      by (simp_all add: k_def)
    have "exponentOf x + 1 = int k"
      using True by (simp add: exponentOf_def n_def k_def)
    then have p: "power_int 2 (exponentOf x + 1) = (2 :: rat) ^ k" by simp
    have "x < of_int \<lfloor>x\<rfloor> + 1" by linarith
    also have "of_int \<lfloor>x\<rfloor> + 1 = rat_of_nat (n + 1)" using True by (simp add: n_def)
    also have "\<dots> \<le> rat_of_nat (2 ^ k)"
      using b(2) by (simp only: of_nat_le_iff)
    finally show ?thesis by (simp add: p)
  next
    case False
    define c where "c = \<lceil>1 / x\<rceil>"
    define n where "n = nat (c - 1)"
    define k where "k = floorlog 2 n"
    have y1: "1 < 1 / x" using False assms by simp
    then have c2: "2 \<le> c" unfolding c_def by linarith
    then have n1: "0 < n" by (simp add: n_def)
    from floorlog_bounds[OF n1, of 2] have b: "2 ^ (k - 1) \<le> n" "n < 2 ^ k"
      by (simp_all add: k_def)
    have k1: "0 < k" using b(2) n1 by (cases k) auto
    have e: "exponentOf x + 1 = - int (k - 1)"
      using False k1 by (simp add: exponentOf_def n_def k_def c_def)
    have "rat_of_nat (2 ^ (k - 1)) \<le> rat_of_nat n"
      using b(1) by (simp only: of_nat_le_iff)
    also have "rat_of_nat n = of_int c - 1" using c2 by (simp add: n_def)
    also have "\<dots> < 1 / x" unfolding c_def by linarith
    finally have "2 ^ (k - 1) < 1 / x" by simp
    then have "x < 1 / 2 ^ (k - 1)"
      using assms by (simp add: field_simps)
    then show ?thesis
      by (simp add: e power_int_minus_divide)
  qed
qed

lemma exponentOf_eq:
  assumes "0 < x" "power_int 2 e \<le> x" "x < power_int 2 (e + 1)"
  shows "exponentOf x = e"
proof -
  note b = exponentOf_bounds[OF assms(1)]
  have "\<not> e + 1 \<le> exponentOf x"
  proof
    assume "e + 1 \<le> exponentOf x"
    then have "power_int (2 :: rat) (e + 1) \<le> power_int 2 (exponentOf x)"
      by (intro power_int_increasing) auto
    with b(1) assms(3) show False by linarith
  qed
  moreover have "\<not> exponentOf x + 1 \<le> e"
  proof
    assume "exponentOf x + 1 \<le> e"
    then have "power_int (2 :: rat) (exponentOf x + 1) \<le> power_int 2 e"
      by (intro power_int_increasing) auto
    with b(2) assms(2) show False by linarith
  qed
  ultimately show ?thesis by linarith
qed

lemma fl_0: "fl 0 = 0"
  by (simp add: fl_def)

lemma fl_shape:
  assumes "x \<noteq> 0"
  shows "fl x = sgn x * (of_int (roundHalfEven (\<bar>x\<bar> / power_int 2 (exponentOf \<bar>x\<bar> - 52)))
                          * power_int 2 (exponentOf \<bar>x\<bar> - 52))"
  using assms by (simp add: fl_def Let_def)

lemma fl_error: "\<bar>fl x - x\<bar> \<le> \<bar>x\<bar> / 2 ^ 53"
proof (cases "x = 0")
  case True
  then show ?thesis by (simp add: fl_0)
next
  case False
  define a where "a = \<bar>x\<bar>"
  define e where "e = exponentOf a"
  define ulp where "ulp = (power_int 2 (e - 52) :: rat)"
  define m where "m = (of_int (roundHalfEven (a / ulp)) :: rat)"
  have a0: "0 < a" using False by (simp add: a_def)
  have u0: "0 < ulp" by (simp add: ulp_def)
  have ue: "ulp = power_int 2 e / 2 ^ 52"
    unfolding ulp_def by (subst power_int_diff) simp_all
  have "power_int 2 e \<le> a"
    unfolding e_def by (rule exponentOf_bounds(1)[OF a0])
  then have ua: "ulp \<le> a / 2 ^ 52"
    by (simp add: ue divide_right_mono)
  have f: "fl x = sgn x * (m * ulp)"
    using fl_shape[OF False] by (simp add: m_def ulp_def e_def a_def)
  have x: "x = sgn x * a"
    by (simp add: a_def sgn_mult_abs)
  have "fl x - x = sgn x * (m * ulp - a)"
    by (subst (2) x) (simp add: f algebra_simps)
  then have "\<bar>fl x - x\<bar> = \<bar>m * ulp - a\<bar>"
    using False by (simp add: abs_mult abs_sgn_eq)
  also have "m * ulp - a = ulp * (m - a / ulp)"
    using u0 by (simp add: field_simps)
  also have "\<bar>ulp * (m - a / ulp)\<bar> = ulp * \<bar>m - a / ulp\<bar>"
    using u0 by (simp add: abs_mult)
  also have "\<dots> \<le> ulp * (1 / 2)"
    using roundHalfEven_near[of "a / ulp"] u0 unfolding m_def
    by (intro mult_left_mono) simp_all
  also have "\<dots> \<le> a / 2 ^ 52 * (1 / 2)"
    using ua by simp
  also have "\<dots> = a / 2 ^ 53" by simp
  finally show ?thesis by (simp add: a_def)
qed

lemma fl_exact:
  assumes "x \<noteq> 0" "\<bar>x\<bar> / power_int 2 (exponentOf \<bar>x\<bar> - 52) = of_int k"
  shows "fl x = x"
proof -
  have u0: "power_int 2 (exponentOf \<bar>x\<bar> - 52) \<noteq> (0 :: rat)" by simp
  have "of_int k * power_int 2 (exponentOf \<bar>x\<bar> - 52) = \<bar>x\<bar>"
    using assms(2)[symmetric] u0 by simp
  then show ?thesis
    using fl_shape[OF assms(1)] by (simp add: assms(2) roundHalfEven_of_int sgn_mult_abs)
qed

lemma fl_of_int:
  assumes "\<bar>n\<bar> \<le> 2 ^ 53"
  shows "fl (of_int n) = of_int n"
proof (cases "n = 0")
  case True
  then show ?thesis by (simp add: fl_0)
next
  case False
  define a where "a = (of_int \<bar>n\<bar> :: rat)"
  define e where "e = exponentOf a"
  have a1: "1 \<le> a" using False by (simp add: a_def)
  then have a0: "0 < a" by simp
  have a53: "a \<le> 2 ^ 53"
  proof -
    have "(of_int \<bar>n\<bar> :: rat) \<le> of_int (2 ^ 53)" using assms by (simp only: of_int_le_iff)
    then show ?thesis by (simp add: a_def)
  qed
  note b = exponentOf_bounds[OF a0, folded e_def]
  have e0: "0 \<le> e"
  proof (rule ccontr)
    assume "\<not> 0 \<le> e"
    then have "e + 1 \<le> 0" by simp
    then have "power_int (2 :: rat) (e + 1) \<le> power_int 2 0"
      by (intro power_int_increasing) auto
    with b(2) a1 show False by simp
  qed
  have e53: "e \<le> 53"
  proof (rule ccontr)
    assume "\<not> e \<le> 53"
    then have "54 \<le> e" by simp
    then have "power_int (2 :: rat) 54 \<le> power_int 2 e"
      by (intro power_int_increasing) auto
    with b(1) a53 show False by simp
  qed
  have "\<exists>k. a / power_int 2 (e - 52) = of_int k"
  proof (cases "e \<le> 52")
    case True
    then have "power_int (2 :: rat) (e - 52) = 1 / 2 ^ nat (52 - e)"
      using power_int_minus_divide[of "2 :: rat" "52 - e"] by (simp add: power_int_def)
    then have "a / power_int 2 (e - 52) = of_int (\<bar>n\<bar> * 2 ^ nat (52 - e))"
      by (simp add: a_def)
    then show ?thesis by blast
  next
    case False
    with e53 have e: "e = 53" by simp
    have "2 ^ 53 \<le> a" using b(1) by (simp add: e)
    with a53 have "a = 2 ^ 53" by simp
    then have "a / power_int 2 (e - 52) = of_int (2 ^ 52)"
      by (simp add: e)
    then show ?thesis by blast
  qed
  then obtain k where k: "a / power_int 2 (e - 52) = of_int k" by blast
  have ne: "(of_int n :: rat) \<noteq> 0" using False by simp
  have ab: "\<bar>of_int n :: rat\<bar> = a" by (simp add: a_def)
  show ?thesis
    by (rule fl_exact[OF ne, of k]) (simp add: ab k[unfolded e_def])
qed

lemma fl_eval:
  assumes "0 < x" "power_int 2 e \<le> x" "x < power_int 2 (e + 1)"
  shows "fl x = of_int (roundHalfEven (x / power_int 2 (e - 52))) * power_int 2 (e - 52)"
proof -
  have "exponentOf \<bar>x\<bar> = e"
    using assms by (intro exponentOf_eq) simp_all
  then show ?thesis
    using assms(1) fl_shape[of x] by simp
qed

lemma floor_rat_numeral: "\<lfloor>numeral a / numeral b :: rat\<rfloor> = numeral a div numeral b"
  by (metis floor_divide_of_int_eq of_int_numeral)

lemma fl_numeral: "numeral k \<le> (2 ^ 53 :: int) \<Longrightarrow> fl (numeral k) = numeral k"
  using fl_of_int[of "numeral k"] by simp

lemma fl_1: "fl 1 = 1"
  using fl_of_int[of 1] by simp

lemma fl_nonneg: "0 \<le> x \<Longrightarrow> 0 \<le> fl x"
  by (cases "x = 0") (simp_all add: fl_0 fl_shape roundHalfEven_def Let_def)

text \<open>
  The examples of the rounding: \<open>0.075\<close> and \<open>1.005\<close> are no doubles, and the doubles
  nearest to them lie below them; \<open>94906267 * 94906267\<close> is odd and above \<open>2^53\<close>.
\<close>

lemma fl_three_fortieths: "fl (3 / 40) = 5404319552844595 / 72057594037927936"
  by (subst fl_eval[where e = "- 4"]) (simp_all add: roundHalfEven_def Let_def floor_rat_numeral)

lemma fl_1005_thousandths: "fl (1005 / 1000) = 4526117625507348 / 4503599627370496"
  by (subst fl_eval[where e = "0"]) (simp_all add: roundHalfEven_def Let_def floor_rat_numeral)

lemma fl_odd_square: "fl 9007199515875289 = 9007199515875288"
  by (subst fl_eval[where e = "53"]) (simp_all add: roundHalfEven_def Let_def floor_rat_numeral)

lemma js_int_small: "\<bar>n\<bar> \<le> 2 ^ 53 \<Longrightarrow> js_int n = Num n"
  by (simp add: js_int_def fl_of_int)

lemma js_sum_snoc: "js_sum (vs @ [v]) = fl (js_sum vs + v)"
  by (simp add: js_sum_def)

lemma fl_error_u: "\<bar>fl x - x\<bar> \<le> (1 / 2 ^ 53) * \<bar>x\<bar>"
  using fl_error[of x] by simp

lemma js_sum_error:
  "\<bar>js_sum vs - sum_list vs\<bar> \<le> ((1 + 1 / 2 ^ 53) ^ length vs - 1) * sum_list (map abs vs)"
proof (induction vs rule: rev_induct)
  case Nil
  then show ?case by (simp add: js_sum_def)
next
  case (snoc v vs)
  define u where "u = (1 / 2 ^ 53 :: rat)"
  define S where "S = js_sum vs"
  define T where "T = sum_list vs"
  define A where "A = sum_list (map abs vs)"
  define g where "g = (1 + u) ^ length vs"
  define E where "E = (g - 1) * A"
  have u0: "0 \<le> u" by (simp add: u_def)
  have g1: "1 \<le> g" unfolding g_def using u0 by (intro one_le_power) simp
  have A0: "0 \<le> A" unfolding A_def by (induction vs) simp_all
  have TA: "\<bar>T\<bar> \<le> A" unfolding T_def A_def by (rule sum_list_abs)
  have IH: "\<bar>S - T\<bar> \<le> E"
    using snoc.IH by (simp add: S_def T_def E_def g_def A_def u_def)
  have E0: "0 \<le> E" using IH by linarith
  have r: "\<bar>fl (S + v) - (S + v)\<bar> \<le> u * \<bar>S + v\<bar>"
    unfolding u_def by (rule fl_error_u)
  have "\<bar>S + v\<bar> \<le> A + \<bar>v\<bar> + E"
    using IH TA by linarith
  then have "u * \<bar>S + v\<bar> \<le> u * (A + \<bar>v\<bar> + E)"
    using u0 by (rule mult_left_mono)
  with r IH have "\<bar>fl (S + v) - (T + v)\<bar> \<le> u * (A + \<bar>v\<bar> + E) + E"
    by linarith
  also have "\<dots> = u * (A + \<bar>v\<bar>) + (1 + u) * (g - 1) * A"
    by (simp add: E_def algebra_simps)
  also have "\<dots> \<le> u * (A + \<bar>v\<bar>) + (1 + u) * (g - 1) * (A + \<bar>v\<bar>)"
  proof -
    have "0 \<le> (1 + u) * (g - 1)" using u0 g1 by simp
    then have "(1 + u) * (g - 1) * A \<le> (1 + u) * (g - 1) * (A + \<bar>v\<bar>)"
      by (intro mult_left_mono) simp_all
    then show ?thesis by linarith
  qed
  also have "\<dots> = ((1 + u) * g - 1) * (A + \<bar>v\<bar>)"
    by (simp add: algebra_simps)
  finally have "\<bar>fl (S + v) - (T + v)\<bar> \<le> ((1 + u) * g - 1) * (A + \<bar>v\<bar>)" .
  then show ?case
    by (simp add: js_sum_snoc S_def T_def A_def g_def u_def mult.commute)
qed

lemma average_error:
  assumes "vs \<noteq> []" "\<forall>v \<in> set vs. 0 \<le> v"
  shows "\<bar>fl (js_sum vs / of_nat (length vs)) - sum_list vs / of_nat (length vs)\<bar>
     \<le> ((1 + 1 / 2 ^ 53) ^ (length vs + 1) - 1) * (sum_list vs / of_nat (length vs))"
proof -
  define u where "u = (1 / 2 ^ 53 :: rat)"
  define S where "S = js_sum vs"
  define T where "T = sum_list vs"
  define N where "N = (of_nat (length vs) :: rat)"
  define g where "g = (1 + u) ^ length vs"
  define E where "E = (g - 1) * T"
  have N0: "0 < N" using assms(1) by (simp add: N_def)
  have u0: "0 \<le> u" by (simp add: u_def)
  have g1: "1 \<le> g" unfolding g_def using u0 by (intro one_le_power) simp
  have "map abs vs = vs" using assms(2) by (induction vs) simp_all
  then have A: "sum_list (map abs vs) = T" by (simp add: T_def)
  have T0: "0 \<le> T" unfolding T_def using assms(2) by (induction vs) simp_all
  have IH: "\<bar>S - T\<bar> \<le> E"
    using js_sum_error[of vs] by (simp add: A S_def E_def g_def u_def) (simp add: T_def)
  have r: "\<bar>fl (S / N) - S / N\<bar> \<le> u * \<bar>S / N\<bar>"
    unfolding u_def by (rule fl_error_u)
  have SN: "\<bar>S / N\<bar> = \<bar>S\<bar> / N" using N0 by simp
  have "\<bar>S\<bar> \<le> T + E" using IH T0 by linarith
  then have "\<bar>S\<bar> / N \<le> (T + E) / N" using N0 by (simp add: divide_right_mono)
  then have 1: "u * \<bar>S / N\<bar> \<le> u * ((T + E) / N)"
    unfolding SN using u0 by (rule mult_left_mono)
  have "\<bar>S / N - T / N\<bar> = \<bar>S - T\<bar> / N"
    using N0 by (simp add: diff_divide_distrib[symmetric])
  also have "\<dots> \<le> E / N" using IH N0 by (simp add: divide_right_mono)
  finally have 2: "\<bar>S / N - T / N\<bar> \<le> E / N" .
  from r 1 2 have "\<bar>fl (S / N) - T / N\<bar> \<le> u * ((T + E) / N) + E / N"
    by linarith
  also have "\<dots> = ((1 + u) * g - 1) * (T / N)"
    using N0 by (simp add: E_def field_simps)
  finally show ?thesis
    by (simp add: S_def T_def N_def g_def u_def mult.commute)
qed


subsection \<open>Sorting and windows\<close>

lemma length_insort_by: "length (insort_by le x xs) = Suc (length xs)"
  by (induction xs) auto

lemma length_sort_by: "length (sort_by le xs) = length xs"
  unfolding sort_by_def by (induction xs) (auto simp: length_insort_by)

lemma skipOf_Num:
  assumes "parseInt page = Num p" "parseInt limit = Num l" "1 \<le> p" "1 \<le> l"
    and "(p - 1) * l \<le> 2 ^ 53"
  shows "skipOf page limit = Num ((p - 1) * l)"
proof -
  have m: "int (nat \<bar>p - 1\<bar> * nat \<bar>l\<bar>) = (p - 1) * l"
    using assms by (simp add: nat_mult_distrib)
  have "p - 1 \<le> (p - 1) * l"
    using assms(3,4) by (simp add: mult_le_cancel_left1)
  then have "\<bar>p - 1\<bar> \<le> 2 ^ 53"
    using assms(3,5) by simp
  then have a: "js_int (p - 1) = Num (p - 1)"
    by (rule js_int_small)
  have "0 \<le> (p - 1) * l"
    using assms(3,4) by simp
  then have "\<bar>(p - 1) * l\<bar> \<le> 2 ^ 53"
    using assms(5) by simp
  then have b: "js_int ((p - 1) * l) = Num ((p - 1) * l)"
    by (rule js_int_small)
  show ?thesis
    using assms(1-4) m b by (auto simp: skipOf_def a js_times_def js_signed_def)
qed

lemma cursor_window_Num:
  assumes "fo_skip opts = Num k" "fo_limit opts = Num l" "0 \<le> k" "1 \<le> l"
  shows "cursor_window opts xs = Inr (take (nat l) (drop (nat k) xs))"
  using assms by (simp add: cursor_window_def)

subsection \<open>The sort key\<close>

lemma param_upd_same: "param (query(k \<mapsto> v)) k d = v"
  by (simp add: param_def)

lemma param_upd_other: "k' \<noteq> k \<Longrightarrow> param (query(k \<mapsto> v)) k' d = param query k' d"
  by (simp add: param_def)

lemma studentSortField_idem: "studentSortField (studentSortField s) = studentSortField s"
  by (simp add: studentSortField_def allowedStudentSortFields_def)

lemma sessionSortField_idem: "sessionSortField (sessionSortField s) = sessionSortField s"
  by (simp add: sessionSortField_def allowedSessionSortFields_def)

lemma getAllStudents_sortBy:
  "getAllStudents env st (query(''sortBy'' \<mapsto> s)) =
   getAllStudents env st (query(''sortBy'' \<mapsto> studentSortField s))"
  by (simp add: getAllStudents_def studentsQuery_def studentsFindOptions_def Let_def
      param_upd_same param_upd_other studentSortField_idem cong: sum.case_cong)

lemma getAllGameSessions_sortBy:
  "getAllGameSessions env st (query(''sortBy'' \<mapsto> s)) =
   getAllGameSessions env st (query(''sortBy'' \<mapsto> sessionSortField s))"
  by (simp add: getAllGameSessions_def sessionsFindQuery_def sessionsQuery_def
      sessionsFindOptions_def Let_def param_upd_same param_upd_other sessionSortField_idem
      cong: sum.case_cong)

text \<open>
  Claim C4. For every \<open>sortBy\<close> (the default \<open>createdAt\<close> when the parameter is absent),
  the sort key \<open>getAllStudents\<close> hands to the store is \<open>sortBy\<close> when it is one of
  \<open>createdAt\<close>, \<open>studentName\<close>, \<open>studentId\<close>, \<open>mobileNumber\<close>, \<open>lastLoginAt\<close> and
  \<open>createdAt\<close> otherwise; the sort key of \<open>getAllGameSessions\<close> is \<open>sortBy\<close> when it is
  one of \<open>createdAt\<close>, \<open>score\<close>, \<open>percentage\<close>, \<open>timeTakenSeconds\<close>, \<open>level\<close> and
  \<open>createdAt\<close> otherwise. The key is always in the allow-list, and the handlers use the
  raw value for nothing else: a request answers as the request with \<open>sortBy\<close> replaced by
  the effective key does.
\<close>

theorem sort_key_allow_list:
  "fo_sortField (studentsFindOptions query) =
     (if param query ''sortBy'' ''createdAt'' \<in>
           {''createdAt'', ''studentName'', ''studentId'', ''mobileNumber'', ''lastLoginAt''}
      then param query ''sortBy'' ''createdAt'' else ''createdAt'')
   \<and> fo_sortField (sessionsFindOptions query) =
     (if param query ''sortBy'' ''createdAt'' \<in>
           {''createdAt'', ''score'', ''percentage'', ''timeTakenSeconds'', ''level''}
      then param query ''sortBy'' ''createdAt'' else ''createdAt'')
   \<and> fo_sortField (studentsFindOptions query) \<in>
        {''createdAt'', ''studentName'', ''studentId'', ''mobileNumber'', ''lastLoginAt''}
   \<and> fo_sortField (sessionsFindOptions query) \<in>
        {''createdAt'', ''score'', ''percentage'', ''timeTakenSeconds'', ''level''}
   \<and> getAllStudents env st (query(''sortBy'' \<mapsto> sortBy)) =
       getAllStudents env st
         (query(''sortBy'' \<mapsto> fo_sortField (studentsFindOptions (query(''sortBy'' \<mapsto> sortBy)))))
   \<and> getAllGameSessions env st (query(''sortBy'' \<mapsto> sortBy)) =
       getAllGameSessions env st
         (query(''sortBy'' \<mapsto> fo_sortField (sessionsFindOptions (query(''sortBy'' \<mapsto> sortBy)))))"
proof -
  have k1: "fo_sortField (studentsFindOptions (query(''sortBy'' \<mapsto> sortBy))) = studentSortField sortBy"
    by (simp add: studentsFindOptions_def Let_def param_upd_same)
  have k2: "fo_sortField (sessionsFindOptions (query(''sortBy'' \<mapsto> sortBy))) = sessionSortField sortBy"
    by (simp add: sessionsFindOptions_def Let_def param_upd_same)
  have A: "fo_sortField (studentsFindOptions query) =
     (if param query ''sortBy'' ''createdAt'' \<in>
           {''createdAt'', ''studentName'', ''studentId'', ''mobileNumber'', ''lastLoginAt''}
      then param query ''sortBy'' ''createdAt'' else ''createdAt'')
   \<and> fo_sortField (sessionsFindOptions query) =
     (if param query ''sortBy'' ''createdAt'' \<in>
           {''createdAt'', ''score'', ''percentage'', ''timeTakenSeconds'', ''level''}
      then param query ''sortBy'' ''createdAt'' else ''createdAt'')
   \<and> fo_sortField (studentsFindOptions query) \<in>
        {''createdAt'', ''studentName'', ''studentId'', ''mobileNumber'', ''lastLoginAt''}
   \<and> fo_sortField (sessionsFindOptions query) \<in>
        {''createdAt'', ''score'', ''percentage'', ''timeTakenSeconds'', ''level''}"
    by (simp add: studentsFindOptions_def sessionsFindOptions_def studentSortField_def
        sessionSortField_def allowedStudentSortFields_def allowedSessionSortFields_def Let_def)
  from A getAllStudents_sortBy[of env st query sortBy] getAllGameSessions_sortBy[of env st query sortBy]
  show ?thesis
    by (simp only: k1 k2) simp
qed

subsection \<open>Grouping\<close>

lemma set_insort_by: "set (insort_by le x xs) = insert x (set xs)"
  by (induction xs) auto

lemma set_sort_by: "set (sort_by le xs) = set xs"
  unfolding sort_by_def by (induction xs) (auto simp: set_insort_by)

lemma distinct_map_insort_by:
  "distinct (map f (insort_by le x xs)) = (f x \<notin> f ` set xs \<and> distinct (map f xs))"
  by (induction xs) (auto simp: set_insort_by)

lemma distinct_map_sort_by: "distinct (map f (sort_by le xs)) = distinct (map f xs)"
  unfolding sort_by_def
  by (induction xs) (auto simp: distinct_map_insort_by set_sort_by[unfolded sort_by_def])

lemma sorted_insort_by_key:
  fixes f :: "'a \<Rightarrow> 'b::linorder"
  shows "sorted (map f xs) \<Longrightarrow> sorted (map f (insort_by (\<lambda>a b. f a \<le> f b) x xs))"
  by (induction xs) (auto simp: set_insort_by)

lemma sorted_sort_by_key:
  fixes f :: "'a \<Rightarrow> 'b::linorder"
  shows "sorted (map f (sort_by (\<lambda>a b. f a \<le> f b) xs))"
  unfolding sort_by_def by (induction xs) (auto simp: sorted_insort_by_key)

lemma group_insert_keys:
  "map fst (group_insert k s g) = (if k \<in> fst ` set g then map fst g else map fst g @ [k])"
  by (induction g) force+

lemma map_of_group_insert:
  "map_of (group_insert k s g) =
     (map_of g)(k \<mapsto> (case map_of g k of None \<Rightarrow> acc_first s | Some a \<Rightarrow> acc_next a s))"
  by (induction g) (auto simp: fun_eq_iff)

lemma group_stage_snoc:
  "group_stage key (docs @ [s]) = group_insert (key s) s (group_stage key docs)"
  by (simp add: group_stage_def)

lemma distinct_group_stage: "distinct (map fst (group_stage key docs))"
  by (induction docs rule: rev_induct) (auto simp: group_stage_snoc group_insert_keys group_stage_def)

lemma map_of_group_stage:
  "map_of (group_stage key docs) k =
     (case filter (\<lambda>s. key s = k) docs of
        [] \<Rightarrow> None
      | x # xs \<Rightarrow> Some (foldl acc_next (acc_first x) xs))"
proof (induction docs rule: rev_induct)
  case Nil
  then show ?case by (simp add: group_stage_def)
next
  case (snoc s docs)
  then show ?case
    by (auto simp: group_stage_snoc map_of_group_insert split: list.splits)
qed

lemma group_stage_entry:
  "(k, a) \<in> set (group_stage key docs) \<longleftrightarrow>
     (\<exists>x xs. filter (\<lambda>s. key s = k) docs = x # xs \<and> a = foldl acc_next (acc_first x) xs)"
proof -
  have "(k, a) \<in> set (group_stage key docs) \<longleftrightarrow> map_of (group_stage key docs) k = Some a"
    using distinct_group_stage[of key docs] by simp
  then show ?thesis
    by (auto simp: map_of_group_stage split: list.splits)
qed

lemma Max_insert_max:
  fixes a b :: "'a::linorder"
  assumes "finite S"
  shows "Max (insert (max a b) S) = Max (insert a (insert b S))"
proof (cases "S = {}")
  case True
  then show ?thesis by (simp add: max.commute)
next
  case False
  then show ?thesis using assms by (simp add: max.assoc)
qed

lemma acc_next_fields:
  "ga_count (acc_next a s) = ga_count a + 1"
  "ga_sumScore (acc_next a s) = ga_sumScore a + score s"
  "ga_sumPercentage (acc_next a s) = ga_sumPercentage a + percentage s"
  "ga_sumQuestions (acc_next a s) = ga_sumQuestions a + totalQuestions s"
  "ga_sumTime (acc_next a s) = ga_sumTime a + timeTakenSeconds s"
  "ga_maxScore (acc_next a s) = max (ga_maxScore a) (score s)"
  "ga_maxPercentage (acc_next a s) = max (ga_maxPercentage a) (percentage s)"
  by (simp_all add: acc_next_def)

lemma foldl_acc_next:
  "ga_count (foldl acc_next a xs) = ga_count a + length xs
   \<and> ga_sumScore (foldl acc_next a xs) = ga_sumScore a + sum_list (map score xs)
   \<and> ga_sumPercentage (foldl acc_next a xs) = ga_sumPercentage a + sum_list (map percentage xs)
   \<and> ga_sumQuestions (foldl acc_next a xs) = ga_sumQuestions a + sum_list (map totalQuestions xs)
   \<and> ga_sumTime (foldl acc_next a xs) = ga_sumTime a + sum_list (map timeTakenSeconds xs)
   \<and> ga_maxScore (foldl acc_next a xs) = Max (insert (ga_maxScore a) (score ` set xs))
   \<and> ga_maxPercentage (foldl acc_next a xs) = Max (insert (ga_maxPercentage a) (percentage ` set xs))"
proof (induction xs arbitrary: a)
  case Nil
  then show ?case by simp
next
  case (Cons x xs)
  show ?case
    using Cons.IH[of "acc_next a x"]
    by (simp add: acc_next_fields Max_insert_max)
qed

lemma group_acc_meaning:
  assumes "g = x # xs"
  shows "ga_count (foldl acc_next (acc_first x) xs) = length g
   \<and> ga_sumScore (foldl acc_next (acc_first x) xs) = sum_list (map score g)
   \<and> ga_sumPercentage (foldl acc_next (acc_first x) xs) = sum_list (map percentage g)
   \<and> ga_sumQuestions (foldl acc_next (acc_first x) xs) = sum_list (map totalQuestions g)
   \<and> ga_sumTime (foldl acc_next (acc_first x) xs) = sum_list (map timeTakenSeconds g)
   \<and> ga_maxScore (foldl acc_next (acc_first x) xs) = Max (score ` set g)
   \<and> ga_maxPercentage (foldl acc_next (acc_first x) xs) = Max (percentage ` set g)"
  unfolding assms by (simp add: foldl_acc_next acc_first_def)

subsection \<open>Level statistics\<close>

lemma ls_id_level_stat_of: "ls_id (level_stat_of g) = fst g"
  by (simp add: level_stat_of_def)

lemma levelStats_keys:
  "map ls_id (levelStats docs) =
     map fst (sort_by (\<lambda>a b. fst a \<le> fst b)
       (group_stage level (filter (\<lambda>s. status s = ''completed'') docs)))"
  by (simp add: levelStats_def ls_id_level_stat_of comp_def)

lemma group_stage_key_set: "fst ` set (group_stage key docs) = key ` set docs"
proof (rule set_eqI)
  fix k
  have "k \<in> fst ` set (group_stage key docs) \<longleftrightarrow> (\<exists>a. (k, a) \<in> set (group_stage key docs))"
    by force
  also have "\<dots> \<longleftrightarrow> filter (\<lambda>s. key s = k) docs \<noteq> []"
    by (auto simp: group_stage_entry neq_Nil_conv)
  also have "\<dots> \<longleftrightarrow> k \<in> key ` set docs"
    by (auto simp: filter_empty_conv)
  finally show "k \<in> fst ` set (group_stage key docs) \<longleftrightarrow> k \<in> key ` set docs" .
qed

lemma levelStats_row:
  assumes "r \<in> set (levelStats docs)"
  defines "g \<equiv> filter (\<lambda>s. status s = ''completed'' \<and> level s = ls_id r) docs"
  shows "ls_totalSessions r = length g
    \<and> ls_averageScore r = of_int (sum_list (map score g)) / of_nat (length g)
    \<and> ls_averagePercentage r = sum_list (map percentage g) / of_nat (length g)
    \<and> ls_totalQuestions r = sum_list (map totalQuestions g)
    \<and> ls_totalCorrectAnswers r = sum_list (map score g)"
proof -
  let ?C = "filter (\<lambda>s. status s = ''completed'') docs"
  from assms(1) obtain k a where r: "r = level_stat_of (k, a)"
    and ka: "(k, a) \<in> set (group_stage level ?C)"
    by (auto simp: levelStats_def set_sort_by)
  from ka obtain x xs where f: "filter (\<lambda>s. level s = k) ?C = x # xs"
    and a: "a = foldl acc_next (acc_first x) xs"
    by (auto simp: group_stage_entry)
  have "g = x # xs"
    using f by (simp add: g_def r ls_id_level_stat_of conj_commute)
  from group_acc_meaning[OF this] show ?thesis
    by (simp add: r a level_stat_of_def)
qed

text \<open>
  Claim C1. The level statistics of \<open>getDashboardOverview\<close> have one row for each level
  that a session with status \<open>completed\<close> has, in strictly ascending order of the level (so
  no level twice). The row of a level reports, over the completed sessions of that level:
  their number as \<open>totalSessions\<close>, the arithmetic means of \<open>score\<close> and \<open>percentage\<close> as
  \<open>averageScore\<close> and \<open>averagePercentage\<close>, and the sums of \<open>totalQuestions\<close> and of
  \<open>score\<close> as \<open>totalQuestions\<close> and \<open>totalCorrectAnswers\<close>. Two completed sessions of level 1
  with scores 8 and 6, 10 questions each and percentages 80 and 60 give the one row
  \<open>{totalSessions: 2, averageScore: 7, averagePercentage: 70, totalQuestions: 20,
  totalCorrectAnswers: 14}\<close>.
\<close>

theorem level_statistics:
  "sorted_wrt (<) (map ls_id (levelStats docs))
   \<and> set (map ls_id (levelStats docs)) = level ` {s \<in> set docs. status s = ''completed''}
   \<and> (\<forall>r \<in> set (levelStats docs).
         let g = filter (\<lambda>s. status s = ''completed'' \<and> level s = ls_id r) docs
         in ls_totalSessions r = length g
          \<and> ls_averageScore r = of_int (sum_list (map score g)) / of_nat (length g)
          \<and> ls_averagePercentage r = sum_list (map percentage g) / of_nat (length g)
          \<and> ls_totalQuestions r = sum_list (map totalQuestions g)
          \<and> ls_totalCorrectAnswers r = sum_list (map score g))
   \<and> (fault st = None \<longrightarrow>
        (\<exists>d. getDashboardOverview sevenDaysAgo st = Success d
           \<and> db_levelStats d = levelStats (sessions st)))
   \<and> levelStats
        [s1\<lparr> status := ''completed'', level := 1, score := 8, totalQuestions := 10, percentage := 80 \<rparr>,
         s2\<lparr> status := ''completed'', level := 1, score := 6, totalQuestions := 10, percentage := 60 \<rparr>]
      = [\<lparr> ls_id = 1, ls_totalSessions = 2, ls_averageScore = 7, ls_averagePercentage = 70,
            ls_totalQuestions = 20, ls_totalCorrectAnswers = 14 \<rparr>]"
proof -
  let ?C = "filter (\<lambda>s. status s = ''completed'') docs"
  have "sorted (map ls_id (levelStats docs))"
    unfolding levelStats_keys by (rule sorted_sort_by_key)
  moreover have "distinct (map ls_id (levelStats docs))"
    unfolding levelStats_keys by (simp add: distinct_map_sort_by distinct_group_stage)
  ultimately have A: "sorted_wrt (<) (map ls_id (levelStats docs))"
    by (simp add: strict_sorted_iff)
  have "set (map ls_id (levelStats docs)) = level ` set ?C"
    unfolding levelStats_keys by (simp add: set_sort_by group_stage_key_set)
  then have B: "set (map ls_id (levelStats docs)) = level ` {s \<in> set docs. status s = ''completed''}"
    by simp
  have C: "\<forall>r \<in> set (levelStats docs).
         let g = filter (\<lambda>s. status s = ''completed'' \<and> level s = ls_id r) docs
         in ls_totalSessions r = length g
          \<and> ls_averageScore r = of_int (sum_list (map score g)) / of_nat (length g)
          \<and> ls_averagePercentage r = sum_list (map percentage g) / of_nat (length g)
          \<and> ls_totalQuestions r = sum_list (map totalQuestions g)
          \<and> ls_totalCorrectAnswers r = sum_list (map score g)"
    using levelStats_row unfolding Let_def by blast
  have D: "fault st = None \<longrightarrow>
        (\<exists>d. getDashboardOverview sevenDaysAgo st = Success d
           \<and> db_levelStats d = levelStats (sessions st))"
    by (simp add: getDashboardOverview_def)
  have E: "levelStats
        [s1\<lparr> status := ''completed'', level := 1, score := 8, totalQuestions := 10, percentage := 80 \<rparr>,
         s2\<lparr> status := ''completed'', level := 1, score := 6, totalQuestions := 10, percentage := 60 \<rparr>]
      = [\<lparr> ls_id = 1, ls_totalSessions = 2, ls_averageScore = 7, ls_averagePercentage = 70,
            ls_totalQuestions = 20, ls_totalCorrectAnswers = 14 \<rparr>]"
    by (simp add: levelStats_def group_stage_def sort_by_def level_stat_of_def acc_first_def
        acc_next_def)
  from A B C D E show ?thesis by blast
qed

theorem level_statistics_witness:
  "fault example_store = None
   \<and> hd (levelStats example_sessions) \<in> set (levelStats example_sessions)
   \<and> ls_id (hd (levelStats example_sessions)) = 1
   \<and> ls_totalSessions (hd (levelStats example_sessions)) =
       length (filter (\<lambda>s. status s = ''completed'' \<and> level s = ls_id (hd (levelStats example_sessions)))
                 example_sessions)
   \<and> sorted_wrt (<) (map ls_id (levelStats example_sessions))
   \<and> (\<exists>d. getDashboardOverview 0 example_store = Success d
         \<and> db_levelStats d = levelStats (sessions example_store))"
proof -
  note T = level_statistics[where docs = example_sessions and st = example_store
      and sevenDaysAgo = 0 and ?s1.0 = "hd example_sessions" and ?s2.0 = "hd example_sessions"]
  have ev: "levelStats example_sessions =
    [\<lparr> ls_id = 1, ls_totalSessions = 2, ls_averageScore = 5, ls_averagePercentage = 50,
            ls_totalQuestions = 20, ls_totalCorrectAnswers = 10 \<rparr>,
     \<lparr> ls_id = 2, ls_totalSessions = 1, ls_averageScore = 6, ls_averagePercentage = 60,
            ls_totalQuestions = 10, ls_totalCorrectAnswers = 6 \<rparr>]"
    by (simp add: levelStats_def group_stage_def sort_by_def level_stat_of_def acc_first_def
        acc_next_def example_sessions_def quiz_def)
  have f: "fault example_store = None"
    by (simp add: example_store_def)
  have m: "hd (levelStats example_sessions) \<in> set (levelStats example_sessions)"
    by (simp add: ev)
  have i: "ls_id (hd (levelStats example_sessions)) = 1"
    by (simp add: ev)
  show ?thesis
    using T m f i unfolding Let_def by blast
qed

subsection \<open>Student performance\<close>

lemma group_single_foldl:
  "foldl (\<lambda>g s. group_insert () s g) [((), a)] xs = [((), foldl acc_next a xs)]"
  by (induction xs arbitrary: a) auto

lemma group_stage_unit:
  "group_stage (\<lambda>s. ()) docs =
     (case docs of [] \<Rightarrow> [] | x # xs \<Rightarrow> [((), foldl acc_next (acc_first x) xs)])"
  by (cases docs) (simp_all add: group_stage_def group_single_foldl)

lemma studentPerformance_cases:
  "studentPerformance oid docs =
     (case filter (\<lambda>s. studentId_ref s = oid \<and> status s = ''completed'') docs of
        [] \<Rightarrow> []
      | x # xs \<Rightarrow> [performance_of ((), foldl acc_next (acc_first x) xs)])"
  by (simp add: studentPerformance_def group_stage_unit split: list.splits)

text \<open>
  Claim C6. For a student that \<open>getStudentDetails\<close> finds (the store answers, the id is an
  ObjectId, the user exists and has the role \<open>student\<close>), the answer's \<open>performance\<close> is
  null exactly when the student has no session with status \<open>completed\<close>. Otherwise it is a
  record over the student's completed sessions: their number as \<open>totalSessions\<close>, the sums
  of \<open>totalQuestions\<close> and \<open>score\<close> as \<open>totalQuestions\<close> and \<open>totalCorrectAnswers\<close>, the
  arithmetic means of \<open>score\<close>, \<open>percentage\<close> and \<open>timeTakenSeconds\<close> as \<open>averageScore\<close>,
  \<open>averagePercentage\<close> and \<open>averageTime\<close>, and the maxima of \<open>score\<close> and \<open>percentage\<close> as
  \<open>bestScore\<close> and \<open>bestPercentage\<close>.
\<close>

theorem student_performance:
  assumes "fault st = None" and "is_objectid sid"
    and "List.find (\<lambda>u. user_oid u = sid) (users st) = Some u"
    and "role u = ''student''"
  shows "\<exists>d. getStudentDetails st sid = Success d \<and> sdt_student d = u
     \<and> (let g = filter (\<lambda>s. studentId_ref s = user_oid u \<and> status s = ''completed'') (sessions st)
        in (sdt_performance d = None \<longleftrightarrow> g = [])
         \<and> (\<forall>p. sdt_performance d = Some p \<longrightarrow>
               pf_totalSessions p = length g
             \<and> pf_totalQuestions p = sum_list (map totalQuestions g)
             \<and> pf_totalCorrectAnswers p = sum_list (map score g)
             \<and> pf_averageScore p = of_int (sum_list (map score g)) / of_nat (length g)
             \<and> pf_averagePercentage p = sum_list (map percentage g) / of_nat (length g)
             \<and> pf_averageTime p = of_int (sum_list (map timeTakenSeconds g)) / of_nat (length g)
             \<and> pf_bestScore p = Max (score ` set g)
             \<and> pf_bestPercentage p = Max (percentage ` set g)))"
proof -
  let ?g = "filter (\<lambda>s. studentId_ref s = user_oid u \<and> status s = ''completed'') (sessions st)"
  let ?perf = "case studentPerformance (user_oid u) (sessions st) of [] \<Rightarrow> None | p # ps \<Rightarrow> Some p"
  have d: "getStudentDetails st sid =
      Success \<lparr> sdt_student = u,
                sdt_sessions = take 10 (mongo_sort (session_field ''createdAt'') (- 1)
                           (filter (\<lambda>s. studentId_ref s = user_oid u) (sessions st))),
                sdt_performance = ?perf \<rparr>"
    using assms by (simp add: getStudentDetails_def)
  have none: "?perf = None \<longleftrightarrow> ?g = []"
    by (simp add: studentPerformance_cases split: list.splits)
  have some: "pf_totalSessions p = length ?g
             \<and> pf_totalQuestions p = sum_list (map totalQuestions ?g)
             \<and> pf_totalCorrectAnswers p = sum_list (map score ?g)
             \<and> pf_averageScore p = of_int (sum_list (map score ?g)) / of_nat (length ?g)
             \<and> pf_averagePercentage p = sum_list (map percentage ?g) / of_nat (length ?g)
             \<and> pf_averageTime p = of_int (sum_list (map timeTakenSeconds ?g)) / of_nat (length ?g)
             \<and> pf_bestScore p = Max (score ` set ?g)
             \<and> pf_bestPercentage p = Max (percentage ` set ?g)"
    if "?perf = Some p" for p
  proof -
    from that obtain x xs where g: "?g = x # xs"
      and p: "p = performance_of ((), foldl acc_next (acc_first x) xs)"
      by (auto simp: studentPerformance_cases split: list.splits)
    from group_acc_meaning[OF g] show ?thesis
      by (simp add: p performance_of_def)
  qed
  show ?thesis
    unfolding d Let_def using none some by simp
qed

theorem student_performance_witness:
  "fault example_store = None \<and> is_objectid ''64b7f0a1c2d3e4f5a6b7c8d1''
   \<and> List.find (\<lambda>u. user_oid u = ''64b7f0a1c2d3e4f5a6b7c8d1'') (users example_store) = Some asha
   \<and> role asha = ''student''
   \<and> (\<exists>d p. getStudentDetails example_store ''64b7f0a1c2d3e4f5a6b7c8d1'' = Success d
         \<and> sdt_performance d = Some p \<and> pf_totalSessions p = 2 \<and> pf_bestScore p = 6)"
proof -
  have h1: "fault example_store = None"
    by (simp add: example_store_def)
  have h2: "is_objectid ''64b7f0a1c2d3e4f5a6b7c8d1''"
    by (simp add: is_objectid_def isRadixDigit_def digitValue_def)
  have h3: "List.find (\<lambda>u. user_oid u = ''64b7f0a1c2d3e4f5a6b7c8d1'') (users example_store) = Some asha"
    by (simp add: example_store_def asha_def)
  have h4: "role asha = ''student''"
    by (simp add: asha_def)
  have g: "filter (\<lambda>s. studentId_ref s = user_oid asha \<and> status s = ''completed'') (sessions example_store)
      = [quiz ''64b7f0a1c2d3e4f5a6b7c8d1'' ''S001'' 1 5 50 3000,
         quiz ''64b7f0a1c2d3e4f5a6b7c8d1'' ''S001'' 2 6 60 5000]"
    by (simp add: example_store_def example_sessions_def quiz_def asha_def)
  from student_performance[OF h1 h2 h3 h4] obtain d where
    d: "getStudentDetails example_store ''64b7f0a1c2d3e4f5a6b7c8d1'' = Success d"
    and n: "sdt_performance d = None \<longleftrightarrow> False"
    and s: "\<And>p. sdt_performance d = Some p \<Longrightarrow> pf_totalSessions p = 2 \<and> pf_bestScore p = Max {5, 6}"
    unfolding Let_def g by (auto simp: quiz_def)
  from n obtain p where p: "sdt_performance d = Some p" by auto
  from s[OF p] have "pf_totalSessions p = 2 \<and> pf_bestScore p = 6" by simp
  with d p h1 h2 h3 h4 show ?thesis by blast
qed

subsection \<open>The export worksheet\<close>

lemma ceiling_rat_numeral: "\<lceil>numeral a / numeral b :: rat\<rceil> = - (- numeral a div numeral b)"
  using ceiling_divide_eq_div[of "numeral a" "numeral b", where ?'a = rat] by simp

lemmas toFixed2_eval = toFixed2_def hundredths_def decimal.simps digitChar_def Let_def
  floor_rat_numeral

lemma toFixed2_third: "toFixed2 (16 / 3) = ''5.33''"
  by (simp add: toFixed2_eval)
lemma toFixed2_negative: "toFixed2 (- 1 / 1000) = ''-0.00''"
  by (simp add: toFixed2_eval)
lemma toFixed2_three_fortieths: "toFixed2 (fl (3 / 40)) = ''0.07''"
  by (simp add: fl_three_fortieths toFixed2_eval)
lemma fl_201_200: "fl (201 / 200) = 4526117625507348 / 4503599627370496"
  using fl_1005_thousandths by simp
lemma toFixed2_1005_thousandths: "toFixed2 (fl (1005 / 1000)) = ''1.00''"
  by (simp add: fl_201_200 toFixed2_eval)
lemma js_ceil_div_up: "js_ceil_div 3 (Num 2) = Num 2"
  by (simp add: ceiling_rat_numeral)
lemma js_ceil_div_zero: "js_ceil_div 3 (Num 0) = PosInf"
  by (simp add: ceiling_rat_numeral)

lemma js_sum_forty: "js_sum (replicate 37 0 @ replicate 3 1) = 3"
  by (simp add: js_sum_def fl_0 fl_1 fl_numeral eval_nat_numeral)

lemma ws_rows_addRow: "ws_rows (addRow ws r) = ws_rows ws @ [r]"
  by (simp add: addRow_def)

lemma ws_rows_styleRow: "ws_rows (styleRow c ws i) = ws_rows ws"
  by (simp add: styleRow_def)

lemma ws_rows_foldl_styleRow: "ws_rows (foldl (styleRow c) ws is) = ws_rows ws"
  by (induction "is" arbitrary: ws) (simp_all add: ws_rows_styleRow)

lemma ws_rows_foldl_addRow:
  "ws_rows (foldl (\<lambda>ws p. addRow ws (f p)) ws0 ps) = ws_rows ws0 @ map f ps"
  by (induction ps arbitrary: ws0) (simp_all add: ws_rows_addRow)

lemma foldl_js_sum: "foldl (\<lambda>sum s. fl (sum + f s)) 0 xs = js_sum (map f xs)"
  by (simp add: js_sum_def foldl_map)

lemma ws_rows_addSummary:
  "ws_rows (addSummary ws found) =
     ws_rows ws @
     (if found = [] then []
      else [[],
            Text ''SUMMARY STATISTICS'' # Text [] # replicate 10 (Text []),
            Text ''Total Sessions'' # Number (of_nat (length found)) # replicate 10 (Text []),
            Text ''Average Score''
              # Text (toFixed2 (fl (js_sum (map (\<lambda>p. of_int (score (fst p))) found)
                                     / of_nat (length found))))
              # replicate 10 (Text []),
            Text ''Average Percentage''
              # Text (toFixed2 (fl (js_sum (map (\<lambda>p. percentage (fst p)) found)
                                     / of_nat (length found))) @ ''%'')
              # replicate 10 (Text []),
            Text ''Average Time (seconds)''
              # Text (toFixed2 (fl (js_sum (map (\<lambda>p. of_int (timeTakenSeconds (fst p))) found)
                                     / of_nat (length found))))
              # replicate 10 (Text [])])"
  by (simp add: addSummary_def Let_def ws_rows_foldl_styleRow ws_rows_styleRow ws_rows_addRow
      foldl_js_sum summaryRow_def)

lemma ws_rows_exportWorksheet:
  "ws_rows (exportWorksheet env found) =
     [Text ''Student Name'', Text ''Student ID'', Text ''Mobile/Email'', Text ''Level'',
      Text ''Score'', Text ''Total Questions'', Text ''Percentage'',
      Text ''Time Taken (seconds)'', Text ''Accuracy (%)'', Text ''Avg Time per Question (s)'',
      Text ''Start Time'', Text ''End Time'', Text ''Feedback Provided'']
     # map (dataRow env) found @
     (if found = [] then []
      else [[],
            Text ''SUMMARY STATISTICS'' # Text [] # replicate 10 (Text []),
            Text ''Total Sessions'' # Number (of_nat (length found)) # replicate 10 (Text []),
            Text ''Average Score''
              # Text (toFixed2 (fl (js_sum (map (\<lambda>p. of_int (score (fst p))) found)
                                     / of_nat (length found))))
              # replicate 10 (Text []),
            Text ''Average Percentage''
              # Text (toFixed2 (fl (js_sum (map (\<lambda>p. percentage (fst p)) found)
                                     / of_nat (length found))) @ ''%'')
              # replicate 10 (Text []),
            Text ''Average Time (seconds)''
              # Text (toFixed2 (fl (js_sum (map (\<lambda>p. of_int (timeTakenSeconds (fst p))) found)
                                     / of_nat (length found))))
              # replicate 10 (Text [])])"
  by (simp only: exportWorksheet_def Let_def ws_rows_addSummary ws_rows_styleRow
      ws_rows_foldl_addRow setColumns_def headerRow_def worksheet.simps append_Cons append_Nil)

lemma hundredths_near:
  "\<bar>of_nat (hundredths x) / 100 - \<bar>x\<bar>\<bar> \<le> 1 / 200"
proof -
  define a where "a = \<bar>x\<bar>"
  define f where "f = (of_int \<lfloor>a * 100 + 1 / 2\<rfloor> :: rat)"
  have "0 \<le> a" by (simp add: a_def)
  then have nn: "0 \<le> \<lfloor>a * 100 + 1 / 2\<rfloor>" by simp
  have h: "of_nat (hundredths x) = f"
    using nn by (simp add: hundredths_def f_def a_def)
  have "f \<le> a * 100 + 1 / 2" "a * 100 + 1 / 2 < f + 1"
    unfolding f_def by linarith+
  then have "\<bar>f / 100 - a\<bar> \<le> 1 / 200"
    by linarith
  then show ?thesis
    by (simp add: h a_def)
qed

lemma hundredths_of_hundredths: "hundredths (rat_of_nat h / 100) = h"
proof -
  have "\<lfloor>rat_of_nat h + 1 / 2\<rfloor> = int h"
    by (rule floor_unique) simp_all
  then show ?thesis
    by (simp add: hundredths_def)
qed

lemma first_present_Cons:
  "first_present (v # vs) d = (if truthy v then given v else first_present vs d)"
proof (cases v)
  case None
  then show ?thesis by (simp add: truthy_def)
next
  case (Some s)
  then show ?thesis by (cases s) (simp_all add: truthy_def given_def)
qed

lemma first_present_two:
  "given (js_or (js_or a b) (Some d)) = first_present [a, b] d"
  by (auto simp: first_present_Cons js_or_def given_def)

lemma first_present_one:
  "given (js_or a (Some d)) = first_present [a] d"
  by (auto simp: first_present_Cons js_or_def given_def)

lemma take3_dataRow: "take 3 (dataRow env (s, student)) = identityCells student"
  by (cases student)
     (auto simp: dataRow_def identityCells_def studentNameOf_def studentIdOf_def contactOf_def
        first_present_Cons js_or_def given_def truthy_def opt_chain_def Let_def)

lemma example_export_docs:
  "GameSession_sorted example_env example_store (exportQuery example_env Map.empty) ''createdAt'' (- 1)
     = Inr (rev example_sessions)"
  by (simp add: GameSession_sorted_def example_store_def session_filter_def session_cast_error_def
      exportQuery_def truthy_def scoreFilter_def createdAtFilter_def nan_bound_def
      session_base_matches_def score_in_range_def date_in_range_def example_sessions_def quiz_def
      mongo_sort_def sort_by_def session_field_def)

lemma digit_cases:
  "d < 10 \<Longrightarrow> d = 0 \<or> d = 1 \<or> d = 2 \<or> d = 3 \<or> d = 4 \<or> d = 5 \<or> d = 6 \<or> d = 7 \<or> d = 8 \<or> d = (9 :: nat)"
  by arith

lemma digitValue_digitChar: "d < 10 \<Longrightarrow> digitValue (digitChar d) = Some d"
  by (drule digit_cases) (auto simp: digitChar_def digitValue_def)

lemma digitChar_plain: "d < 10 \<Longrightarrow> digitChar d \<noteq> CHR ''.'' \<and> digitChar d \<noteq> CHR ''-''"
  by (drule digit_cases) (auto simp: digitChar_def)

lemma decimal_digits: "c \<in> set (decimal n) \<Longrightarrow> \<exists>d < 10. c = digitChar d"
proof (induction n arbitrary: c rule: decimal.induct)
  case (1 n)
  show ?case
  proof (cases "n < 10")
    case True
    with "1.prems" show ?thesis by (auto simp: decimal.simps[of n])
  next
    case False
    with "1.prems" have "c \<in> set (decimal (n div 10)) \<or> c = digitChar (n mod 10)"
      by (auto simp: decimal.simps[of n])
    then show ?thesis
    proof
      assume "c \<in> set (decimal (n div 10))"
      with "1.IH"[OF False] show ?thesis by blast
    next
      assume "c = digitChar (n mod 10)"
      moreover have "n mod 10 < 10" by simp
      ultimately show ?thesis by blast
    qed
  qed
qed

lemma decimal_not_empty: "decimal n \<noteq> []"
  by (subst decimal.simps) simp

lemma digitsValue_snoc:
  "digitsValue R (ds @ [c]) =
     digitsValue R ds * R + (case digitValue c of None \<Rightarrow> 0 | Some d \<Rightarrow> d)"
  by (simp add: digitsValue_def)

lemma digitsValue_decimal: "digitsValue 10 (decimal n) = n"
proof (induction n rule: decimal.induct)
  case (1 n)
  show ?case
  proof (cases "n < 10")
    case True
    then show ?thesis
      by (simp add: decimal.simps[of n] digitsValue_def digitValue_digitChar)
  next
    case False
    have "n mod 10 < 10" by simp
    then have "digitValue (digitChar (n mod 10)) = Some (n mod 10)"
      by (rule digitValue_digitChar)
    with False "1.IH"[OF False] show ?thesis
      by (simp add: decimal.simps[of n] digitsValue_snoc)
  qed
qed

lemma digitsValue_two:
  assumes "a < 10" "b < 10"
  shows "digitsValue 10 [digitChar a, digitChar b] = 10 * a + b"
  using assms by (simp add: digitsValue_def digitValue_digitChar)

lemma decimal_no_point: "c \<in> set (decimal n) \<Longrightarrow> c \<noteq> CHR ''.''"
  using decimal_digits[of c n] digitChar_plain by auto

lemma decimal_no_minus: "take 1 (decimal n) \<noteq> ''-''"
proof -
  obtain c cs where d: "decimal n = c # cs"
    using decimal_not_empty[of n] by (cases "decimal n") auto
  then have "c \<in> set (decimal n)" by simp
  then have "c \<noteq> CHR ''-''"
    using decimal_digits[of c n] digitChar_plain by auto
  with d show ?thesis by simp
qed

lemma readFixed2_body:
  assumes "a < 10" "b < 10"
  shows "takeWhile (\<lambda>c. c \<noteq> CHR ''.'') (decimal w @ ''.'' @ [digitChar a, digitChar b]) = decimal w"
    and "drop 1 (dropWhile (\<lambda>c. c \<noteq> CHR ''.'') (decimal w @ ''.'' @ [digitChar a, digitChar b]))
          = [digitChar a, digitChar b]"
  using decimal_no_point[of _ w]
  by (simp_all add: takeWhile_append2 dropWhile_append2)

lemma readFixed2_plain:
  assumes "a < 10" "b < 10"
  shows "readFixed2 (decimal w @ ''.'' @ [digitChar a, digitChar b])
     = rat_of_nat w + rat_of_nat (10 * a + b) / 100"
proof -
  let ?s = "decimal w @ ''.'' @ [digitChar a, digitChar b]"
  have "take 1 ?s = take 1 (decimal w)"
    using decimal_not_empty[of w] by (cases "decimal w") simp_all
  then have neg: "take 1 ?s \<noteq> ''-''"
    using decimal_no_minus[of w] by simp
  show ?thesis
    unfolding readFixed2_def Let_def if_not_P[OF neg] readFixed2_body[OF assms]
      digitsValue_decimal digitsValue_two[OF assms]
    by (rule refl)
qed

lemma readFixed2_minus:
  assumes "a < 10" "b < 10"
  shows "readFixed2 (CHR ''-'' # decimal w @ ''.'' @ [digitChar a, digitChar b])
     = - (rat_of_nat w + rat_of_nat (10 * a + b) / 100)"
proof -
  let ?s = "CHR ''-'' # decimal w @ ''.'' @ [digitChar a, digitChar b]"
  have neg: "take 1 ?s = ''-''" by simp
  have d: "drop 1 ?s = decimal w @ ''.'' @ [digitChar a, digitChar b]" by simp
  show ?thesis
    unfolding readFixed2_def Let_def if_P[OF neg] d readFixed2_body[OF assms]
      digitsValue_decimal digitsValue_two[OF assms]
    by (rule refl)
qed

lemma hundredths_split:
  "rat_of_nat (n div 100) + rat_of_nat (10 * (n mod 100 div 10) + n mod 10) / 100 = rat_of_nat n / 100"
proof -
  have 1: "n mod 100 = 10 * (n mod 100 div 10) + n mod 100 mod 10"
    by (rule mult_div_mod_eq[symmetric])
  have 2: "n mod 100 mod 10 = n mod 10"
    by (simp add: mod_mod_cancel)
  have 3: "n = 100 * (n div 100) + n mod 100"
    by (rule mult_div_mod_eq[symmetric])
  have "n = 100 * (n div 100) + (10 * (n mod 100 div 10) + n mod 10)"
    using 1 2 3 by linarith
  then have "rat_of_nat n = rat_of_nat (100 * (n div 100) + (10 * (n mod 100 div 10) + n mod 10))"
    by simp
  also have "\<dots> = 100 * rat_of_nat (n div 100) + rat_of_nat (10 * (n mod 100 div 10) + n mod 10)"
    by (simp only: of_nat_add of_nat_mult of_nat_numeral)
  finally show ?thesis
    by (simp add: field_simps)
qed

lemma toFixed2_shape:
  "toFixed2 x = (if x < 0 then ''-'' else []) @ decimal (hundredths x div 100) @ ''.'' @
      [digitChar (hundredths x mod 100 div 10), digitChar (hundredths x mod 10)]"
  by (simp add: toFixed2_def Let_def)

lemma readFixed2_toFixed2:
  "readFixed2 (toFixed2 x) =
     (if x < 0 then - (rat_of_nat (hundredths x) / 100) else rat_of_nat (hundredths x) / 100)"
proof -
  have ab: "hundredths x mod 100 div 10 < 10" "hundredths x mod 10 < 10"
    by simp_all
  show ?thesis
  proof (cases "x < 0")
    case True
    then have "toFixed2 x = CHR ''-'' # decimal (hundredths x div 100) @ ''.'' @
      [digitChar (hundredths x mod 100 div 10), digitChar (hundredths x mod 10)]"
      by (simp add: toFixed2_shape)
    then show ?thesis
      using True by (simp only: readFixed2_minus[OF ab] hundredths_split if_True)
  next
    case False
    then have "toFixed2 x = decimal (hundredths x div 100) @ ''.'' @
      [digitChar (hundredths x mod 100 div 10), digitChar (hundredths x mod 10)]"
      by (simp add: toFixed2_shape)
    then show ?thesis
      using False by (simp only: readFixed2_plain[OF ab] hundredths_split if_False)
  qed
qed

lemma toFixed2_near: "\<bar>readFixed2 (toFixed2 x) - x\<bar> \<le> 1 / 200"
proof (cases "x < 0")
  case True
  then have "readFixed2 (toFixed2 x) - x = - (rat_of_nat (hundredths x) / 100 - \<bar>x\<bar>)"
    by (simp add: readFixed2_toFixed2)
  then show ?thesis
    using hundredths_near[of x] by (simp only: abs_minus_cancel)
next
  case False
  then have "readFixed2 (toFixed2 x) - x = rat_of_nat (hundredths x) / 100 - \<bar>x\<bar>"
    by (simp add: readFixed2_toFixed2)
  then show ?thesis
    using hundredths_near[of x] by (simp only:)
qed

subsection \<open>The export response\<close>

lemma export_cases:
  "exportStudentPerformance env xlsx_write today st query =
     (case GameSession_sorted env st (exportQuery env query) ''createdAt'' (- 1) of
        Inl e \<Rightarrow> exportCatch e res_new
      | Inr found \<Rightarrow>
          (case xlsx_write (exportWorksheet env (map (populate st) found)) of
             Written bytes \<Rightarrow> (res_end (res_write bytes (staged today)), None)
           | WriteFailed bytes e \<Rightarrow> exportCatch e (res_write bytes (staged today))))"
  by (simp add: exportStudentPerformance_def Let_def res_setHeader_def res_new_def staged_def
      split: sum.splits write_outcome.splits)

lemma exportCatch_unsent:
  assumes "res_sentStatus r = None"
  shows "exportCatch e r =
     (r\<lparr> res_statusCode := 500, res_sentStatus := Some 500,
         res_sentJson := Some \<lparr> ej_message = ''Failed to export student performance data'',
                                 ej_error = e \<rparr>,
         res_ended := True \<rparr>, None)"
  using assms by (simp add: exportCatch_def res_json_def res_status_def res_flush_def)

lemma exportCatch_sent:
  assumes "res_sentStatus r = Some c"
  shows "exportCatch e r =
     (r\<lparr> res_statusCode := 500 \<rparr>, Some ''Cannot set headers after they are sent to the client'')"
  using assms by (simp add: exportCatch_def res_json_def res_status_def)

lemma res_write_staged:
  "res_write bytes (staged today) =
     (if bytes = [] then staged today
      else (staged today)\<lparr> res_sentStatus := Some 200, res_sentBytes := bytes \<rparr>)"
  by (simp add: res_write_def res_flush_def staged_def res_new_def)

lemma staged_fields:
  "res_sentStatus (staged today) = None" "res_sentBytes (staged today) = []"
  "res_sentJson (staged today) = None" "res_ended (staged today) = False"
  "res_statusCode (staged today) = 200"
  by (simp_all add: staged_def res_new_def)

lemma res_new_fields:
  "res_sentStatus res_new = None" "res_sentBytes res_new = []"
  by (simp_all add: res_new_def)


lemma GameSession_sorted_ok:
  assumes "fault st = None" "session_filter env q = Inr P"
  shows "GameSession_sorted env st q f d =
     Inr (mongo_sort (session_field f) d (filter P (sessions st)))"
  using assms by (auto simp: GameSession_sorted_def session_filter_def split: option.splits)

lemma GameSession_countDocuments_ok:
  assumes "fault st = None" "session_filter env q = Inr P"
  shows "GameSession_countDocuments env st q = Inr (length (filter P (sessions st)))"
  using assms by (auto simp: GameSession_countDocuments_def session_filter_def split: option.splits)

lemma export_written:
  assumes "GameSession_sorted env st (exportQuery env query) ''createdAt'' (- 1) = Inr docs"
    and "xlsx_write (exportWorksheet env (map (populate st) docs)) = Written bytes"
  shows "\<exists>r. exportStudentPerformance env xlsx_write today st query = (r, None)
           \<and> res_sentBytes r = bytes \<and> res_sentStatus r = Some 200
           \<and> res_sentJson r = None \<and> res_ended r"
  using assms by (simp add: export_cases res_write_staged res_end_def res_flush_def staged_fields)

subsection \<open>The summary averages\<close>

lemma toFixed2_readFixed2:
  assumes "0 \<le> x"
  shows "toFixed2 (readFixed2 (toFixed2 x)) = toFixed2 x"
proof -
  have r: "readFixed2 (toFixed2 x) = rat_of_nat (hundredths x) / 100"
    using assms by (simp add: readFixed2_toFixed2)
  have "\<not> rat_of_nat (hundredths x) / 100 < 0"
    by (simp add: not_less)
  then show ?thesis
    using assms unfolding r by (simp add: toFixed2_shape hundredths_of_hundredths)
qed

lemma js_sum_nonneg: "\<forall>v \<in> set vs. 0 \<le> v \<Longrightarrow> 0 \<le> js_sum vs"
  by (induction vs rule: rev_induct) (simp_all add: js_sum_snoc fl_nonneg, simp add: js_sum_def)

lemma average_text_holds:
  assumes "vs \<noteq> []" "\<forall>v \<in> set vs. 0 \<le> v"
  shows "average_text (toFixed2 (fl (js_sum vs / of_nat (length vs)))) vs"
proof -
  define q where "q = fl (js_sum vs / of_nat (length vs))"
  define mean where "mean = sum_list vs / of_nat (length vs)"
  have "0 \<le> js_sum vs / of_nat (length vs)"
    using js_sum_nonneg[OF assms(2)] by simp
  then have q0: "0 \<le> q" unfolding q_def by (rule fl_nonneg)
  have a: "toFixed2 (readFixed2 (toFixed2 q)) = toFixed2 q"
    using q0 by (rule toFixed2_readFixed2)
  have "\<bar>readFixed2 (toFixed2 q) - q\<bar> \<le> 1 / 200"
    by (rule toFixed2_near)
  moreover have "\<bar>q - mean\<bar> \<le> ((1 + 1 / 2 ^ 53) ^ (length vs + 1) - 1) * mean"
    unfolding q_def mean_def by (rule average_error[OF assms])
  ultimately have b: "\<bar>readFixed2 (toFixed2 q) - mean\<bar>
      \<le> 1 / 200 + ((1 + 1 / 2 ^ 53) ^ (length vs + 1) - 1) * mean"
    by linarith
  show ?thesis
    unfolding average_text_def using a b by (simp add: q_def mean_def)
qed

lemma double_value_nonneg: "double_value v \<Longrightarrow> 0 \<le> v"
  by (auto simp: double_value_def)

lemma average_text_forty: "average_text ''0.07'' (replicate 37 0 @ replicate 3 1)"
proof -
  have "average_text (toFixed2 (fl (js_sum (replicate 37 0 @ replicate 3 1)
      / of_nat (length (replicate 37 0 @ replicate 3 1 :: rat list))))) (replicate 37 0 @ replicate 3 1)"
    by (rule average_text_holds) auto
  then show ?thesis
    by (simp add: js_sum_forty toFixed2_three_fortieths)
qed

lemma dataRow_cells:
  "dataRow env (s, u) =
     identityCells u @
     [Number (of_int (level s)), Number (of_int (score s)), Number (of_int (totalQuestions s)),
      Number (percentage s), Number (of_int (timeTakenSeconds s)),
      Number (case performance s of None \<Rightarrow> 0 | Some pf \<Rightarrow> accuracy pf),
      Number (case performance s of None \<Rightarrow> 0 | Some pf \<Rightarrow> averageTimePerQuestion pf),
      (case startTime s of None \<Rightarrow> Text ''N/A'' | Some d \<Rightarrow> Text (toLocaleString env d)),
      (case endTime s of None \<Rightarrow> Text ''N/A'' | Some d \<Rightarrow> Text (toLocaleString env d)),
      Text (if feedbackText s = None \<or> feedbackText s = Some [] then ''No'' else ''Yes'')]"
  by (cases u)
     (auto simp: dataRow_def identityCells_def studentNameOf_def studentIdOf_def contactOf_def
        first_present_Cons js_or_def given_def truthy_def opt_chain_def Let_def timeCell_def
        split: option.splits)

lemma nonneg_map: "\<forall>p \<in> set xs. double_value (f p) \<Longrightarrow> \<forall>v \<in> set (map f xs). 0 \<le> v"
  by (auto dest: double_value_nonneg)

text \<open>
  Claim C2. The worksheet that \<open>exportStudentPerformance\<close> builds from a list of \<open>N\<close>
  sessions has the header row, then one data row per session in the order of the list;
  when \<open>N > 0\<close> these are followed by one blank row and exactly five summary rows: the
  label \<open>SUMMARY STATISTICS\<close>, \<open>Total Sessions\<close> with \<open>N\<close>, and \<open>Average Score\<close>,
  \<open>Average Percentage\<close> (with \<open>%\<close> appended) and \<open>Average Time (seconds)\<close>, each with a
  label, a text and ten empty cells. When \<open>N = 0\<close> the header is the only row. For
  fewer than \<open>2^32\<close> sessions whose scores, percentages and times are doubles that are
  zero or lie between \<open>2^-64\<close> and \<open>2^53\<close>, each average text is the arithmetic mean of
  its values rendered to two decimal places: the double of the mean (summed and divided
  in doubles, as the runtime does) in the notation of \<open>toFixed(2)\<close>, denoting a number
  within half a hundredth, and the rounding of the doubles, of the exact mean. A data row
  is the three identity cells and the ten cells of the session. When the query of the
  sessions answers \<open>docs\<close> and the serializer writes the worksheet of \<open>docs\<close> with their
  users, the response carries status 200 and exactly the bytes written. Forty sessions of
  which three have score 1 and the others score 0 (mean \<open>0.075\<close>) give the text \<open>0.07\<close>,
  and the double of \<open>1.005\<close> is rendered \<open>1.00\<close>.
\<close>

theorem export_rows:
  "(\<exists>a b c.
      ws_rows (exportWorksheet env found) =
        [Text ''Student Name'', Text ''Student ID'', Text ''Mobile/Email'', Text ''Level'',
         Text ''Score'', Text ''Total Questions'', Text ''Percentage'',
         Text ''Time Taken (seconds)'', Text ''Accuracy (%)'', Text ''Avg Time per Question (s)'',
         Text ''Start Time'', Text ''End Time'', Text ''Feedback Provided'']
        # map (dataRow env) found @
        (if found = [] then []
         else [[],
               Text ''SUMMARY STATISTICS'' # Text [] # replicate 10 (Text []),
               Text ''Total Sessions'' # Number (of_nat (length found)) # replicate 10 (Text []),
               Text ''Average Score'' # Text a # replicate 10 (Text []),
               Text ''Average Percentage'' # Text (b @ ''%'') # replicate 10 (Text []),
               Text ''Average Time (seconds)'' # Text c # replicate 10 (Text [])])
      \<and> (found \<noteq> [] \<and> length found < 2 ^ 32
           \<and> (\<forall>p \<in> set found. double_value (of_int (score (fst p)))
                                \<and> double_value (percentage (fst p))
                                \<and> double_value (of_int (timeTakenSeconds (fst p))))
          \<longrightarrow> average_text a (map (\<lambda>p. of_int (score (fst p))) found)
            \<and> average_text b (map (\<lambda>p. percentage (fst p)) found)
            \<and> average_text c (map (\<lambda>p. of_int (timeTakenSeconds (fst p))) found)))
   \<and> (\<forall>i < length found. ws_rows (exportWorksheet env found) ! Suc i = dataRow env (found ! i))
   \<and> length (ws_rows (exportWorksheet env found)) = (if found = [] then 1 else length found + 7)
   \<and> dataRow env (s, u) =
       identityCells u @
       [Number (of_int (level s)), Number (of_int (score s)), Number (of_int (totalQuestions s)),
        Number (percentage s), Number (of_int (timeTakenSeconds s)),
        Number (case performance s of None \<Rightarrow> 0 | Some pf \<Rightarrow> accuracy pf),
        Number (case performance s of None \<Rightarrow> 0 | Some pf \<Rightarrow> averageTimePerQuestion pf),
        (case startTime s of None \<Rightarrow> Text ''N/A'' | Some d \<Rightarrow> Text (toLocaleString env d)),
        (case endTime s of None \<Rightarrow> Text ''N/A'' | Some d \<Rightarrow> Text (toLocaleString env d)),
        Text (if feedbackText s = None \<or> feedbackText s = Some [] then ''No'' else ''Yes'')]
   \<and> (GameSession_sorted env st (exportQuery env query) ''createdAt'' (- 1) = Inr docs
        \<and> xlsx_write (exportWorksheet env (map (populate st) docs)) = Written bytes
       \<longrightarrow> (\<exists>r. exportStudentPerformance env xlsx_write today st query = (r, None)
               \<and> res_sentBytes r = bytes \<and> res_sentStatus r = Some 200
               \<and> res_sentJson r = None \<and> res_ended r))
   \<and> average_text ''0.07'' (replicate 37 0 @ replicate 3 1)
   \<and> toFixed2 (fl (1005 / 1000)) = ''1.00''"
proof -
  let ?a = "toFixed2 (fl (js_sum (map (\<lambda>p. of_int (score (fst p))) found) / of_nat (length found)))"
  let ?b = "toFixed2 (fl (js_sum (map (\<lambda>p. percentage (fst p)) found) / of_nat (length found)))"
  let ?c = "toFixed2 (fl (js_sum (map (\<lambda>p. of_int (timeTakenSeconds (fst p))) found)
                            / of_nat (length found)))"
  note R = ws_rows_exportWorksheet[of env found]
  have A: "average_text ?a (map (\<lambda>p. of_int (score (fst p))) found)
        \<and> average_text ?b (map (\<lambda>p. percentage (fst p)) found)
        \<and> average_text ?c (map (\<lambda>p. of_int (timeTakenSeconds (fst p))) found)"
    if ne: "found \<noteq> []"
      and dv: "\<forall>p \<in> set found. double_value (of_int (score (fst p)))
                                \<and> double_value (percentage (fst p))
                                \<and> double_value (of_int (timeTakenSeconds (fst p)))"
  proof -
    have n: "map f found \<noteq> []" for f :: "session \<times> user option \<Rightarrow> rat"
      using ne by simp
    have p: "\<forall>v \<in> set (map (\<lambda>p. of_int (score (fst p))) found). (0 :: rat) \<le> v"
      "\<forall>v \<in> set (map (\<lambda>p. percentage (fst p)) found). 0 \<le> v"
      "\<forall>v \<in> set (map (\<lambda>p. of_int (timeTakenSeconds (fst p))) found). (0 :: rat) \<le> v"
    proof -
      from dv have 1: "\<forall>p \<in> set found. double_value (rat_of_int (score (fst p)))"
        and 2: "\<forall>p \<in> set found. double_value (percentage (fst p))"
        and 3: "\<forall>p \<in> set found. double_value (rat_of_int (timeTakenSeconds (fst p)))"
        by blast+
      show "\<forall>v \<in> set (map (\<lambda>p. of_int (score (fst p))) found). (0 :: rat) \<le> v"
        using 1 by (rule nonneg_map)
      show "\<forall>v \<in> set (map (\<lambda>p. percentage (fst p)) found). 0 \<le> v"
        using 2 by (rule nonneg_map)
      show "\<forall>v \<in> set (map (\<lambda>p. of_int (timeTakenSeconds (fst p))) found). (0 :: rat) \<le> v"
        using 3 by (rule nonneg_map)
    qed
    from average_text_holds[OF n p(1)] average_text_holds[OF n p(2)] average_text_holds[OF n p(3)]
    show ?thesis by simp
  qed
  have E: "\<exists>a b c.
      ws_rows (exportWorksheet env found) =
        [Text ''Student Name'', Text ''Student ID'', Text ''Mobile/Email'', Text ''Level'',
         Text ''Score'', Text ''Total Questions'', Text ''Percentage'',
         Text ''Time Taken (seconds)'', Text ''Accuracy (%)'', Text ''Avg Time per Question (s)'',
         Text ''Start Time'', Text ''End Time'', Text ''Feedback Provided'']
        # map (dataRow env) found @
        (if found = [] then []
         else [[],
               Text ''SUMMARY STATISTICS'' # Text [] # replicate 10 (Text []),
               Text ''Total Sessions'' # Number (of_nat (length found)) # replicate 10 (Text []),
               Text ''Average Score'' # Text a # replicate 10 (Text []),
               Text ''Average Percentage'' # Text (b @ ''%'') # replicate 10 (Text []),
               Text ''Average Time (seconds)'' # Text c # replicate 10 (Text [])])
      \<and> (found \<noteq> [] \<and> length found < 2 ^ 32
           \<and> (\<forall>p \<in> set found. double_value (of_int (score (fst p)))
                                \<and> double_value (percentage (fst p))
                                \<and> double_value (of_int (timeTakenSeconds (fst p))))
          \<longrightarrow> average_text a (map (\<lambda>p. of_int (score (fst p))) found)
            \<and> average_text b (map (\<lambda>p. percentage (fst p)) found)
            \<and> average_text c (map (\<lambda>p. of_int (timeTakenSeconds (fst p))) found))"
    apply (rule exI[of _ ?a])
    apply (rule exI[of _ ?b])
    apply (rule exI[of _ ?c])
    apply (rule conjI)
     apply (rule R)
    using A apply blast
    done
  have N: "\<forall>i < length found. ws_rows (exportWorksheet env found) ! Suc i = dataRow env (found ! i)"
    by (simp add: R nth_append)
  have L: "length (ws_rows (exportWorksheet env found)) = (if found = [] then 1 else length found + 7)"
    by (simp add: R)
  have H: "GameSession_sorted env st (exportQuery env query) ''createdAt'' (- 1) = Inr docs
        \<and> xlsx_write (exportWorksheet env (map (populate st) docs)) = Written bytes
       \<longrightarrow> (\<exists>r. exportStudentPerformance env xlsx_write today st query = (r, None)
               \<and> res_sentBytes r = bytes \<and> res_sentStatus r = Some 200
               \<and> res_sentJson r = None \<and> res_ended r)"
    using export_written[of env st query docs xlsx_write bytes today] by blast
  show ?thesis
    apply (intro conjI)
          apply (rule E)
         apply (rule N)
        apply (rule L)
       apply (rule dataRow_cells)
      apply (rule H)
     apply (rule average_text_forty)
    apply (rule toFixed2_1005_thousandths)
    done
qed

lemma fl_16_3: "fl (16 / 3) = 6004799503160661 / 1125899906842624"
  by (subst fl_eval[where e = "2"]) (simp_all add: roundHalfEven_def Let_def floor_rat_numeral)

lemma fl_160_3: "fl (160 / 3) = 7505999378950827 / 140737488355328"
  by (subst fl_eval[where e = "5"]) (simp_all add: roundHalfEven_def Let_def floor_rat_numeral)

lemma example_found:
  "map (populate example_store) (rev example_sessions) =
     [(quiz ''64b7f0a1c2d3e4f5a6b7c8d1'' ''S001'' 2 6 60 5000, Some asha),
      (quiz ''64b7f0a1c2d3e4f5a6b7c8d2'' ''ravi'' 1 5 50 4000, Some ravi),
      (quiz ''64b7f0a1c2d3e4f5a6b7c8d1'' ''S001'' 1 5 50 3000, Some asha)]"
  by (simp add: populate_def example_sessions_def example_store_def quiz_def asha_def ravi_def)

lemma example_double_values: "double_value 5" "double_value 6" "double_value 50" "double_value 60"
  by (simp_all add: double_value_def fl_numeral)

lemma example_average_texts:
  "toFixed2 (fl (js_sum [6, 5, 5] / 3)) = ''5.33''"
  "toFixed2 (fl (js_sum [60, 50, 50] / 3)) = ''53.33''"
  "toFixed2 (fl (js_sum [60, 60, 60] / 3)) = ''60.00''"
  by (simp_all add: js_sum_def fl_numeral fl_16_3 fl_160_3 toFixed2_eval)

theorem export_rows_witness:
  "map (populate example_store) (rev example_sessions) \<noteq> []
   \<and> length (map (populate example_store) (rev example_sessions)) < 2 ^ 32
   \<and> double_value 5 \<and> double_value 6 \<and> double_value 50 \<and> double_value 60
   \<and> GameSession_sorted example_env example_store (exportQuery example_env Map.empty) ''createdAt'' (- 1)
       = Inr (rev example_sessions)
   \<and> drop 4 (ws_rows (exportWorksheet example_env (map (populate example_store) (rev example_sessions))))
       = [[],
          Text ''SUMMARY STATISTICS'' # Text [] # replicate 10 (Text []),
          Text ''Total Sessions'' # Number 3 # replicate 10 (Text []),
          Text ''Average Score'' # Text ''5.33'' # replicate 10 (Text []),
          Text ''Average Percentage'' # Text ''53.33%'' # replicate 10 (Text []),
          Text ''Average Time (seconds)'' # Text ''60.00'' # replicate 10 (Text [])]
   \<and> ws_rows (exportWorksheet example_env (map (populate example_store) (rev example_sessions))) ! Suc 0
       = dataRow example_env (populate example_store (example_sessions ! 2))
   \<and> (\<exists>r. exportStudentPerformance example_env (\<lambda>ws. Written ''PK'') ''2024-01-01'' example_store
             Map.empty = (r, None)
          \<and> res_sentBytes r = ''PK'' \<and> res_sentStatus r = Some 200
          \<and> res_sentJson r = None \<and> res_ended r)"
proof -
  let ?found = "map (populate example_store) (rev example_sessions)"
  note T = export_rows[where env = example_env and found = ?found and st = example_store
      and query = Map.empty and docs = "rev example_sessions"
      and xlsx_write = "\<lambda>ws. Written ''PK''" and today = "''2024-01-01''" and bytes = "''PK''"]
  have n: "?found \<noteq> []" "length ?found < 2 ^ 32"
    by (simp_all add: example_sessions_def)
  have v: "map (\<lambda>p. rat_of_int (score (fst p))) ?found = [6, 5, 5]"
    "map (\<lambda>p. percentage (fst p)) ?found = [60, 50, 50]"
    "map (\<lambda>p. rat_of_int (timeTakenSeconds (fst p))) ?found = [60, 60, 60]"
    by (simp_all add: example_found quiz_def)
  have dv: "\<forall>p \<in> set ?found. double_value (of_int (score (fst p)))
                                \<and> double_value (percentage (fst p))
                                \<and> double_value (of_int (timeTakenSeconds (fst p)))"
    by (simp add: example_found quiz_def example_double_values)
  from T obtain a b c where
    rows: "ws_rows (exportWorksheet example_env ?found) =
        [Text ''Student Name'', Text ''Student ID'', Text ''Mobile/Email'', Text ''Level'',
         Text ''Score'', Text ''Total Questions'', Text ''Percentage'',
         Text ''Time Taken (seconds)'', Text ''Accuracy (%)'', Text ''Avg Time per Question (s)'',
         Text ''Start Time'', Text ''End Time'', Text ''Feedback Provided'']
        # map (dataRow example_env) ?found @
        (if ?found = [] then []
         else [[],
               Text ''SUMMARY STATISTICS'' # Text [] # replicate 10 (Text []),
               Text ''Total Sessions'' # Number (of_nat (length ?found)) # replicate 10 (Text []),
               Text ''Average Score'' # Text a # replicate 10 (Text []),
               Text ''Average Percentage'' # Text (b @ ''%'') # replicate 10 (Text []),
               Text ''Average Time (seconds)'' # Text c # replicate 10 (Text [])])"
    and avg: "?found \<noteq> [] \<and> length ?found < 2 ^ 32
           \<and> (\<forall>p \<in> set ?found. double_value (of_int (score (fst p)))
                                \<and> double_value (percentage (fst p))
                                \<and> double_value (of_int (timeTakenSeconds (fst p))))
          \<longrightarrow> average_text a (map (\<lambda>p. of_int (score (fst p))) ?found)
            \<and> average_text b (map (\<lambda>p. percentage (fst p)) ?found)
            \<and> average_text c (map (\<lambda>p. of_int (timeTakenSeconds (fst p))) ?found)"
    by blast
  from avg n dv have "average_text a [6, 5, 5] \<and> average_text b [60, 50, 50]
      \<and> average_text c [60, 60, 60]"
    unfolding v by blast
  then have abc: "a = ''5.33''" "b = ''53.33''" "c = ''60.00''"
    by (simp_all add: average_text_def example_average_texts)
  have d: "drop 4 (ws_rows (exportWorksheet example_env ?found))
       = [[],
          Text ''SUMMARY STATISTICS'' # Text [] # replicate 10 (Text []),
          Text ''Total Sessions'' # Number 3 # replicate 10 (Text []),
          Text ''Average Score'' # Text ''5.33'' # replicate 10 (Text []),
          Text ''Average Percentage'' # Text ''53.33%'' # replicate 10 (Text []),
          Text ''Average Time (seconds)'' # Text ''60.00'' # replicate 10 (Text [])]"
    unfolding rows abc by (simp add: example_found)
  have i: "(0 :: nat) < length ?found"
    by (simp add: example_sessions_def)
  have f0: "?found ! 0 = populate example_store (example_sessions ! 2)"
    by (simp add: example_sessions_def)
  from T i have r1: "ws_rows (exportWorksheet example_env ?found) ! Suc 0 = dataRow example_env (?found ! 0)"
    by blast
  from T example_export_docs
  have h: "\<exists>r. exportStudentPerformance example_env (\<lambda>ws. Written ''PK'') ''2024-01-01'' example_store
             Map.empty = (r, None)
          \<and> res_sentBytes r = ''PK'' \<and> res_sentStatus r = Some 200
          \<and> res_sentJson r = None \<and> res_ended r"
    by blast
  from n example_double_values example_export_docs d r1[unfolded f0] h show ?thesis
    by blast
qed

text \<open>
  Claim C5. In the export every data row stands for one session of the query, in order,
  and its first three cells are taken from the owner of that session, the user whose id
  is the session's \<open>studentId\<close>: the name, which is the user's \<open>azureAdDisplayName\<close> when
  present, else the stored \<open>studentName\<close>, else \<open>N/A\<close>; the student identifier, which is
  the stored \<open>studentId\<close>, else \<open>N/A\<close>; and the contact, which is the \<open>azureAdEmail\<close> when
  present, else the \<open>mobileNumber\<close>, else \<open>N/A\<close>. A value is present when it is defined
  and not the empty string; a session whose owner no longer exists gets \<open>N/A\<close> three
  times. The worksheet with these rows is the one the serializer writes into the response.
\<close>

theorem export_identity_columns:
  "take 3 (dataRow env (s, student)) = identityCells student
   \<and> (GameSession_sorted env st (exportQuery env query) ''createdAt'' (- 1) = Inr docs \<longrightarrow>
        map (take 3)
            (take (length docs) (drop 1 (ws_rows (exportWorksheet env (map (populate st) docs)))))
          = map (\<lambda>s. identityCells (List.find (\<lambda>u. user_oid u = studentId_ref s) (users st))) docs
        \<and> (\<forall>bytes. xlsx_write (exportWorksheet env (map (populate st) docs)) = Written bytes \<longrightarrow>
              (\<exists>r. exportStudentPerformance env xlsx_write today st query = (r, None)
                  \<and> res_sentBytes r = bytes \<and> res_sentStatus r = Some 200 \<and> res_ended r)))
   \<and> identityCells None = [Text ''N/A'', Text ''N/A'', Text ''N/A'']
   \<and> identityCells (Some ravi) = [Text ''Ravi K'', Text ''N/A'', Text ''ravi@mica.ac.in'']
   \<and> identityCells (Some asha) = [Text ''Asha'', Text ''S001'', Text ''9000000001'']"
proof -
  have "map (take 3) (map (dataRow env) (map (populate st) docs))
      = map (\<lambda>s. identityCells (List.find (\<lambda>u. user_oid u = studentId_ref s) (users st))) docs"
    by (induction docs) (auto simp: take3_dataRow populate_def)
  then have A: "map (take 3)
            (take (length docs) (drop 1 (ws_rows (exportWorksheet env (map (populate st) docs)))))
          = map (\<lambda>s. identityCells (List.find (\<lambda>u. user_oid u = studentId_ref s) (users st))) docs"
    by (simp add: ws_rows_exportWorksheet)
  have B: "GameSession_sorted env st (exportQuery env query) ''createdAt'' (- 1) = Inr docs \<longrightarrow>
      (\<forall>bytes. xlsx_write (exportWorksheet env (map (populate st) docs)) = Written bytes \<longrightarrow>
              (\<exists>r. exportStudentPerformance env xlsx_write today st query = (r, None)
                  \<and> res_sentBytes r = bytes \<and> res_sentStatus r = Some 200 \<and> res_ended r))"
    using export_written[of env st query docs xlsx_write _ today] by blast
  have C: "identityCells None = [Text ''N/A'', Text ''N/A'', Text ''N/A'']"
    "identityCells (Some ravi) = [Text ''Ravi K'', Text ''N/A'', Text ''ravi@mica.ac.in'']"
    "identityCells (Some asha) = [Text ''Asha'', Text ''S001'', Text ''9000000001'']"
    by (simp_all add: identityCells_def ravi_def asha_def)
  from A B C take3_dataRow[of env s student] show ?thesis
    by blast
qed

lemma store_without_asha_docs:
  "GameSession_sorted example_env store_without_asha (exportQuery example_env Map.empty)
     ''createdAt'' (- 1) = Inr (rev example_sessions)"
  by (simp add: GameSession_sorted_def store_without_asha_def example_store_def session_filter_def
      session_cast_error_def exportQuery_def truthy_def scoreFilter_def createdAtFilter_def
      nan_bound_def session_base_matches_def score_in_range_def date_in_range_def
      example_sessions_def quiz_def mongo_sort_def sort_by_def session_field_def)

theorem export_identity_columns_witness:
  "GameSession_sorted example_env store_without_asha (exportQuery example_env Map.empty)
     ''createdAt'' (- 1) = Inr (rev example_sessions)
   \<and> map (take 3)
         (take (length (rev example_sessions))
            (drop 1 (ws_rows (exportWorksheet example_env
               (map (populate store_without_asha) (rev example_sessions))))))
       = [[Text ''N/A'', Text ''N/A'', Text ''N/A''],
          [Text ''Ravi K'', Text ''N/A'', Text ''ravi@mica.ac.in''],
          [Text ''N/A'', Text ''N/A'', Text ''N/A'']]
   \<and> (\<exists>r. exportStudentPerformance example_env (\<lambda>ws. Written ''PK'') ''2024-01-01''
             store_without_asha Map.empty = (r, None)
          \<and> res_sentBytes r = ''PK'' \<and> res_sentStatus r = Some 200 \<and> res_ended r)"
proof -
  note T = export_identity_columns[where env = example_env and st = store_without_asha
      and query = Map.empty and docs = "rev example_sessions" and s = "hd example_sessions"
      and student = None and xlsx_write = "\<lambda>ws. Written ''PK''" and today = "''2024-01-01''"]
  have o: "map (\<lambda>s. identityCells (List.find (\<lambda>u. user_oid u = studentId_ref s)
                      (users store_without_asha))) (rev example_sessions)
      = [[Text ''N/A'', Text ''N/A'', Text ''N/A''],
          [Text ''Ravi K'', Text ''N/A'', Text ''ravi@mica.ac.in''],
          [Text ''N/A'', Text ''N/A'', Text ''N/A'']]"
    by (simp add: store_without_asha_def example_store_def example_sessions_def quiz_def
        identityCells_def ravi_def)
  from T store_without_asha_docs
  have a: "map (take 3)
         (take (length (rev example_sessions))
            (drop 1 (ws_rows (exportWorksheet example_env
               (map (populate store_without_asha) (rev example_sessions))))))
       = map (\<lambda>s. identityCells (List.find (\<lambda>u. user_oid u = studentId_ref s)
                      (users store_without_asha))) (rev example_sessions)"
    by blast
  from T store_without_asha_docs
  have b: "\<exists>r. exportStudentPerformance example_env (\<lambda>ws. Written ''PK'') ''2024-01-01''
             store_without_asha Map.empty = (r, None)
          \<and> res_sentBytes r = ''PK'' \<and> res_sentStatus r = Some 200 \<and> res_ended r"
    by blast
  from a[unfolded o] b store_without_asha_docs show ?thesis
    by blast
qed

subsection \<open>Pagination\<close>

lemmas parse_eval = parseInt_def isWhiteSpace_def isRadixDigit_def digitValue_def digitsValue_def
  param_def Let_def js_int_small

lemma page_two_page: "parseInt (param page_two ''page'' ''1'') = Num 2"
  by (simp add: parse_eval page_two_def)

lemma page_two_limit: "parseInt (param page_two ''limit'' ''20'') = Num 1"
  by (simp add: parse_eval page_two_def)

lemma parseInt_default_limit: "parseInt ''20'' = Num 20"
  by (simp add: parse_eval)

lemma page_two_user_filter: "user_filter example_env (studentsQuery page_two) = Inr (user_base_matches (studentsQuery page_two))"
  by (simp add: user_filter_def studentsQuery_def page_two_def param_def)

lemma page_two_session_filter: "session_filter example_env (sessionsFindQuery example_env page_two)
    = Inr (session_base_matches (sessionsQuery example_env page_two))"
  by (simp add: session_filter_def sessionsFindQuery_def sessionsQuery_def page_two_def param_def
    session_cast_error_def nan_bound_def truthy_def scoreFilter_def createdAtFilter_def)

lemma example_users_sorted: "mongo_sort (user_field ''createdAt'') (- 1) [asha, ravi] = [ravi, asha]"
  by (simp add: mongo_sort_def sort_by_def user_field_def asha_def ravi_def)

text \<open>
  Examples of \<open>parseInt\<close> and of the skip at the edges of the doubles: an integer above
  \<open>2^53\<close> is rounded, a leading no-break space is dropped, 310 nines are \<open>Infinity\<close>,
  and with them as the limit the skip of page 1 is \<open>0 * Infinity\<close>, that is \<open>NaN\<close>.
\<close>

lemma fl_above_2_53: "fl 9007199254740993 = 9007199254740992"
  by (subst fl_eval[where e = "53"]) (simp_all add: roundHalfEven_def Let_def floor_rat_numeral)

lemma parseInt_rounds: "parseInt ''9007199254740993'' = Num 9007199254740992"
  by (simp add: parseInt_def isWhiteSpace_def isRadixDigit_def digitValue_def digitsValue_def
      Let_def js_int_def fl_above_2_53)

lemma parseInt_no_break_space: "parseInt [CHR 0xA0, CHR ''7''] = Num 7"
  by (simp add: parse_eval)

lemma digitsValue_nines: "digitsValue 10 (replicate n (CHR ''9'')) = 10 ^ n - 1"
proof (induction n)
  case 0
  then show ?case by (simp add: digitsValue_def)
next
  case (Suc n)
  have "(1 :: nat) \<le> 10 ^ n" by simp
  then have c: "(10 ^ n - 1) * 10 + 9 = (10 :: nat) ^ Suc n - 1"
    by (simp add: algebra_simps)
  have "digitsValue 10 (replicate (Suc n) (CHR ''9'')) = digitsValue 10 (replicate n (CHR ''9'') @ ''9'')"
    by (simp add: replicate_append_same)
  also have "\<dots> = digitsValue 10 (replicate n (CHR ''9'')) * 10 + 9"
    by (simp add: digitsValue_snoc digitValue_def)
  also have "\<dots> = 10 ^ Suc n - 1"
    unfolding Suc.IH by (rule c)
  finally show ?case .
qed

lemma parseInt_plain:
  assumes "dropWhile isWhiteSpace s = s" "take 1 s \<noteq> ''-''" "take 1 s \<noteq> ''+''"
    and "take 2 s \<noteq> ''0x''" "take 2 s \<noteq> ''0X''"
    and "\<forall>c \<in> set s. isRadixDigit 10 c" "s \<noteq> []"
  shows "parseInt s = js_int (int (digitsValue 10 s))"
proof -
  have tw: "takeWhile (isRadixDigit 10) s = s"
    using assms(6) by simp
  show ?thesis
    using assms(1-5,7) by (simp add: parseInt_def Let_def tw)
qed

lemma parseInt_overflow: "parseInt (replicate 310 (CHR ''9'')) = PosInf"
proof -
  let ?R = "replicate (Suc (Suc 308)) (CHR ''9'')"
  have w: "dropWhile isWhiteSpace ?R = ?R"
    by (simp add: isWhiteSpace_def)
  have t: "\<forall>c \<in> set ?R. isRadixDigit 10 c"
    by (simp add: isRadixDigit_def digitValue_def)
  have s: "take 1 ?R \<noteq> ''-''" "take 1 ?R \<noteq> ''+''" "take 2 ?R \<noteq> ''0x''" "take 2 ?R \<noteq> ''0X''"
    "?R \<noteq> []"
    by (simp_all add: numeral_2_eq_2)
  have "parseInt ?R = js_int (int (digitsValue 10 ?R))"
    using w s(1-4) t s(5) by (rule parseInt_plain)
  also have "\<dots> = js_int (int (10 ^ 310 - 1))"
    by (simp only: digitsValue_nines) simp
  also have "\<dots> = PosInf"
    by (simp add: js_int_def)
  finally show ?thesis
    by simp
qed

lemma parseInt_one: "parseInt ''1'' = Num 1"
  by (simp add: parse_eval)

lemma skipOf_overflow: "skipOf ''1'' (replicate 310 (CHR ''9'')) = NaN"
  by (simp add: skipOf_def parseInt_overflow parseInt_one js_times_def js_int_small)

lemma page_two_search: "param page_two ''search'' [] = []"
  by (simp add: page_two_def param_def)

lemma page_two_base_filter:
  "session_filter example_env (sessionsQuery example_env page_two)
    = Inr (session_base_matches (sessionsQuery example_env page_two))"
  using page_two_session_filter by (simp add: sessionsFindQuery_def page_two_def param_def)

lemma example_sessions_sorted:
  "mongo_sort (session_field ''createdAt'') (- 1) example_sessions = rev example_sessions"
  by (simp add: mongo_sort_def sort_by_def session_field_def example_sessions_def quiz_def)

lemma page_two_base_all:
  "filter (session_base_matches (sessionsQuery example_env page_two)) example_sessions
     = example_sessions"
  by (simp add: session_base_matches_def sessionsQuery_def page_two_def truthy_def
      scoreFilter_def createdAtFilter_def score_in_range_def date_in_range_def
      example_sessions_def quiz_def)

lemma cursor_window_length:
  assumes "fo_limit opts = Num l" "1 \<le> l" "cursor_window opts xs = Inr ys"
  shows "length ys \<le> nat l"
proof -
  from assms(3) obtain zs where "cursor_limit (Num l) zs = Inr ys"
    by (auto simp: cursor_window_def assms(1) split: sum.splits)
  then show ?thesis
    using assms(2) by auto
qed

text \<open>
  Claim C3, as the code has it. For a request to \<open>getAllStudents\<close> or
  \<open>getAllGameSessions\<close> whose \<open>page\<close> and \<open>limit\<close> parse to integers \<open>p \<ge> 1\<close> and
  \<open>l \<ge> 1\<close> with \<open>p * l\<close> at most \<open>2^53\<close>, the number of records skipped is
  \<open>(p - 1) * l\<close> and every successful answer has at most \<open>l\<close> items and
  \<open>pages = ceil(total / l)\<close> for its \<open>total\<close> (below \<open>2^53\<close>). When the store (of fewer
  than \<open>2^53\<close> records) answers and accepts the filter, \<open>getAllStudents\<close> succeeds with
  the \<open>l\<close> records after the first \<open>(p - 1) * l\<close> of the sorted matches of its filter,
  and \<open>total\<close> is the number of records that match that filter; the same holds of
  \<open>getAllGameSessions\<close> when no search term is given. With a search term the total of
  \<open>getAllGameSessions\<close> is left out here.
\<close>

theorem pagination_window:
  assumes "parseInt (param query ''page'' ''1'') = Num p" and "1 \<le> p"
    and "parseInt (param query ''limit'' ''20'') = Num l" and "1 \<le> l"
    and "p * l \<le> 2 ^ 53"
  shows "fo_skip (studentsFindOptions query) = Num ((p - 1) * l)
    \<and> fo_skip (sessionsFindOptions query) = Num ((p - 1) * l)
    \<and> (fault st = None \<and> user_filter env (studentsQuery query) = Inr U
         \<and> length (users st) < 2 ^ 53 \<longrightarrow>
        getAllStudents env st query =
          Success \<lparr> sd_students =
                      take (nat l) (drop (nat ((p - 1) * l))
                        (mongo_sort (user_field (fo_sortField (studentsFindOptions query)))
                           (fo_sortDirection (studentsFindOptions query)) (filter U (users st)))),
                    sd_pagination =
                      \<lparr> pg_page = Num p, pg_limit = Num l,
                        pg_total = length (filter U (users st)),
                        pg_pages = Num \<lceil>rat_of_nat (length (filter U (users st))) / rat_of_int l\<rceil> \<rparr> \<rparr>)
    \<and> (param query ''search'' [] = [] \<and> fault st = None
         \<and> session_filter env (sessionsQuery env query) = Inr B
         \<and> length (sessions st) < 2 ^ 53 \<longrightarrow>
        getAllGameSessions env st query =
          Success \<lparr> gd_sessions =
                      map (populate st) (take (nat l) (drop (nat ((p - 1) * l))
                        (mongo_sort (session_field (fo_sortField (sessionsFindOptions query)))
                           (fo_sortDirection (sessionsFindOptions query)) (filter B (sessions st))))),
                    gd_pagination =
                      \<lparr> pg_page = Num p, pg_limit = Num l,
                        pg_total = length (filter B (sessions st)),
                        pg_pages = Num \<lceil>rat_of_nat (length (filter B (sessions st))) / rat_of_int l\<rceil> \<rparr> \<rparr>)
    \<and> (\<forall>r. getAllStudents env st query = Success r \<and> pg_total (sd_pagination r) < 2 ^ 53 \<longrightarrow>
          length (sd_students r) \<le> nat l
        \<and> pg_pages (sd_pagination r) = Num \<lceil>rat_of_nat (pg_total (sd_pagination r)) / rat_of_int l\<rceil>)
    \<and> (\<forall>r. getAllGameSessions env st query = Success r \<and> pg_total (gd_pagination r) < 2 ^ 53 \<longrightarrow>
          length (gd_sessions r) \<le> nat l
        \<and> pg_pages (gd_pagination r) = Num \<lceil>rat_of_nat (pg_total (gd_pagination r)) / rat_of_int l\<rceil>)"
proof -
  let ?k = "(p - 1) * l"
  have k0: "0 \<le> ?k" using assms(2,4) by simp
  have "?k \<le> p * l"
    using assms(4) by (simp add: mult_right_mono)
  with assms(5) have kb: "?k \<le> 2 ^ 53"
    by simp
  have sk: "skipOf (param query ''page'' ''1'') (param query ''limit'' ''20'') = Num ?k"
    by (rule skipOf_Num[OF assms(1) assms(3) assms(2) assms(4) kb])
  have s1: "fo_skip (studentsFindOptions query) = Num ?k"
    and l1: "fo_limit (studentsFindOptions query) = Num l"
    using sk assms(3) by (simp_all add: studentsFindOptions_def Let_def)
  have s2: "fo_skip (sessionsFindOptions query) = Num ?k"
    and l2: "fo_limit (sessionsFindOptions query) = Num l"
    using sk assms(3) by (simp_all add: sessionsFindOptions_def Let_def)
  have w1: "cursor_window (studentsFindOptions query) xs = Inr (take (nat l) (drop (nat ?k) xs))"
    for xs :: "user list"
    using s1 l1 k0 assms(4) by (rule cursor_window_Num)
  have w2: "cursor_window (sessionsFindOptions query) xs = Inr (take (nat l) (drop (nat ?k) xs))"
    for xs :: "session list"
    using s2 l2 k0 assms(4) by (rule cursor_window_Num)
  have pg: "paginationOf (param query ''page'' ''1'') (param query ''limit'' ''20'') n =
      \<lparr> pg_page = Num p, pg_limit = Num l, pg_total = n,
        pg_pages = Num \<lceil>rat_of_nat n / rat_of_int l\<rceil> \<rparr>" for n
    using assms(1-4) by (simp add: paginationOf_def)
  have A: "getAllStudents env st query =
        Success \<lparr> sd_students =
                    take (nat l) (drop (nat ?k)
                      (mongo_sort (user_field (fo_sortField (studentsFindOptions query)))
                         (fo_sortDirection (studentsFindOptions query)) (filter U (users st)))),
                  sd_pagination =
                    \<lparr> pg_page = Num p, pg_limit = Num l,
                      pg_total = length (filter U (users st)),
                      pg_pages = Num \<lceil>rat_of_nat (length (filter U (users st))) / rat_of_int l\<rceil> \<rparr> \<rparr>"
    if "fault st = None" "user_filter env (studentsQuery query) = Inr U"
    using that by (simp add: getAllStudents_def User_find_def User_countDocuments_def w1 pg)
  have B: "getAllGameSessions env st query =
        Success \<lparr> gd_sessions =
                    map (populate st) (take (nat l) (drop (nat ?k)
                      (mongo_sort (session_field (fo_sortField (sessionsFindOptions query)))
                         (fo_sortDirection (sessionsFindOptions query)) (filter B (sessions st))))),
                  gd_pagination =
                    \<lparr> pg_page = Num p, pg_limit = Num l,
                      pg_total = length (filter B (sessions st)),
                      pg_pages = Num \<lceil>rat_of_nat (length (filter B (sessions st))) / rat_of_int l\<rceil> \<rparr> \<rparr>"
    if "param query ''search'' [] = []" "fault st = None"
      "session_filter env (sessionsQuery env query) = Inr B"
  proof -
    have fq: "sessionsFindQuery env query = sessionsQuery env query"
      using that(1) by (simp add: sessionsFindQuery_def)
    show ?thesis
      by (simp add: getAllGameSessions_def GameSession_find_def fq
          GameSession_sorted_ok[OF that(2,3)] GameSession_countDocuments_ok[OF that(2,3)] w2 pg)
  qed
  have C: "length (sd_students r) \<le> nat l
        \<and> pg_pages (sd_pagination r) = Num \<lceil>rat_of_nat (pg_total (sd_pagination r)) / rat_of_int l\<rceil>"
    if "getAllStudents env st query = Success r" for r
  proof -
    from that obtain students cnt where
      f: "User_find env st (studentsQuery query) (studentsFindOptions query) = Inr students"
      and r: "r = \<lparr> sd_students = students,
                   sd_pagination = paginationOf (param query ''page'' ''1'')
                     (param query ''limit'' ''20'') cnt \<rparr>"
      by (auto simp: getAllStudents_def split: sum.splits)
    from f obtain xs where "cursor_window (studentsFindOptions query) xs = Inr students"
      by (auto simp: User_find_def split: option.splits sum.splits)
    from cursor_window_length[OF l1 assms(4) this] show ?thesis
      by (simp add: r pg)
  qed
  have D: "length (gd_sessions r) \<le> nat l
        \<and> pg_pages (gd_pagination r) = Num \<lceil>rat_of_nat (pg_total (gd_pagination r)) / rat_of_int l\<rceil>"
    if "getAllGameSessions env st query = Success r" for r
  proof -
    from that obtain found cnt where
      f: "GameSession_find env st (sessionsFindQuery env query) (sessionsFindOptions query) = Inr found"
      and r: "r = \<lparr> gd_sessions = found,
                   gd_pagination = paginationOf (param query ''page'' ''1'')
                     (param query ''limit'' ''20'') cnt \<rparr>"
      by (auto simp: getAllGameSessions_def split: sum.splits)
    from f obtain xs page where "cursor_window (sessionsFindOptions query) xs = Inr page"
      and "found = map (populate st) page"
      by (auto simp: GameSession_find_def split: sum.splits)
    with cursor_window_length[OF l2 assms(4)] show ?thesis
      by (simp add: r pg)
  qed
  from s1 s2 A B C D show ?thesis
    by blast
qed

lemma page_two_sessions_sort:
  "fo_sortField (sessionsFindOptions page_two) = ''createdAt''"
  "fo_sortDirection (sessionsFindOptions page_two) = - 1"
  by (simp_all add: sessionsFindOptions_def page_two_def param_def sessionSortField_def
      allowedSessionSortFields_def sortDirectionOf_def Let_def)

theorem pagination_window_witness:
  "parseInt (param page_two ''page'' ''1'') = Num 2 \<and> (1 :: int) \<le> 2
   \<and> parseInt (param page_two ''limit'' ''20'') = Num 1 \<and> (1 :: int) \<le> 1
   \<and> (2 :: int) * 1 \<le> 2 ^ 53
   \<and> fault example_store = None
   \<and> user_filter example_env (studentsQuery page_two) = Inr (user_base_matches (studentsQuery page_two))
   \<and> length (users example_store) < 2 ^ 53
   \<and> param page_two ''search'' [] = []
   \<and> session_filter example_env (sessionsQuery example_env page_two)
        = Inr (session_base_matches (sessionsQuery example_env page_two))
   \<and> length (sessions example_store) < 2 ^ 53
   \<and> fo_skip (studentsFindOptions page_two) = Num 1
   \<and> getAllStudents example_env example_store page_two =
        Success \<lparr> sd_students = [asha],
                  sd_pagination = \<lparr> pg_page = Num 2, pg_limit = Num 1, pg_total = 2, pg_pages = Num 2 \<rparr> \<rparr>
   \<and> getAllGameSessions example_env example_store page_two =
        Success \<lparr> gd_sessions = [populate example_store (example_sessions ! 1)],
                  gd_pagination = \<lparr> pg_page = Num 2, pg_limit = Num 1, pg_total = 3, pg_pages = Num 3 \<rparr> \<rparr>
   \<and> pg_total (sd_pagination
         \<lparr> sd_students = [asha],
           sd_pagination = \<lparr> pg_page = Num 2, pg_limit = Num 1, pg_total = 2, pg_pages = Num 2 \<rparr> \<rparr>)
         < 2 ^ 53
   \<and> length (sd_students
         \<lparr> sd_students = [asha],
           sd_pagination = \<lparr> pg_page = Num 2, pg_limit = Num 1, pg_total = 2, pg_pages = Num 2 \<rparr> \<rparr>)
         \<le> nat 1
   \<and> pg_total (gd_pagination
         \<lparr> gd_sessions = [populate example_store (example_sessions ! 1)],
           gd_pagination = \<lparr> pg_page = Num 2, pg_limit = Num 1, pg_total = 3, pg_pages = Num 3 \<rparr> \<rparr>)
         < 2 ^ 53
   \<and> length (gd_sessions
         \<lparr> gd_sessions = [populate example_store (example_sessions ! 1)],
           gd_pagination = \<lparr> pg_page = Num 2, pg_limit = Num 1, pg_total = 3, pg_pages = Num 3 \<rparr> \<rparr>)
         \<le> nat 1"
proof -
  have h5: "fault example_store = None"
    by (simp add: example_store_def)
  have b: "(2 :: int) * 1 \<le> 2 ^ 53"
    by simp
  have n: "length (users example_store) < 2 ^ 53" "length (sessions example_store) < 2 ^ 53"
    by (simp_all add: example_store_def example_sessions_def)
  have le: "(1 :: int) \<le> 2" "(1 :: int) \<le> 1"
    by simp_all
  note T = pagination_window[OF page_two_page le(1) page_two_limit le(2) b,
      where st = example_store and env = example_env
        and U = "user_base_matches (studentsQuery page_two)"
        and B = "session_base_matches (sessionsQuery example_env page_two)"]
  have u: "filter (user_base_matches (studentsQuery page_two)) (users example_store) = [asha, ravi]"
    by (simp add: user_base_matches_def studentsQuery_def page_two_def param_def example_store_def
        asha_def ravi_def)
  have o: "fo_sortField (studentsFindOptions page_two) = ''createdAt''"
    "fo_sortDirection (studentsFindOptions page_two) = - 1"
    by (simp_all add: studentsFindOptions_def page_two_def param_def studentSortField_def
        allowedStudentSortFields_def sortDirectionOf_def Let_def)
  have ss: "sessions example_store = example_sessions"
    by (simp add: example_store_def)
  from T have t1: "fo_skip (studentsFindOptions page_two) = Num ((2 - 1) * 1)"
    by simp
  from T h5 page_two_user_filter n(1)
  have "getAllStudents example_env example_store page_two =
          Success \<lparr> sd_students =
                      take (nat 1) (drop (nat ((2 - 1) * 1))
                        (mongo_sort (user_field (fo_sortField (studentsFindOptions page_two)))
                           (fo_sortDirection (studentsFindOptions page_two))
                           (filter (user_base_matches (studentsQuery page_two)) (users example_store)))),
                    sd_pagination =
                      \<lparr> pg_page = Num 2, pg_limit = Num 1,
                        pg_total = length (filter (user_base_matches (studentsQuery page_two))
                                     (users example_store)),
                        pg_pages = Num \<lceil>rat_of_nat (length (filter (user_base_matches (studentsQuery page_two))
                                     (users example_store))) / rat_of_int 1\<rceil> \<rparr> \<rparr>"
    by simp
  then have t2: "getAllStudents example_env example_store page_two =
        Success \<lparr> sd_students = [asha],
                  sd_pagination = \<lparr> pg_page = Num 2, pg_limit = Num 1, pg_total = 2, pg_pages = Num 2 \<rparr> \<rparr>"
    by (simp add: u o example_users_sorted)
  from T page_two_search h5 page_two_base_filter n(2)
  have "getAllGameSessions example_env example_store page_two =
          Success \<lparr> gd_sessions =
                      map (populate example_store) (take (nat 1) (drop (nat ((2 - 1) * 1))
                        (mongo_sort (session_field (fo_sortField (sessionsFindOptions page_two)))
                           (fo_sortDirection (sessionsFindOptions page_two))
                           (filter (session_base_matches (sessionsQuery example_env page_two))
                              (sessions example_store))))),
                    gd_pagination =
                      \<lparr> pg_page = Num 2, pg_limit = Num 1,
                        pg_total = length (filter (session_base_matches (sessionsQuery example_env page_two))
                                     (sessions example_store)),
                        pg_pages = Num \<lceil>rat_of_nat (length (filter (session_base_matches
                                     (sessionsQuery example_env page_two)) (sessions example_store)))
                                     / rat_of_int 1\<rceil> \<rparr> \<rparr>"
    by simp
  then have t3: "getAllGameSessions example_env example_store page_two =
        Success \<lparr> gd_sessions = [populate example_store (example_sessions ! 1)],
                  gd_pagination = \<lparr> pg_page = Num 2, pg_limit = Num 1, pg_total = 3, pg_pages = Num 3 \<rparr> \<rparr>"
    unfolding ss page_two_base_all page_two_sessions_sort example_sessions_sorted
    by (simp add: example_sessions_def)
  have s1: "pg_total (sd_pagination
         \<lparr> sd_students = [asha],
           sd_pagination = \<lparr> pg_page = Num 2, pg_limit = Num 1, pg_total = 2, pg_pages = Num 2 \<rparr> \<rparr>)
         < 2 ^ 53"
    and s2: "pg_total (gd_pagination
         \<lparr> gd_sessions = [populate example_store (example_sessions ! 1)],
           gd_pagination = \<lparr> pg_page = Num 2, pg_limit = Num 1, pg_total = 3, pg_pages = Num 3 \<rparr> \<rparr>)
         < 2 ^ 53"
    by simp_all
  from T t2 s1 have t4: "length (sd_students
         \<lparr> sd_students = [asha],
           sd_pagination = \<lparr> pg_page = Num 2, pg_limit = Num 1, pg_total = 2, pg_pages = Num 2 \<rparr> \<rparr>)
         \<le> nat 1"
    by blast
  from T t3 s2 have t5: "length (gd_sessions
         \<lparr> gd_sessions = [populate example_store (example_sessions ! 1)],
           gd_pagination = \<lparr> pg_page = Num 2, pg_limit = Num 1, pg_total = 3, pg_pages = Num 3 \<rparr> \<rparr>)
         \<le> nat 1"
    by blast
  have "parseInt (param page_two ''page'' ''1'') = Num 2 \<and> (1 :: int) \<le> 2
   \<and> parseInt (param page_two ''limit'' ''20'') = Num 1 \<and> (1 :: int) \<le> 1
   \<and> (2 :: int) * 1 \<le> 2 ^ 53
   \<and> fault example_store = None
   \<and> user_filter example_env (studentsQuery page_two) = Inr (user_base_matches (studentsQuery page_two))
   \<and> length (users example_store) < 2 ^ 53
   \<and> param page_two ''search'' [] = []
   \<and> session_filter example_env (sessionsQuery example_env page_two)
        = Inr (session_base_matches (sessionsQuery example_env page_two))
   \<and> length (sessions example_store) < 2 ^ 53
   \<and> fo_skip (studentsFindOptions page_two) = Num 1"
    using page_two_page page_two_limit b h5 page_two_user_filter n page_two_search
      page_two_base_filter t1
    by simp
  with t2 t3 s1 t4 s2 t5 show ?thesis
    by blast
qed

subsection \<open>Score bounds\<close>

lemma scoreFilter_cases:
  "scoreFilter lo hi =
     (if \<not> truthy lo \<and> \<not> truthy hi then None
      else Some \<lparr> nr_gte = (if truthy lo then Some (parseInt (given lo)) else None),
                  nr_lte = (if truthy hi then Some (parseInt (given hi)) else None) \<rparr>)"
  by (simp add: scoreFilter_def Let_def)

lemma score_in_range_scoreFilter:
  "score_in_range (scoreFilter lo hi) x \<longleftrightarrow>
     (truthy lo \<longrightarrow> num_gte (parseInt (given lo)) x) \<and>
     (truthy hi \<longrightarrow> num_lte (parseInt (given hi)) x)"
  by (simp add: scoreFilter_cases score_in_range_def)

lemma example_score_five:
  "filter (session_base_matches (sessionsQuery env score_five)) example_sessions
     = [quiz ''64b7f0a1c2d3e4f5a6b7c8d1'' ''S001'' 1 5 50 3000,
        quiz ''64b7f0a1c2d3e4f5a6b7c8d2'' ''ravi'' 1 5 50 4000]"
  by (simp add: session_base_matches_def sessionsQuery_def score_five_def truthy_def given_def
      scoreFilter_def createdAtFilter_def score_in_range_def date_in_range_def parse_eval
      example_sessions_def quiz_def)

text \<open>
  Claim C7. In the session filters of \<open>getAllGameSessions\<close> and
  \<open>exportStudentPerformance\<close>, \<open>minScore\<close> and \<open>maxScore\<close> become the bounds \<open>$gte\<close> and
  \<open>$lte\<close> of the one \<open>score\<close> condition; a bound that is not supplied is left out, and
  with neither there is no condition on the score. Both bounds are inclusive: with numeric
  bounds \<open>a\<close> and \<open>b\<close> a score \<open>x\<close> is in range exactly when \<open>a \<le> x\<close> and \<open>x \<le> b\<close>. On
  sessions with scores 5, 5 and 6, \<open>minScore=5\<close> and \<open>maxScore=5\<close> match exactly the two
  sessions of score 5.
\<close>

theorem score_bounds:
  "sq_score (sessionsQuery env query) = scoreFilter (query ''minScore'') (query ''maxScore'')
   \<and> sq_score (exportQuery env query) = scoreFilter (query ''minScore'') (query ''maxScore'')
   \<and> scoreFilter lo hi =
        (if \<not> truthy lo \<and> \<not> truthy hi then None
         else Some \<lparr> nr_gte = (if truthy lo then Some (parseInt (given lo)) else None),
                     nr_lte = (if truthy hi then Some (parseInt (given hi)) else None) \<rparr>)
   \<and> (score_in_range (scoreFilter lo hi) x \<longleftrightarrow>
        (truthy lo \<longrightarrow> num_gte (parseInt (given lo)) x) \<and>
        (truthy hi \<longrightarrow> num_lte (parseInt (given hi)) x))
   \<and> (truthy lo \<and> parseInt (given lo) = Num a \<and> truthy hi \<and> parseInt (given hi) = Num b \<longrightarrow>
        (score_in_range (scoreFilter lo hi) x \<longleftrightarrow> a \<le> x \<and> x \<le> b))
   \<and> (truthy lo \<and> parseInt (given lo) = Num a \<and> \<not> truthy hi \<longrightarrow>
        (score_in_range (scoreFilter lo hi) x \<longleftrightarrow> a \<le> x))
   \<and> (\<not> truthy lo \<and> truthy hi \<and> parseInt (given hi) = Num b \<longrightarrow>
        (score_in_range (scoreFilter lo hi) x \<longleftrightarrow> x \<le> b))
   \<and> (session_base_matches (sessionsQuery env query) s \<longrightarrow>
        score_in_range (scoreFilter (query ''minScore'') (query ''maxScore'')) (score s))
   \<and> map score example_sessions = [5, 5, 6]
   \<and> filter (session_base_matches (sessionsQuery env score_five)) example_sessions
       = take 2 example_sessions
   \<and> filter (session_base_matches (exportQuery env score_five)) example_sessions
       = take 2 example_sessions"
proof -
  have E: "exportQuery env score_five = sessionsQuery env score_five"
    by (simp add: exportQuery_def sessionsQuery_def score_five_def truthy_def)
  have "take 2 example_sessions = [quiz ''64b7f0a1c2d3e4f5a6b7c8d1'' ''S001'' 1 5 50 3000,
        quiz ''64b7f0a1c2d3e4f5a6b7c8d2'' ''ravi'' 1 5 50 4000]"
    by (simp add: example_sessions_def)
  then have X: "filter (session_base_matches (sessionsQuery env score_five)) example_sessions
       = take 2 example_sessions"
    by (simp add: example_score_five)
  have Q: "sq_score (sessionsQuery env query) = scoreFilter (query ''minScore'') (query ''maxScore'')"
    "sq_score (exportQuery env query) = scoreFilter (query ''minScore'') (query ''maxScore'')"
    by (simp_all add: sessionsQuery_def exportQuery_def)
  have M: "session_base_matches (sessionsQuery env query) s \<longrightarrow>
        score_in_range (scoreFilter (query ''minScore'') (query ''maxScore'')) (score s)"
    by (simp add: session_base_matches_def Q)
  have S: "map score example_sessions = [5, 5, 6]"
    by (simp add: example_sessions_def quiz_def)
  have R: "score_in_range (scoreFilter lo hi) x \<longleftrightarrow>
        (truthy lo \<longrightarrow> num_gte (parseInt (given lo)) x) \<and>
        (truthy hi \<longrightarrow> num_lte (parseInt (given hi)) x)"
    by (rule score_in_range_scoreFilter)
  have R1: "truthy lo \<and> parseInt (given lo) = Num a \<and> truthy hi \<and> parseInt (given hi) = Num b \<longrightarrow>
        (score_in_range (scoreFilter lo hi) x \<longleftrightarrow> a \<le> x \<and> x \<le> b)"
    and R2: "truthy lo \<and> parseInt (given lo) = Num a \<and> \<not> truthy hi \<longrightarrow>
        (score_in_range (scoreFilter lo hi) x \<longleftrightarrow> a \<le> x)"
    and R3: "\<not> truthy lo \<and> truthy hi \<and> parseInt (given hi) = Num b \<longrightarrow>
        (score_in_range (scoreFilter lo hi) x \<longleftrightarrow> x \<le> b)"
    by (auto simp: R)
  from Q scoreFilter_cases[of lo hi] R R1 R2 R3 M S X E show ?thesis
    by presburger
qed

theorem score_bounds_witness:
  "truthy (score_five ''minScore'') \<and> parseInt (given (score_five ''minScore'')) = Num 5
   \<and> truthy (score_five ''maxScore'') \<and> parseInt (given (score_five ''maxScore'')) = Num 5
   \<and> score_in_range (scoreFilter (score_five ''minScore'') (score_five ''maxScore'')) 5
   \<and> \<not> score_in_range (scoreFilter (score_five ''minScore'') (score_five ''maxScore'')) 6
   \<and> session_base_matches (sessionsQuery example_env score_five) (hd example_sessions)"
proof -
  have t: "truthy (score_five ''minScore'')" "truthy (score_five ''maxScore'')"
    by (simp_all add: score_five_def truthy_def)
  have p: "parseInt (given (score_five ''minScore'')) = Num 5"
    "parseInt (given (score_five ''maxScore'')) = Num 5"
    by (simp_all add: score_five_def given_def parse_eval)
  note T = score_bounds[where lo = "score_five ''minScore''" and hi = "score_five ''maxScore''"
      and a = 5 and b = 5 and env = example_env and query = score_five and s = "hd example_sessions"]
  have m: "session_base_matches (sessionsQuery example_env score_five) (hd example_sessions)"
    by (simp add: session_base_matches_def sessionsQuery_def score_five_def truthy_def given_def
      scoreFilter_def createdAtFilter_def score_in_range_def date_in_range_def parse_eval
      example_sessions_def quiz_def)
  have n5: "(5 :: int) \<le> 5 \<and> (5 :: int) \<le> 5" and n6: "\<not> ((5 :: int) \<le> 6 \<and> (6 :: int) \<le> 5)"
    by simp_all
  from T[where x = 5] t p n5
  have a: "score_in_range (scoreFilter (score_five ''minScore'') (score_five ''maxScore'')) 5"
    by blast
  from T[where x = 6] t p n6
  have b: "\<not> score_in_range (scoreFilter (score_five ''minScore'') (score_five ''maxScore'')) 6"
    by blast
  from t p a b m show ?thesis by blast
qed

subsection \<open>Search and total\<close>

lemma cursor_skip_subset: "cursor_skip k xs = Inr ys \<Longrightarrow> set ys \<subseteq> set xs"
  by (cases k) (auto split: if_splits dest: in_set_dropD)

lemma cursor_limit_subset: "cursor_limit k xs = Inr ys \<Longrightarrow> set ys \<subseteq> set xs"
  by (cases k) (auto split: if_splits dest: in_set_takeD)

lemma cursor_window_subset: "cursor_window opts xs = Inr ys \<Longrightarrow> set ys \<subseteq> set xs"
  unfolding cursor_window_def
  by (auto split: sum.splits dest!: cursor_skip_subset cursor_limit_subset)

lemma set_mongo_sort: "set (mongo_sort key d xs) = set xs"
  by (simp add: mongo_sort_def set_sort_by)

lemma session_base_matches_or: "session_base_matches (q\<lparr> sq_or := v \<rparr>) = session_base_matches q"
  by (simp add: session_base_matches_def fun_eq_iff)

lemma session_cast_error_or: "session_cast_error (q\<lparr> sq_or := v \<rparr>) = session_cast_error q"
  by (simp add: session_cast_error_def)

lemma session_filter_search:
  assumes "session_filter env (q\<lparr> sq_or := Some pat \<rparr>) = Inr F"
  shows "\<exists>m. regex_i env pat = Some m \<and> session_cast_error q = None
     \<and> F = (\<lambda>s. session_base_matches q s \<and> session_or_matches m s)"
  using assms
  by (auto simp: session_filter_def session_cast_error_or session_base_matches_or
      split: option.splits)

lemma session_filter_base:
  assumes "session_cast_error q = None" "sq_or q = None"
  shows "session_filter env q = Inr (session_base_matches q)"
  using assms by (simp add: session_filter_def)

lemma length_filter_conj_le:
  "length (filter (\<lambda>x. P x \<and> Q x) xs) \<le> length (filter P xs)"
  by (induction xs) auto

lemma fst_populate: "fst (populate st s) = s"
  by (simp add: populate_def)

lemma search_total_general:
  assumes search: "param query ''search'' [] \<noteq> []"
    and ok: "getAllGameSessions env st query = Success r"
  shows "\<exists>m. regex_i env (param query ''search'' []) = Some m
      \<and> fst ` set (gd_sessions r) \<subseteq>
          {s \<in> set (sessions st).
             session_base_matches (sessionsQuery env query) s \<and> session_or_matches m s}
      \<and> pg_total (gd_pagination r) =
          length (filter (session_base_matches (sessionsQuery env query)) (sessions st))
      \<and> length (filter (\<lambda>s. session_base_matches (sessionsQuery env query) s \<and> session_or_matches m s)
                  (sessions st)) \<le> pg_total (gd_pagination r)
      \<and> pg_pages (gd_pagination r) =
          js_ceil_div (pg_total (gd_pagination r)) (parseInt (param query ''limit'' ''20''))"
proof -
  let ?q = "sessionsQuery env query"
  let ?pat = "param query ''search'' []"
  have fq: "sessionsFindQuery env query = ?q\<lparr> sq_or := Some ?pat \<rparr>"
    using search by (simp add: sessionsFindQuery_def Let_def)
  from ok obtain found cnt where
    f: "GameSession_find env st (sessionsFindQuery env query) (sessionsFindOptions query) = Inr found"
    and c: "GameSession_countDocuments env st ?q = Inr cnt"
    and r: "r = \<lparr> gd_sessions = found,
                 gd_pagination = paginationOf (param query ''page'' ''1'') (param query ''limit'' ''20'') cnt \<rparr>"
    by (auto simp: getAllGameSessions_def split: sum.splits)
  from f obtain F page where up: "fault st = None"
    and F: "session_filter env (?q\<lparr> sq_or := Some ?pat \<rparr>) = Inr F"
    and w: "cursor_window (sessionsFindOptions query)
              (mongo_sort (session_field (fo_sortField (sessionsFindOptions query)))
                 (fo_sortDirection (sessionsFindOptions query)) (filter F (sessions st))) = Inr page"
    and found: "found = map (populate st) page"
    by (auto simp: GameSession_find_def GameSession_sorted_def fq split: sum.splits option.splits)
  from session_filter_search[OF F] obtain m where m: "regex_i env ?pat = Some m"
    and ce: "session_cast_error ?q = None"
    and Fe: "F = (\<lambda>s. session_base_matches ?q s \<and> session_or_matches m s)"
    by blast
  have "sq_or ?q = None" by (simp add: sessionsQuery_def)
  from GameSession_countDocuments_ok[OF up session_filter_base[OF ce this]] c
  have cnt: "cnt = length (filter (session_base_matches ?q) (sessions st))"
    by simp
  have "set page \<subseteq> set (filter F (sessions st))"
    using cursor_window_subset[OF w] by (simp add: set_mongo_sort)
  then have sub: "fst ` set (gd_sessions r) \<subseteq>
      {s \<in> set (sessions st). session_base_matches ?q s \<and> session_or_matches m s}"
    by (auto simp: r found fst_populate Fe)
  have le: "length (filter (\<lambda>s. session_base_matches ?q s \<and> session_or_matches m s) (sessions st))
      \<le> length (filter (session_base_matches ?q) (sessions st))"
    by (rule length_filter_conj_le)
  have tot: "pg_total (gd_pagination r) = cnt"
    and pgs: "pg_pages (gd_pagination r) = js_ceil_div cnt (parseInt (param query ''limit'' ''20''))"
    by (simp_all add: r paginationOf_def)
  from m sub le tot pgs cnt show ?thesis
    by auto
qed

lemma ravi_matches:
  "containsText (map lowerCase ''ravi'') (map lowerCase ''ravi'')"
  "\<not> containsText (map lowerCase ''S001'') (map lowerCase ''ravi'')"
  by (simp_all add: lowerCase_def)

lemma search_ravi_filter:
  "session_filter example_env (sessionsFindQuery example_env search_ravi) =
     Inr (\<lambda>s. session_base_matches (sessionsQuery example_env search_ravi) s \<and>
               session_or_matches (\<lambda>s. containsText (map lowerCase s) (map lowerCase ''ravi'')) s)"
  by (simp add: session_filter_def sessionsFindQuery_def sessionsQuery_def search_ravi_def param_def
      session_cast_error_def nan_bound_def truthy_def scoreFilter_def createdAtFilter_def
      example_env_def literal_regex_def session_base_matches_def)

lemma search_ravi_base:
  "session_filter example_env (sessionsQuery example_env search_ravi) =
     Inr (session_base_matches (sessionsQuery example_env search_ravi))"
  by (simp add: session_filter_def sessionsQuery_def search_ravi_def
      session_cast_error_def nan_bound_def truthy_def scoreFilter_def createdAtFilter_def)

lemma search_ravi_base_all:
  "filter (session_base_matches (sessionsQuery example_env search_ravi)) example_sessions
     = example_sessions"
  by (simp add: session_base_matches_def sessionsQuery_def search_ravi_def truthy_def
      scoreFilter_def createdAtFilter_def score_in_range_def date_in_range_def
      example_sessions_def quiz_def)

lemma search_ravi_matching:
  "filter (\<lambda>s. session_base_matches (sessionsQuery example_env search_ravi) s \<and>
               session_or_matches (\<lambda>s. containsText (map lowerCase s) (map lowerCase ''ravi'')) s)
     example_sessions
   = [quiz ''64b7f0a1c2d3e4f5a6b7c8d2'' ''ravi'' 1 5 50 4000]"
proof -
  have "filter (session_or_matches (\<lambda>s. containsText (map lowerCase s) (map lowerCase ''ravi'')))
          example_sessions = [quiz ''64b7f0a1c2d3e4f5a6b7c8d2'' ''ravi'' 1 5 50 4000]"
    by (simp add: session_or_matches_def session_text_def regex_on_def lowerCase_def
        example_sessions_def quiz_def)
  then have "filter (session_or_matches (\<lambda>s. containsText (map lowerCase s) (map lowerCase ''ravi'')))
          (filter (session_base_matches (sessionsQuery example_env search_ravi)) example_sessions)
       = [quiz ''64b7f0a1c2d3e4f5a6b7c8d2'' ''ravi'' 1 5 50 4000]"
    by (simp only: search_ravi_base_all)
  then show ?thesis
    by (simp add: conj_commute)
qed

lemma search_ravi_options:
  "sessionsFindOptions search_ravi =
     \<lparr> fo_sortField = ''createdAt'', fo_sortDirection = - 1, fo_skip = Num 0, fo_limit = Num 20 \<rparr>"
  by (simp add: sessionsFindOptions_def search_ravi_def sessionSortField_def
      allowedSessionSortFields_def sortDirectionOf_def skipOf_def js_times_def js_signed_def
      parse_eval)

lemma search_ravi_response:
  "getAllGameSessions example_env example_store search_ravi =
     Success \<lparr> gd_sessions = [(quiz ''64b7f0a1c2d3e4f5a6b7c8d2'' ''ravi'' 1 5 50 4000, Some ravi)],
               gd_pagination = \<lparr> pg_page = Num 1, pg_limit = Num 20, pg_total = 3, pg_pages = Num 1 \<rparr> \<rparr>"
proof -
  have st: "fault example_store = None" "sessions example_store = example_sessions"
    "users example_store = [asha, ravi]"
    by (simp_all add: example_store_def)
  have "GameSession_sorted example_env example_store (sessionsFindQuery example_env search_ravi)
      ''createdAt'' (- 1)
      = Inr (mongo_sort (session_field ''createdAt'') (- 1)
          (filter (\<lambda>s. session_base_matches (sessionsQuery example_env search_ravi) s \<and>
               session_or_matches (\<lambda>s. containsText (map lowerCase s) (map lowerCase ''ravi'')) s)
             example_sessions))"
    by (simp only: GameSession_sorted_ok[OF st(1) search_ravi_filter] st)
  then have sorted: "GameSession_sorted example_env example_store
      (sessionsFindQuery example_env search_ravi) ''createdAt'' (- 1)
      = Inr [quiz ''64b7f0a1c2d3e4f5a6b7c8d2'' ''ravi'' 1 5 50 4000]"
    by (simp only: search_ravi_matching) (simp add: mongo_sort_def sort_by_def)
  have find: "GameSession_find example_env example_store (sessionsFindQuery example_env search_ravi)
      (sessionsFindOptions search_ravi)
      = Inr [(quiz ''64b7f0a1c2d3e4f5a6b7c8d2'' ''ravi'' 1 5 50 4000, Some ravi)]"
    by (simp add: GameSession_find_def search_ravi_options sorted cursor_window_def populate_def st
        quiz_def asha_def ravi_def)
  have cnt: "GameSession_countDocuments example_env example_store (sessionsQuery example_env search_ravi)
      = Inr 3"
    unfolding GameSession_countDocuments_ok[OF st(1) search_ravi_base] st search_ravi_base_all
    by (simp add: example_sessions_def)
  have pg: "paginationOf (param search_ravi ''page'' ''1'') (param search_ravi ''limit'' ''20'') 3
      = \<lparr> pg_page = Num 1, pg_limit = Num 20, pg_total = 3, pg_pages = Num 1 \<rparr>"
    by (simp add: paginationOf_def search_ravi_def parse_eval ceiling_rat_numeral)
  show ?thesis
    by (simp add: getAllGameSessions_def find cnt pg)
qed

text \<open>
  Claim C10. In \<open>getAllGameSessions\<close> with a non-empty \<open>search\<close>, every returned item
  satisfies the base filter and the search condition (the pattern found in
  \<open>studentIdentifier\<close>, \<open>studentId.studentName\<close>, \<open>studentId.studentId\<close> or
  \<open>studentId.mobileNumber\<close>), while \<open>pagination.total\<close> is the number of sessions that
  satisfy the base filter alone and \<open>pages\<close> is computed from that total. So \<open>total\<close> is
  at least the number of sessions that match the query the items came from, and for some
  inputs it is more: in the example store the search \<open>ravi\<close> returns the one matching
  session with \<open>total = 3\<close>.
\<close>

theorem search_total:
  "(param query ''search'' [] \<noteq> [] \<and> getAllGameSessions env st query = Success r \<longrightarrow>
      (\<exists>m. regex_i env (param query ''search'' []) = Some m
        \<and> fst ` set (gd_sessions r) \<subseteq>
            {s \<in> set (sessions st).
               session_base_matches (sessionsQuery env query) s \<and> session_or_matches m s}
        \<and> pg_total (gd_pagination r) =
            length (filter (session_base_matches (sessionsQuery env query)) (sessions st))
        \<and> length (filter (\<lambda>s. session_base_matches (sessionsQuery env query) s \<and> session_or_matches m s)
                    (sessions st)) \<le> pg_total (gd_pagination r)
        \<and> pg_pages (gd_pagination r) =
            js_ceil_div (pg_total (gd_pagination r)) (parseInt (param query ''limit'' ''20''))))
   \<and> getAllGameSessions example_env example_store search_ravi =
       Success \<lparr> gd_sessions = [populate example_store (example_sessions ! 1)],
                 gd_pagination = \<lparr> pg_page = Num 1, pg_limit = Num 20, pg_total = 3, pg_pages = Num 1 \<rparr> \<rparr>
   \<and> (\<exists>m. regex_i example_env (param search_ravi ''search'' []) = Some m
        \<and> length (filter (\<lambda>s. session_base_matches (sessionsQuery example_env search_ravi) s
                              \<and> session_or_matches m s) (sessions example_store)) = 1)"
proof -
  have A: "param query ''search'' [] \<noteq> [] \<and> getAllGameSessions env st query = Success r \<longrightarrow>
      (\<exists>m. regex_i env (param query ''search'' []) = Some m
        \<and> fst ` set (gd_sessions r) \<subseteq>
            {s \<in> set (sessions st).
               session_base_matches (sessionsQuery env query) s \<and> session_or_matches m s}
        \<and> pg_total (gd_pagination r) =
            length (filter (session_base_matches (sessionsQuery env query)) (sessions st))
        \<and> length (filter (\<lambda>s. session_base_matches (sessionsQuery env query) s \<and> session_or_matches m s)
                    (sessions st)) \<le> pg_total (gd_pagination r)
        \<and> pg_pages (gd_pagination r) =
            js_ceil_div (pg_total (gd_pagination r)) (parseInt (param query ''limit'' ''20'')))"
    using search_total_general[of query env st r] by blast
  have p: "populate example_store (example_sessions ! 1)
      = (quiz ''64b7f0a1c2d3e4f5a6b7c8d2'' ''ravi'' 1 5 50 4000, Some ravi)"
    by (simp add: populate_def example_sessions_def example_store_def quiz_def asha_def ravi_def)
  have B: "getAllGameSessions example_env example_store search_ravi =
       Success \<lparr> gd_sessions = [populate example_store (example_sessions ! 1)],
                 gd_pagination = \<lparr> pg_page = Num 1, pg_limit = Num 20, pg_total = 3, pg_pages = Num 1 \<rparr> \<rparr>"
    by (simp only: p search_ravi_response)
  have r: "regex_i example_env (param search_ravi ''search'' [])
      = Some (\<lambda>s. containsText (map lowerCase s) (map lowerCase ''ravi''))"
    by (simp add: example_env_def literal_regex_def search_ravi_def param_def)
  have "length (filter (\<lambda>s. session_base_matches (sessionsQuery example_env search_ravi) s
              \<and> session_or_matches (\<lambda>s. containsText (map lowerCase s) (map lowerCase ''ravi'')) s)
            (sessions example_store)) = 1"
    by (simp only: example_store_def store.simps search_ravi_matching) simp
  with r have C: "\<exists>m. regex_i example_env (param search_ravi ''search'' []) = Some m
        \<and> length (filter (\<lambda>s. session_base_matches (sessionsQuery example_env search_ravi) s
                              \<and> session_or_matches m s) (sessions example_store)) = 1"
    by blast
  from A B C show ?thesis by blast
qed

theorem search_total_witness:
  "param search_ravi ''search'' [] \<noteq> []
   \<and> getAllGameSessions example_env example_store search_ravi =
       Success \<lparr> gd_sessions = [populate example_store (example_sessions ! 1)],
                 gd_pagination = \<lparr> pg_page = Num 1, pg_limit = Num 20, pg_total = 3, pg_pages = Num 1 \<rparr> \<rparr>
   \<and> (\<exists>m. regex_i example_env (param search_ravi ''search'' []) = Some m
        \<and> length (filter (\<lambda>s. session_base_matches (sessionsQuery example_env search_ravi) s
                              \<and> session_or_matches m s) (sessions example_store))
            \<le> pg_total (gd_pagination
                 \<lparr> gd_sessions = [populate example_store (example_sessions ! 1)],
                   gd_pagination = \<lparr> pg_page = Num 1, pg_limit = Num 20, pg_total = 3, pg_pages = Num 1 \<rparr> \<rparr>))"
proof -
  have s: "param search_ravi ''search'' [] \<noteq> []"
    by (simp add: search_ravi_def param_def)
  note T = search_total[where query = search_ravi and env = example_env and st = example_store
      and r = "\<lparr> gd_sessions = [populate example_store (example_sessions ! 1)],
                 gd_pagination = \<lparr> pg_page = Num 1, pg_limit = Num 20, pg_total = 3, pg_pages = Num 1 \<rparr> \<rparr>"]
  from T s show ?thesis
    by blast
qed

lemma search_ravi_one_query:
  "sessionsQuery example_env search_ravi_one = sessionsQuery example_env search_ravi"
  "sessionsFindQuery example_env search_ravi_one = sessionsFindQuery example_env search_ravi"
  by (simp_all add: sessionsQuery_def sessionsFindQuery_def search_ravi_one_def search_ravi_def
      param_def truthy_def)

lemma search_ravi_one_options:
  "sessionsFindOptions search_ravi_one =
     \<lparr> fo_sortField = ''createdAt'', fo_sortDirection = - 1, fo_skip = Num 0, fo_limit = Num 1 \<rparr>"
  by (simp add: sessionsFindOptions_def search_ravi_one_def sessionSortField_def
      allowedSessionSortFields_def sortDirectionOf_def skipOf_def js_times_def js_signed_def
      parse_eval)

lemma search_ravi_one_response:
  "getAllGameSessions example_env example_store search_ravi_one =
     Success \<lparr> gd_sessions = [(quiz ''64b7f0a1c2d3e4f5a6b7c8d2'' ''ravi'' 1 5 50 4000, Some ravi)],
               gd_pagination = \<lparr> pg_page = Num 1, pg_limit = Num 1, pg_total = 3, pg_pages = Num 3 \<rparr> \<rparr>"
proof -
  have st: "fault example_store = None" "sessions example_store = example_sessions"
    "users example_store = [asha, ravi]"
    by (simp_all add: example_store_def)
  have "GameSession_sorted example_env example_store (sessionsFindQuery example_env search_ravi)
      ''createdAt'' (- 1)
      = Inr (mongo_sort (session_field ''createdAt'') (- 1)
          (filter (\<lambda>s. session_base_matches (sessionsQuery example_env search_ravi) s \<and>
               session_or_matches (\<lambda>s. containsText (map lowerCase s) (map lowerCase ''ravi'')) s)
             example_sessions))"
    by (simp only: GameSession_sorted_ok[OF st(1) search_ravi_filter] st)
  then have sorted: "GameSession_sorted example_env example_store
      (sessionsFindQuery example_env search_ravi) ''createdAt'' (- 1)
      = Inr [quiz ''64b7f0a1c2d3e4f5a6b7c8d2'' ''ravi'' 1 5 50 4000]"
    by (simp only: search_ravi_matching) (simp add: mongo_sort_def sort_by_def)
  have find: "GameSession_find example_env example_store (sessionsFindQuery example_env search_ravi_one)
      (sessionsFindOptions search_ravi_one)
      = Inr [(quiz ''64b7f0a1c2d3e4f5a6b7c8d2'' ''ravi'' 1 5 50 4000, Some ravi)]"
    by (simp add: GameSession_find_def search_ravi_one_options search_ravi_one_query sorted
        cursor_window_def populate_def st quiz_def asha_def ravi_def)
  have cnt: "GameSession_countDocuments example_env example_store
      (sessionsQuery example_env search_ravi_one) = Inr 3"
    unfolding search_ravi_one_query GameSession_countDocuments_ok[OF st(1) search_ravi_base] st
      search_ravi_base_all
    by (simp add: example_sessions_def)
  have pg: "paginationOf (param search_ravi_one ''page'' ''1'') (param search_ravi_one ''limit'' ''20'') 3
      = \<lparr> pg_page = Num 1, pg_limit = Num 1, pg_total = 3, pg_pages = Num 3 \<rparr>"
    by (simp add: paginationOf_def search_ravi_one_def parse_eval ceiling_rat_numeral)
  show ?thesis
    by (simp add: getAllGameSessions_def find cnt pg)
qed

lemma js_int_odd_square: "js_int 9007199515875289 = Num 9007199515875288"
  by (simp add: js_int_def fl_odd_square)

lemma skipOf_odd_square: "skipOf ''94906268'' ''94906267'' = Num 9007199515875288"
  by (simp add: skipOf_def js_times_def js_signed_def parse_eval js_int_odd_square)

text \<open>
  The claim as stated fails in two places. With \<open>search=ravi\<close> and \<open>limit=1\<close> the one
  session that matches the filter of the items is returned, but \<open>total\<close> is 3 and
  \<open>pages\<close> is 3: the total is counted over the filter without the search condition. And
  with \<open>page=94906268\<close> and \<open>limit=94906267\<close> the number of records skipped is the double
  of the product \<open>(page - 1) * limit\<close>, which is one less than the product.
\<close>

theorem pagination_total_counterexample:
  "getAllGameSessions example_env example_store search_ravi_one =
     Success \<lparr> gd_sessions = [populate example_store (example_sessions ! 1)],
               gd_pagination = \<lparr> pg_page = Num 1, pg_limit = Num 1, pg_total = 3, pg_pages = Num 3 \<rparr> \<rparr>
   \<and> session_filter example_env (sessionsFindQuery example_env search_ravi_one) =
       Inr (\<lambda>s. session_base_matches (sessionsQuery example_env search_ravi_one) s \<and>
                 session_or_matches (\<lambda>s. containsText (map lowerCase s) (map lowerCase ''ravi'')) s)
   \<and> length (filter (\<lambda>s. session_base_matches (sessionsQuery example_env search_ravi_one) s \<and>
                 session_or_matches (\<lambda>s. containsText (map lowerCase s) (map lowerCase ''ravi'')) s)
               (sessions example_store)) = 1
   \<and> parseInt ''94906268'' = Num 94906268 \<and> parseInt ''94906267'' = Num 94906267
   \<and> skipOf ''94906268'' ''94906267'' = Num 9007199515875288
   \<and> (94906268 - 1) * 94906267 = (9007199515875289 :: int)"
proof -
  have p: "populate example_store (example_sessions ! 1)
      = (quiz ''64b7f0a1c2d3e4f5a6b7c8d2'' ''ravi'' 1 5 50 4000, Some ravi)"
    by (simp add: populate_def example_sessions_def example_store_def quiz_def asha_def ravi_def)
  have a: "getAllGameSessions example_env example_store search_ravi_one =
     Success \<lparr> gd_sessions = [populate example_store (example_sessions ! 1)],
               gd_pagination = \<lparr> pg_page = Num 1, pg_limit = Num 1, pg_total = 3, pg_pages = Num 3 \<rparr> \<rparr>"
    by (simp only: p search_ravi_one_response)
  have b: "session_filter example_env (sessionsFindQuery example_env search_ravi_one) =
       Inr (\<lambda>s. session_base_matches (sessionsQuery example_env search_ravi_one) s \<and>
                 session_or_matches (\<lambda>s. containsText (map lowerCase s) (map lowerCase ''ravi'')) s)"
    by (simp only: search_ravi_one_query search_ravi_filter)
  have c: "length (filter (\<lambda>s. session_base_matches (sessionsQuery example_env search_ravi_one) s \<and>
                 session_or_matches (\<lambda>s. containsText (map lowerCase s) (map lowerCase ''ravi'')) s)
               (sessions example_store)) = 1"
    by (simp only: search_ravi_one_query example_store_def store.simps search_ravi_matching) simp
  have d: "parseInt ''94906268'' = Num 94906268" "parseInt ''94906267'' = Num 94906267"
    by (simp_all add: parse_eval)
  have e: "(94906268 - 1) * 94906267 = (9007199515875289 :: int)"
    by simp
  from a b c d skipOf_odd_square e show ?thesis
    by blast
qed

subsection \<open>Failures of the listings\<close>

lemma getAllStudents_failure:
  "getAllStudents env st query = Failure c msg d \<Longrightarrow>
     c = 500 \<and> msg = ''Failed to get students'' \<and> d \<noteq> None"
  by (auto simp: getAllStudents_def split: sum.splits)

lemma getAllGameSessions_failure:
  "getAllGameSessions env st query = Failure c msg d \<Longrightarrow>
     c = 500 \<and> msg = ''Failed to get game sessions'' \<and> d \<noteq> None"
  by (auto simp: getAllGameSessions_def split: sum.splits)

text \<open>
  Claim C8, as the code has it. The listing handlers check neither \<open>page\<close> nor \<open>limit\<close> and
  have no ValidationError: a failure answer of \<open>getAllStudents\<close> or \<open>getAllGameSessions\<close>
  is always the answer of the \<open>catch\<close> block, status 500 with the message
  \<open>Failed to get students\<close> or \<open>Failed to get game sessions\<close> and the message of the error
  caught. A sort key outside the allow-list raises no error: the answer is the answer for
  \<open>sortBy=createdAt\<close>.
\<close>

theorem listing_failures:
  "(getAllStudents env st query = Failure c msg d \<longrightarrow>
      c = 500 \<and> msg = ''Failed to get students'' \<and> d \<noteq> None)
   \<and> (getAllGameSessions env st query = Failure c msg d \<longrightarrow>
      c = 500 \<and> msg = ''Failed to get game sessions'' \<and> d \<noteq> None)
   \<and> (s \<notin> set allowedStudentSortFields \<longrightarrow>
        getAllStudents env st (query(''sortBy'' \<mapsto> s)) =
        getAllStudents env st (query(''sortBy'' \<mapsto> ''createdAt'')))
   \<and> (s \<notin> set allowedSessionSortFields \<longrightarrow>
        getAllGameSessions env st (query(''sortBy'' \<mapsto> s)) =
        getAllGameSessions env st (query(''sortBy'' \<mapsto> ''createdAt'')))"
proof -
  have A: "s \<notin> set allowedStudentSortFields \<longrightarrow>
        getAllStudents env st (query(''sortBy'' \<mapsto> s)) =
        getAllStudents env st (query(''sortBy'' \<mapsto> ''createdAt''))"
    using getAllStudents_sortBy[of env st query s] by (simp add: studentSortField_def)
  have B: "s \<notin> set allowedSessionSortFields \<longrightarrow>
        getAllGameSessions env st (query(''sortBy'' \<mapsto> s)) =
        getAllGameSessions env st (query(''sortBy'' \<mapsto> ''createdAt''))"
    using getAllGameSessions_sortBy[of env st query s] by (simp add: sessionSortField_def)
  from A B getAllStudents_failure[of env st query c msg d]
    getAllGameSessions_failure[of env st query c msg d]
  show ?thesis by blast
qed

lemma store_down_students:
  "getAllStudents example_env store_down Map.empty =
     Failure 500 ''Failed to get students'' (Some ''connection refused'')"
  by (simp add: getAllStudents_def User_find_def store_down_def example_store_def)

lemma store_down_sessions:
  "getAllGameSessions example_env store_down Map.empty =
     Failure 500 ''Failed to get game sessions'' (Some ''connection refused'')"
  by (simp add: getAllGameSessions_def GameSession_find_def GameSession_sorted_def store_down_def
      example_store_def sessionsFindQuery_def sessionsQuery_def session_cast_error_def param_def
      truthy_def scoreFilter_def createdAtFilter_def nan_bound_def)

theorem listing_failures_witness:
  "getAllStudents example_env store_down Map.empty =
     Failure 500 ''Failed to get students'' (Some ''connection refused'')
   \<and> getAllGameSessions example_env store_down Map.empty =
     Failure 500 ''Failed to get game sessions'' (Some ''connection refused'')
   \<and> ''password'' \<notin> set allowedStudentSortFields
   \<and> ''password'' \<notin> set allowedSessionSortFields
   \<and> getAllStudents example_env store_down [''sortBy'' \<mapsto> ''password''] =
       getAllStudents example_env store_down [''sortBy'' \<mapsto> ''createdAt'']
   \<and> getAllGameSessions example_env store_down [''sortBy'' \<mapsto> ''password''] =
       getAllGameSessions example_env store_down [''sortBy'' \<mapsto> ''createdAt'']
   \<and> (500 :: nat) = 500"
proof -
  have n: "''password'' \<notin> set allowedStudentSortFields" "''password'' \<notin> set allowedSessionSortFields"
    by (simp_all add: allowedStudentSortFields_def allowedSessionSortFields_def)
  note T = listing_failures[where env = example_env and st = store_down and query = Map.empty
      and c = 500 and msg = "''Failed to get students''" and d = "Some ''connection refused''"
      and s = "''password''"]
  from T n store_down_students store_down_sessions show ?thesis
    by blast
qed

lemma limit_zero_options:
  "studentsFindOptions limit_zero =
     \<lparr> fo_sortField = ''createdAt'', fo_sortDirection = - 1, fo_skip = Num 0, fo_limit = Num 0 \<rparr>"
  by (simp add: studentsFindOptions_def limit_zero_def studentSortField_def
      allowedStudentSortFields_def sortDirectionOf_def skipOf_def js_times_def js_signed_def
      parse_eval)

text \<open>
  The claim as stated fails: \<open>limit=0\<close> is no positive integer, and \<open>getAllStudents\<close>
  succeeds with it; the store applies no limit and \<open>pages\<close> is \<open>Infinity\<close>.
\<close>

theorem listing_validation_counterexample:
  "parseInt (param limit_zero ''limit'' ''20'') = Num 0
   \<and> \<not> (1 :: int) \<le> 0
   \<and> getAllStudents example_env example_store limit_zero =
       Success \<lparr> sd_students = [ravi, asha],
                 sd_pagination = \<lparr> pg_page = Num 1, pg_limit = Num 0, pg_total = 2, pg_pages = PosInf \<rparr> \<rparr>"
proof -
  have p: "parseInt (param limit_zero ''limit'' ''20'') = Num 0"
    "parseInt (param limit_zero ''page'' ''1'') = Num 1"
    by (simp_all add: limit_zero_def parse_eval)
  have q: "studentsQuery limit_zero = \<lparr> uq_role = ''student'', uq_isActive = True, uq_or = None \<rparr>"
    by (simp add: studentsQuery_def limit_zero_def param_def)
  have u: "filter (user_base_matches \<lparr> uq_role = ''student'', uq_isActive = True, uq_or = None \<rparr>)
      (users example_store) = [asha, ravi]"
    by (simp add: user_base_matches_def example_store_def asha_def ravi_def)
  have f: "fault example_store = None"
    by (simp add: example_store_def)
  have find: "User_find example_env example_store (studentsQuery limit_zero)
      (studentsFindOptions limit_zero) = Inr [ravi, asha]"
    by (simp add: User_find_def f q user_filter_def u limit_zero_options example_users_sorted
        cursor_window_def)
  have cnt: "User_countDocuments example_env example_store (studentsQuery limit_zero) = Inr 2"
    by (simp add: User_countDocuments_def f q user_filter_def u)
  show ?thesis
    by (simp add: getAllStudents_def find cnt paginationOf_def p)
qed

subsection \<open>Failures of the export\<close>

lemma exportCatch_staged:
  "exportCatch e (staged today) =
     ((staged today)\<lparr> res_statusCode := 500, res_sentStatus := Some 500,
         res_sentJson := Some \<lparr> ej_message = ''Failed to export student performance data'',
                                 ej_error = e \<rparr>,
         res_ended := True \<rparr>, None)"
  by (rule exportCatch_unsent) (simp add: staged_fields)

lemma exportCatch_new:
  "exportCatch e res_new =
     (res_new\<lparr> res_statusCode := 500, res_sentStatus := Some 500,
         res_sentJson := Some \<lparr> ej_message = ''Failed to export student performance data'',
                                 ej_error = e \<rparr>,
         res_ended := True \<rparr>, None)"
  by (rule exportCatch_unsent) (simp add: res_new_fields)

lemma export_written_eq:
  assumes "GameSession_sorted env st (exportQuery env query) ''createdAt'' (- 1) = Inr docs"
    and "xlsx_write (exportWorksheet env (map (populate st) docs)) = Written bytes"
  shows "exportStudentPerformance env xlsx_write today st query =
     (res_end (res_write bytes (staged today)), None)"
  using assms by (simp add: export_cases)

lemma res_written_fields:
  "res_sentStatus (res_end (res_write bytes (staged today))) = Some 200"
  "res_sentBytes (res_end (res_write bytes (staged today))) = bytes"
  "res_sentJson (res_end (res_write bytes (staged today))) = None"
  "res_ended (res_end (res_write bytes (staged today)))"
  by (simp_all add: res_write_staged res_end_def res_flush_def staged_fields)

lemma res_new_headers: "res_headers res_new = []"
  by (simp add: res_new_def)

lemma staged_headers:
  "res_headers (staged today) =
     [(''Content-Type'', ''application/vnd.openxmlformats-officedocument.spreadsheetml.sheet''),
      (''Content-Disposition'',
       ''attachment; filename='' @ [CHR 0x22] @ (''student_performance_'' @ today @ ''.xlsx'')
         @ [CHR 0x22])]"
  by (simp add: staged_def)

text \<open>
  Claim C9. The document is built in memory: when the export fails while the document is
  constructed (the query of the sessions throws, first of all for a filter value that
  cannot be cast, or the serializer throws having written nothing), the caller receives
  the structured error of the \<open>catch\<close> block: status 500 with \<open>success: false\<close>, the message
  \<open>Failed to export student performance data\<close> and the message of the error, and no byte
  of a document. After a failure of the query no header of the download is set; after a
  failure of the serializer the error goes out under the \<open>Content-Type\<close> and
  \<open>Content-Disposition\<close> of the spreadsheet, which are set before the serializer runs. A
  response that is ended without that error carries status 200 and exactly the bytes of a
  completed \<open>xlsx.write\<close>: success is signalled only after the document is fully
  serialized. With such a serializer (one that has written nothing when it throws) every
  answer is one of the two: the structured error and no byte, or the whole document.
\<close>

theorem export_failure_response:
  "(GameSession_sorted env st (exportQuery env query) ''createdAt'' (- 1) = Inl e
    \<longrightarrow> (\<exists>r. exportStudentPerformance env xlsx_write today st query = (r, None)
            \<and> res_sentStatus r = Some 500
            \<and> res_sentJson r = Some \<lparr> ej_message = ''Failed to export student performance data'',
                                       ej_error = e \<rparr>
            \<and> res_sentBytes r = [] \<and> res_ended r \<and> res_headers r = []))
   \<and> (GameSession_sorted env st (exportQuery env query) ''createdAt'' (- 1) = Inr docs
        \<and> xlsx_write (exportWorksheet env (map (populate st) docs)) = WriteFailed [] e
    \<longrightarrow> (\<exists>r. exportStudentPerformance env xlsx_write today st query = (r, None)
            \<and> res_sentStatus r = Some 500
            \<and> res_sentJson r = Some \<lparr> ej_message = ''Failed to export student performance data'',
                                       ej_error = e \<rparr>
            \<and> res_sentBytes r = [] \<and> res_ended r
            \<and> res_headers r =
                [(''Content-Type'',
                  ''application/vnd.openxmlformats-officedocument.spreadsheetml.sheet''),
                 (''Content-Disposition'',
                  ''attachment; filename='' @ [CHR 0x22] @ (''student_performance_'' @ today @ ''.xlsx'')
                    @ [CHR 0x22])]))
   \<and> (session_cast_error (exportQuery env query) = Some e
    \<longrightarrow> GameSession_sorted env st (exportQuery env query) ''createdAt'' (- 1) = Inl e)
   \<and> (exportStudentPerformance env xlsx_write today st query = (r, u)
        \<and> res_ended r \<and> res_sentJson r = None
    \<longrightarrow> (\<exists>docs. GameSession_sorted env st (exportQuery env query) ''createdAt'' (- 1) = Inr docs
            \<and> xlsx_write (exportWorksheet env (map (populate st) docs)) = Written (res_sentBytes r))
        \<and> res_sentStatus r = Some 200 \<and> u = None)
   \<and> ((\<forall>ws bytes e'. xlsx_write ws = WriteFailed bytes e' \<longrightarrow> bytes = [])
        \<and> exportStudentPerformance env xlsx_write today st query = (r, u)
    \<longrightarrow> u = None \<and> res_ended r
        \<and> ((\<exists>e'. res_sentStatus r = Some 500
                \<and> res_sentJson r = Some \<lparr> ej_message = ''Failed to export student performance data'',
                                           ej_error = e' \<rparr>
                \<and> res_sentBytes r = [])
           \<or> (\<exists>docs. GameSession_sorted env st (exportQuery env query) ''createdAt'' (- 1) = Inr docs
                \<and> xlsx_write (exportWorksheet env (map (populate st) docs)) = Written (res_sentBytes r)
                \<and> res_sentStatus r = Some 200 \<and> res_sentJson r = None)))"
proof -
  let ?sorted = "GameSession_sorted env st (exportQuery env query) ''createdAt'' (- 1)"
  have A: "?sorted = Inl e \<longrightarrow>
      (\<exists>r. exportStudentPerformance env xlsx_write today st query = (r, None)
            \<and> res_sentStatus r = Some 500
            \<and> res_sentJson r = Some \<lparr> ej_message = ''Failed to export student performance data'',
                                       ej_error = e \<rparr>
            \<and> res_sentBytes r = [] \<and> res_ended r \<and> res_headers r = [])"
    by (simp add: export_cases exportCatch_new res_new_fields res_new_headers)
  have B: "?sorted = Inr docs
        \<and> xlsx_write (exportWorksheet env (map (populate st) docs)) = WriteFailed [] e
    \<longrightarrow> (\<exists>r. exportStudentPerformance env xlsx_write today st query = (r, None)
            \<and> res_sentStatus r = Some 500
            \<and> res_sentJson r = Some \<lparr> ej_message = ''Failed to export student performance data'',
                                       ej_error = e \<rparr>
            \<and> res_sentBytes r = [] \<and> res_ended r
            \<and> res_headers r =
                [(''Content-Type'',
                  ''application/vnd.openxmlformats-officedocument.spreadsheetml.sheet''),
                 (''Content-Disposition'',
                  ''attachment; filename='' @ [CHR 0x22] @ (''student_performance_'' @ today @ ''.xlsx'')
                    @ [CHR 0x22])])"
    by (simp add: export_cases res_write_staged exportCatch_staged staged_fields staged_headers)
  have K: "session_cast_error (exportQuery env query) = Some e \<longrightarrow> ?sorted = Inl e"
    by (simp add: GameSession_sorted_def)
  have C: "(\<exists>docs. ?sorted = Inr docs
            \<and> xlsx_write (exportWorksheet env (map (populate st) docs)) = Written (res_sentBytes r))
        \<and> res_sentStatus r = Some 200 \<and> u = None"
    if h: "exportStudentPerformance env xlsx_write today st query = (r, u)"
      and en: "res_ended r" and nj: "res_sentJson r = None"
  proof (cases ?sorted)
    case (Inl e')
    with h en nj show ?thesis
      by (auto simp: export_cases exportCatch_unsent res_new_fields)
  next
    case (Inr docs)
    show ?thesis
    proof (cases "xlsx_write (exportWorksheet env (map (populate st) docs))")
      case (Written bytes)
      with Inr h show ?thesis
        by (auto simp: export_cases res_write_staged res_end_def res_flush_def staged_fields)
    next
      case (WriteFailed bytes e')
      with Inr h en nj show ?thesis
        by (cases "bytes = []")
           (auto simp: export_cases res_write_staged exportCatch_unsent exportCatch_sent staged_fields)
    qed
  qed
  have D: "u = None \<and> res_ended r
        \<and> ((\<exists>e'. res_sentStatus r = Some 500
                \<and> res_sentJson r = Some \<lparr> ej_message = ''Failed to export student performance data'',
                                           ej_error = e' \<rparr>
                \<and> res_sentBytes r = [])
           \<or> (\<exists>docs. ?sorted = Inr docs
                \<and> xlsx_write (exportWorksheet env (map (populate st) docs)) = Written (res_sentBytes r)
                \<and> res_sentStatus r = Some 200 \<and> res_sentJson r = None))"
    if at: "\<forall>ws bytes e'. xlsx_write ws = WriteFailed bytes e' \<longrightarrow> bytes = []"
      and h: "exportStudentPerformance env xlsx_write today st query = (r, u)"
  proof (cases ?sorted)
    case (Inl e')
    with h show ?thesis
      by (auto simp: export_cases exportCatch_new res_new_fields)
  next
    case (Inr docs)
    show ?thesis
    proof (cases "xlsx_write (exportWorksheet env (map (populate st) docs))")
      case (Written bytes)
      from export_written_eq[of env st query docs xlsx_write bytes today, OF Inr Written] h
      have r: "r = res_end (res_write bytes (staged today))" and u: "u = None"
        by simp_all
      have "\<exists>docs. ?sorted = Inr docs
                \<and> xlsx_write (exportWorksheet env (map (populate st) docs)) = Written (res_sentBytes r)
                \<and> res_sentStatus r = Some 200 \<and> res_sentJson r = None"
        using Inr Written by (simp add: r res_written_fields)
      moreover have "res_ended r" by (simp add: r res_written_fields)
      ultimately show ?thesis using u by blast
    next
      case (WriteFailed bytes e')
      with at have "bytes = []" by blast
      with WriteFailed Inr h show ?thesis
        by (auto simp: export_cases res_write_staged exportCatch_staged staged_fields)
    qed
  qed
  from A B K C D show ?thesis
    by blast
qed

lemma store_down_export_docs:
  "GameSession_sorted example_env store_down (exportQuery example_env Map.empty) ''createdAt'' (- 1)
     = Inl ''connection refused''"
  by (simp add: GameSession_sorted_def store_down_def example_store_def exportQuery_def
      session_cast_error_def truthy_def scoreFilter_def createdAtFilter_def nan_bound_def)

lemma level_abc_cast:
  "session_cast_error (exportQuery example_env [''level'' \<mapsto> ''abc''])
     = Some ''Cast to Number failed at path level''"
  by (simp add: exportQuery_def session_cast_error_def truthy_def given_def nan_bound_def parse_eval)

theorem export_failure_response_witness:
  "GameSession_sorted example_env store_down (exportQuery example_env Map.empty) ''createdAt'' (- 1)
     = Inl ''connection refused''
   \<and> (\<exists>r. exportStudentPerformance example_env (\<lambda>ws. Written ''PK'') ''2024-01-01'' store_down Map.empty
             = (r, None)
          \<and> res_sentStatus r = Some 500
          \<and> res_sentJson r = Some \<lparr> ej_message = ''Failed to export student performance data'',
                                      ej_error = ''connection refused'' \<rparr>
          \<and> res_sentBytes r = [] \<and> res_ended r \<and> res_headers r = [])
   \<and> GameSession_sorted example_env example_store (exportQuery example_env Map.empty) ''createdAt'' (- 1)
       = Inr (rev example_sessions)
   \<and> (\<exists>r. exportStudentPerformance example_env (\<lambda>ws. WriteFailed [] ''out of memory'') ''2024-01-01''
             example_store Map.empty = (r, None)
          \<and> res_sentStatus r = Some 500
          \<and> res_sentJson r = Some \<lparr> ej_message = ''Failed to export student performance data'',
                                      ej_error = ''out of memory'' \<rparr>
          \<and> res_sentBytes r = [] \<and> res_ended r
          \<and> res_headers r =
              [(''Content-Type'',
                ''application/vnd.openxmlformats-officedocument.spreadsheetml.sheet''),
               (''Content-Disposition'',
                ''attachment; filename='' @ [CHR 0x22] @ (''student_performance_'' @ ''2024-01-01'' @ ''.xlsx'')
                  @ [CHR 0x22])])
   \<and> session_cast_error (exportQuery example_env [''level'' \<mapsto> ''abc''])
       = Some ''Cast to Number failed at path level''
   \<and> GameSession_sorted example_env store_down (exportQuery example_env [''level'' \<mapsto> ''abc''])
       ''createdAt'' (- 1) = Inl ''Cast to Number failed at path level''
   \<and> exportStudentPerformance example_env (\<lambda>ws. Written ''PK'') ''2024-01-01'' example_store Map.empty
       = (res_end (res_write ''PK'' (staged ''2024-01-01'')), None)
   \<and> res_ended (res_end (res_write ''PK'' (staged ''2024-01-01'')))
   \<and> res_sentJson (res_end (res_write ''PK'' (staged ''2024-01-01''))) = None
   \<and> res_sentStatus (res_end (res_write ''PK'' (staged ''2024-01-01''))) = Some 200
   \<and> res_sentBytes (res_end (res_write ''PK'' (staged ''2024-01-01''))) = ''PK''
   \<and> snd (exportStudentPerformance example_env (\<lambda>ws. WriteFailed [] ''out of memory'') ''2024-01-01''
           example_store Map.empty) = None
   \<and> res_ended (fst (exportStudentPerformance example_env (\<lambda>ws. WriteFailed [] ''out of memory'')
           ''2024-01-01'' example_store Map.empty))"
proof -
  let ?R = "res_end (res_write ''PK'' (staged ''2024-01-01''))"
  let ?F = "exportStudentPerformance example_env (\<lambda>ws. WriteFailed [] ''out of memory'')
           ''2024-01-01'' example_store Map.empty"
  have ok: "exportStudentPerformance example_env (\<lambda>ws. Written ''PK'') ''2024-01-01'' example_store
      Map.empty = (?R, None)"
    by (simp add: export_cases example_export_docs)
  have f: "res_ended ?R" "res_sentJson ?R = None" "res_sentBytes ?R = ''PK''"
    by (simp_all add: res_write_staged res_end_def res_flush_def staged_fields)
  have wf: "(\<lambda>ws. WriteFailed [] ''out of memory'')
      (exportWorksheet example_env (map (populate example_store) (rev example_sessions)))
      = WriteFailed [] ''out of memory''"
    by simp
  note T1 = export_failure_response[where env = example_env and st = store_down
      and query = Map.empty and e = "''connection refused''" and xlsx_write = "\<lambda>ws. Written ''PK''"
      and today = "''2024-01-01''" and r = ?R and u = None]
  note T2 = export_failure_response[where env = example_env and st = example_store
      and query = Map.empty and e = "''connection refused''" and xlsx_write = "\<lambda>ws. Written ''PK''"
      and today = "''2024-01-01''" and r = ?R and u = None]
  note T3 = export_failure_response[where env = example_env and st = example_store
      and query = Map.empty and e = "''out of memory''" and docs = "rev example_sessions"
      and xlsx_write = "\<lambda>ws. WriteFailed [] ''out of memory''"
      and today = "''2024-01-01''" and r = ?R and u = None]
  note T4 = export_failure_response[where env = example_env and st = store_down
      and query = "[''level'' \<mapsto> ''abc'']" and e = "''Cast to Number failed at path level''"
      and xlsx_write = "\<lambda>ws. Written ''PK''"
      and today = "''2024-01-01''" and r = ?R and u = None]
  from T1 store_down_export_docs
  have a: "\<exists>r. exportStudentPerformance example_env (\<lambda>ws. Written ''PK'') ''2024-01-01'' store_down Map.empty
             = (r, None)
          \<and> res_sentStatus r = Some 500
          \<and> res_sentJson r = Some \<lparr> ej_message = ''Failed to export student performance data'',
                                      ej_error = ''connection refused'' \<rparr>
          \<and> res_sentBytes r = [] \<and> res_ended r \<and> res_headers r = []"
    by blast
  from T2 ok f have b: "res_sentStatus ?R = Some 200"
    by blast
  from T3 example_export_docs wf
  have c: "\<exists>r. exportStudentPerformance example_env (\<lambda>ws. WriteFailed [] ''out of memory'') ''2024-01-01''
             example_store Map.empty = (r, None)
          \<and> res_sentStatus r = Some 500
          \<and> res_sentJson r = Some \<lparr> ej_message = ''Failed to export student performance data'',
                                      ej_error = ''out of memory'' \<rparr>
          \<and> res_sentBytes r = [] \<and> res_ended r
          \<and> res_headers r =
              [(''Content-Type'',
                ''application/vnd.openxmlformats-officedocument.spreadsheetml.sheet''),
               (''Content-Disposition'',
                ''attachment; filename='' @ [CHR 0x22] @ (''student_performance_'' @ ''2024-01-01'' @ ''.xlsx'')
                  @ [CHR 0x22])]"
    by blast
  from T4 level_abc_cast
  have d: "GameSession_sorted example_env store_down (exportQuery example_env [''level'' \<mapsto> ''abc''])
       ''createdAt'' (- 1) = Inl ''Cast to Number failed at path level''"
    by blast
  note T5 = export_failure_response[where env = example_env and st = example_store
      and query = Map.empty and e = "''out of memory''" and docs = "rev example_sessions"
      and xlsx_write = "\<lambda>ws. WriteFailed [] ''out of memory''"
      and today = "''2024-01-01''" and r = "fst ?F" and u = "snd ?F"]
  have at: "\<forall>ws bytes e'. (\<lambda>ws. WriteFailed [] ''out of memory'') ws = WriteFailed bytes e'
      \<longrightarrow> bytes = []"
    by simp
  have pr: "?F = (fst ?F, snd ?F)"
    by simp
  from T5 at pr have g: "snd ?F = None \<and> res_ended (fst ?F)"
    by blast
  from a b c d ok f store_down_export_docs example_export_docs level_abc_cast g show ?thesis
    by blast
qed

end
